theory Spec2Isabelle
  imports Main
begin

section \<open>Python values and strings\<close>

text \<open>
  The engine of \<^verbatim>\<open>rediscover_employment_links_v3.py\<close> works on JSON records
  (Python dictionaries) and on strings.  A string is a \<open>string\<close> whose characters
  are the code points below 256, with the case folding and the white space that
  Python gives these code points; a dictionary is an association list in insertion
  order, which is what a Python \<^verbatim>\<open>dict\<close> is.  JSON values are the scalars
  \<^verbatim>\<open>null\<close>, booleans, integers and strings.
\<close>

datatype jval = JNull | JBool bool | JInt int | JStr string

datatype py_error = ValueError | AttributeError | TypeError

type_synonym pydict = "(string \<times> jval) list"

text \<open>\<^verbatim>\<open>d.get(k)\<close>: a missing key reads as \<^verbatim>\<open>None\<close>.\<close>

definition dict_get :: "pydict \<Rightarrow> string \<Rightarrow> jval" where
  "dict_get d k = (case map_of d k of None \<Rightarrow> JNull | Some v \<Rightarrow> v)"

text \<open>\<^verbatim>\<open>d[k] = v\<close>: an existing key keeps its place, a new key goes last.\<close>

fun dict_set :: "pydict \<Rightarrow> string \<Rightarrow> jval \<Rightarrow> pydict" where
  "dict_set [] k v = [(k, v)]"
| "dict_set ((k', v') # d) k v = (if k' = k then (k, v) # d else (k', v') # dict_set d k v)"

definition dict_has :: "pydict \<Rightarrow> string \<Rightarrow> bool" where
  "dict_has d k = (map_of d k \<noteq> None)"

text \<open>Truthiness, \<^verbatim>\<open>a or b\<close>, and \<^verbatim>\<open>str(v)\<close> as an f-string prints it.\<close>

fun truthy :: "jval \<Rightarrow> bool" where
  "truthy JNull = False"
| "truthy (JBool b) = b"
| "truthy (JInt n) = (n \<noteq> 0)"
| "truthy (JStr s) = (s \<noteq> [])"

definition py_or :: "jval \<Rightarrow> jval \<Rightarrow> jval" where
  "py_or a b = (if truthy a then a else b)"

definition digit_char :: "nat \<Rightarrow> char" where
  "digit_char d = char_of (48 + d)"

function str_nat :: "nat \<Rightarrow> string" where
  "str_nat n = (if n < 10 then [digit_char n] else str_nat (n div 10) @ [digit_char (n mod 10)])"
  by pat_completeness auto
termination
  by (relation "measure id") auto

declare str_nat.simps [simp del]

definition str_int :: "int \<Rightarrow> string" where
  "str_int n = (if n < 0 then CHR ''-'' # str_nat (nat (- n)) else str_nat (nat n))"

fun py_str :: "jval \<Rightarrow> string" where
  "py_str JNull = ''None''"
| "py_str (JBool b) = (if b then ''True'' else ''False'')"
| "py_str (JInt n) = str_int n"
| "py_str (JStr s) = s"

text \<open>\<^verbatim>\<open>str.lower()\<close>, \<^verbatim>\<open>str.strip()\<close>, \<^verbatim>\<open>startswith\<close>, \<^verbatim>\<open>endswith\<close>, \<^verbatim>\<open>p in s\<close>.\<close>

text \<open>
  The letters with a lower-case form are \<^verbatim>\<open>A\<close> to \<^verbatim>\<open>Z\<close> and the code points 192 to
  222 without the multiplication sign 215; white space is what \<^verbatim>\<open>str.isspace\<close>
  accepts: 9 to 13, 28 to 32, 133 and 160.
\<close>

definition lower_char :: "char \<Rightarrow> char" where
  "lower_char c =
     (let n = (of_char c :: nat) in
      if (65 \<le> n \<and> n \<le> 90) \<or> (192 \<le> n \<and> n \<le> 222 \<and> n \<noteq> 215) then char_of (n + 32) else c)"

definition lower :: "string \<Rightarrow> string" where
  "lower s = map lower_char s"

definition is_space :: "char \<Rightarrow> bool" where
  "is_space c =
     (let n = (of_char c :: nat) in
      (9 \<le> n \<and> n \<le> 13) \<or> (28 \<le> n \<and> n \<le> 32) \<or> n = 133 \<or> n = 160)"

definition lstrip :: "string \<Rightarrow> string" where
  "lstrip s = dropWhile is_space s"

definition strip :: "string \<Rightarrow> string" where
  "strip s = rev (dropWhile is_space (rev (dropWhile is_space s)))"

fun startswith :: "string \<Rightarrow> string \<Rightarrow> bool" where
  "startswith s [] = True"
| "startswith [] (p # ps) = False"
| "startswith (c # cs) (p # ps) = (c = p \<and> startswith cs ps)"

definition endswith :: "string \<Rightarrow> string \<Rightarrow> bool" where
  "endswith s p = startswith (rev s) (rev p)"

text \<open>\<open>contains s p\<close> is Python's \<^verbatim>\<open>p in s\<close>.\<close>

fun contains :: "string \<Rightarrow> string \<Rightarrow> bool" where
  "contains [] p = (p = [])"
| "contains (c # cs) p = (startswith (c # cs) p \<or> contains cs p)"

text \<open>\<^verbatim>\<open>any(k in s for k in ks)\<close>.\<close>

definition any_in :: "string list \<Rightarrow> string \<Rightarrow> bool" where
  "any_in ks s = list_ex (contains s) ks"

text \<open>\<^verbatim>\<open>s.split()\<close> on white space and \<^verbatim>\<open>sep.join(xs)\<close>.\<close>

fun split_ws_acc :: "string \<Rightarrow> string \<Rightarrow> string list" where
  "split_ws_acc cur [] = (if cur = [] then [] else [rev cur])"
| "split_ws_acc cur (c # cs) =
     (if is_space c then (if cur = [] then split_ws_acc [] cs else rev cur # split_ws_acc [] cs)
      else split_ws_acc (c # cur) cs)"

definition split_ws :: "string \<Rightarrow> string list" where
  "split_ws s = split_ws_acc [] s"

fun join :: "string \<Rightarrow> string list \<Rightarrow> string" where
  "join sep [] = []"
| "join sep [x] = x"
| "join sep (x # y # xs) = x @ sep @ join sep (y # xs)"

section \<open>The library functions the engine calls\<close>

subsection \<open>urllib.parse\<close>

text \<open>
  \<^verbatim>\<open>urlparse\<close> as CPython 3.11 defines it (\<^verbatim>\<open>urlsplit\<close> followed by the split of
  the parameters of the last path segment): leading control characters and spaces are
  dropped, tabs and line breaks are removed, the scheme is the text before the first
  colon when it is a letter followed by scheme characters, the network location
  follows \<^verbatim>\<open>//\<close> up to the next \<^verbatim>\<open>/\<close>, \<^verbatim>\<open>?\<close> or \<^verbatim>\<open>#\<close>.  A network location with
  an unmatched square bracket raises \<^verbatim>\<open>ValueError\<close>, and so does one whose
  bracketed host is neither an IPv6 address nor of the form \<^verbatim>\<open>v<hex>.<text>\<close>.
  The check of the network location under NFKC normalisation never raises on code
  points below 256 and is left out.
\<close>

record parsed =
  scheme :: string
  netloc :: string
  path :: string
  params :: string
  query :: string
  fragment :: string

definition is_alpha :: "char \<Rightarrow> bool" where
  "is_alpha c = (let n = (of_char c :: nat) in (65 \<le> n \<and> n \<le> 90) \<or> (97 \<le> n \<and> n \<le> 122))"

definition is_digit :: "char \<Rightarrow> bool" where
  "is_digit c = (let n = (of_char c :: nat) in 48 \<le> n \<and> n \<le> 57)"

definition scheme_char :: "char \<Rightarrow> bool" where
  "scheme_char c = (is_alpha c \<or> is_digit c \<or> c = CHR ''+'' \<or> c = CHR ''-'' \<or> c = CHR ''.'')"

definition c0_or_space :: "char \<Rightarrow> bool" where
  "c0_or_space c = ((of_char c :: nat) \<le> 32)"

definition unsafe_byte :: "char \<Rightarrow> bool" where
  "unsafe_byte c = ((of_char c :: nat) = 9 \<or> (of_char c :: nat) = 10 \<or> (of_char c :: nat) = 13)"

text \<open>\<open>split_at c s\<close> is \<^verbatim>\<open>s.split(c, 1)\<close> when \<open>c\<close> occurs in \<open>s\<close>.\<close>

definition split_at :: "char \<Rightarrow> string \<Rightarrow> string \<times> string" where
  "split_at c s = (takeWhile (\<lambda>x. x \<noteq> c) s, drop 1 (dropWhile (\<lambda>x. x \<noteq> c) s))"

definition netloc_delim :: "char \<Rightarrow> bool" where
  "netloc_delim c = (c = CHR ''/'' \<or> c = CHR ''?'' \<or> c = CHR ''#'')"

text \<open>
  \<^verbatim>\<open>ipaddress.IPv4Address\<close> and \<^verbatim>\<open>ipaddress.IPv6Address\<close>, as far as they accept or
  reject a string: four decimal octets up to 255 without leading zeros; up to eight
  groups of one to four hexadecimal digits, one \<^verbatim>\<open>::\<close> standing for the groups left
  out, the last two groups possibly written as an IPv4 address, and a scope after
  \<^verbatim>\<open>%\<close>.
\<close>

fun split_on :: "char \<Rightarrow> string \<Rightarrow> string \<Rightarrow> string list" where
  "split_on sep cur [] = [rev cur]"
| "split_on sep cur (c # cs) =
     (if c = sep then rev cur # split_on sep [] cs else split_on sep (c # cur) cs)"

definition is_hexdigit :: "char \<Rightarrow> bool" where
  "is_hexdigit c =
     (let n = (of_char c :: nat) in
      (48 \<le> n \<and> n \<le> 57) \<or> (65 \<le> n \<and> n \<le> 70) \<or> (97 \<le> n \<and> n \<le> 102))"

definition dec_val :: "string \<Rightarrow> nat" where
  "dec_val s = foldl (\<lambda>n c. 10 * n + (of_char c - 48)) 0 s"

definition ipv4_octet :: "string \<Rightarrow> bool" where
  "ipv4_octet s =
     (s \<noteq> [] \<and> list_all is_digit s \<and> length s \<le> 3
      \<and> (s = ''0'' \<or> \<not> startswith s ''0'') \<and> dec_val s \<le> 255)"

definition ipv4_address :: "string \<Rightarrow> bool" where
  "ipv4_address s =
     (CHR ''/'' \<notin> set s \<and> s \<noteq> [] \<and> length (split_on CHR ''.'' [] s) = 4
      \<and> list_all ipv4_octet (split_on CHR ''.'' [] s))"

definition ipv6_hextet :: "string \<Rightarrow> bool" where
  "ipv6_hextet s = (s \<noteq> [] \<and> list_all is_hexdigit s \<and> length s \<le> 4)"

text \<open>
  The groups between the colons: without an empty group inside there are eight of
  them; with one empty group inside, at index \<open>i\<close>, an empty first group needs
  \<open>i = 1\<close>, an empty last group needs \<open>i\<close> to be the last but one, and the groups
  before and after number at most seven.
\<close>

definition ipv6_parts :: "string list \<Rightarrow> bool" where
  "ipv6_parts parts =
     (length parts \<le> 9 \<and>
      (case filter (\<lambda>i. parts ! i = []) [1 ..< length parts - 1] of
         [] \<Rightarrow> length parts = 8 \<and> list_all ipv6_hextet parts
       | [i] \<Rightarrow>
           (let hi = (if hd parts = [] then i - 1 else i);
                lo = (if last parts = [] then length parts - i - 2 else length parts - i - 1)
            in (if hd parts = [] then i = 1 else True)
               \<and> (if last parts = [] then i = length parts - 2 else True)
               \<and> hi + lo \<le> 7
               \<and> list_all ipv6_hextet (take hi parts)
               \<and> list_all ipv6_hextet (drop (length parts - lo) parts))
       | _ \<Rightarrow> False))"

definition ipv6_address :: "string \<Rightarrow> bool" where
  "ipv6_address s0 =
     (let s = takeWhile (\<lambda>c. c \<noteq> CHR ''%'') s0;
          scope = drop (Suc (length s)) s0;
          parts0 = split_on CHR '':'' [] s;
          v4 = (CHR ''.'' \<in> set (last parts0));
          parts = (if v4 then butlast parts0 @ [''0'', ''0''] else parts0)
      in CHR ''/'' \<notin> set s0
         \<and> (if CHR ''%'' \<in> set s0 then scope \<noteq> [] \<and> CHR ''%'' \<notin> set scope else True)
         \<and> s \<noteq> [] \<and> 3 \<le> length parts0
         \<and> (if v4 then ipv4_address (last parts0) else True)
         \<and> ipv6_parts parts)"

text \<open>
  \<^verbatim>\<open>_check_bracketed_host\<close> on \<^verbatim>\<open>netloc.partition('[')[2].partition(']')[0]\<close>;
  \<open>True\<close> when nothing is raised.
\<close>

definition bracketed_host :: "string \<Rightarrow> string" where
  "bracketed_host nl =
     takeWhile (\<lambda>c. c \<noteq> CHR '']'') (drop 1 (dropWhile (\<lambda>c. c \<noteq> CHR ''['') nl))"

definition check_bracketed_host :: "string \<Rightarrow> bool" where
  "check_bracketed_host h =
     (if startswith h ''v''
      then (let hexes = takeWhile is_hexdigit (tl h);
                rest = dropWhile is_hexdigit (tl h)
            in hexes \<noteq> [] \<and> startswith rest ''.'' \<and> tl rest \<noteq> [] \<and> CHR 0x0A \<notin> set (tl rest))
      else \<not> ipv4_address h \<and> ipv6_address h)"

definition uses_params :: "string list" where
  "uses_params = ['''', ''ftp'', ''hdl'', ''prospero'', ''http'', ''imap'', ''https'', ''shttp'',
     ''rtsp'', ''rtspu'', ''sip'', ''sips'', ''mms'', ''sftp'', ''tel'']"

definition split_scheme :: "string \<Rightarrow> string \<times> string" where
  "split_scheme url =
     (let pre = takeWhile (\<lambda>x. x \<noteq> CHR '':'') url in
      if CHR '':'' \<in> set url \<and> pre \<noteq> [] \<and> is_alpha (hd pre) \<and> list_all scheme_char pre
      then (lower pre, drop (Suc (length pre)) url)
      else ('''', url))"

definition urlsplit :: "string \<Rightarrow> py_error + parsed" where
  "urlsplit url0 =
     (let url1 = filter (\<lambda>c. \<not> unsafe_byte c) (dropWhile c0_or_space url0);
          (sch, url2) = split_scheme url1;
          (nl, url3) = (if startswith url2 ''//''
                        then (takeWhile (\<lambda>c. \<not> netloc_delim c) (drop 2 url2),
                              dropWhile (\<lambda>c. \<not> netloc_delim c) (drop 2 url2))
                        else ('''', url2))
      in if (CHR ''['' \<in> set nl \<and> CHR '']'' \<notin> set nl) \<or> (CHR '']'' \<in> set nl \<and> CHR ''['' \<notin> set nl)
         then Inl ValueError
         else if CHR ''['' \<in> set nl \<and> CHR '']'' \<in> set nl \<and> \<not> check_bracketed_host (bracketed_host nl)
         then Inl ValueError
         else
           let (url4, frag) = (if CHR ''#'' \<in> set url3 then split_at CHR ''#'' url3 else (url3, ''''));
               (url5, q) = (if CHR ''?'' \<in> set url4 then split_at CHR ''?'' url4 else (url4, ''''))
           in Inr \<lparr>scheme = sch, netloc = nl, path = url5, params = '''', query = q, fragment = frag\<rparr>)"

text \<open>\<^verbatim>\<open>_splitparams\<close>: the parameters follow the first \<^verbatim>\<open>;\<close> of the last path segment.\<close>

definition splitparams :: "string \<Rightarrow> string \<times> string" where
  "splitparams p =
     (if CHR ''/'' \<in> set p
      then (let lastseg = rev (takeWhile (\<lambda>c. c \<noteq> CHR ''/'') (rev p));
                front = take (length p - length lastseg) p
            in if CHR '';'' \<in> set lastseg
               then (front @ fst (split_at CHR '';'' lastseg), snd (split_at CHR '';'' lastseg))
               else (p, ''''))
      else split_at CHR '';'' p)"

definition urlparse :: "string \<Rightarrow> py_error + parsed" where
  "urlparse url =
     (case urlsplit url of
        Inl e \<Rightarrow> Inl e
      | Inr r \<Rightarrow>
          if scheme r \<in> set uses_params \<and> CHR '';'' \<in> set (path r)
          then Inr (r\<lparr>path := fst (splitparams (path r)), params := snd (splitparams (path r))\<rparr>)
          else Inr r)"

text \<open>
  \<^verbatim>\<open>unquote\<close> with its defaults.  The string is cut into runs of ASCII characters
  and runs of other characters.  In a run of ASCII characters every \<^verbatim>\<open>%XX\<close> with
  two hexadecimal digits becomes the byte it names (\<^verbatim>\<open>unquote_to_bytes\<close>), and the
  bytes are decoded as UTF-8 with \<^verbatim>\<open>errors='replace'\<close>: every ill-formed sequence,
  taken as long as it is a prefix of a well-formed one, becomes one replacement
  character U+FFFD.  The other runs stay.  The decoder keeps the number of bytes still
  expected, the range allowed for the next byte and the code point read so far.  A
  code point from 256 on, U+FFFD among them, is not a character of the model; each of
  them is written as the character 255.
\<close>

definition hexval :: "char \<Rightarrow> nat option" where
  "hexval c =
     (let n = (of_char c :: nat) in
      if 48 \<le> n \<and> n \<le> 57 then Some (n - 48)
      else if 65 \<le> n \<and> n \<le> 70 then Some (n - 55)
      else if 97 \<le> n \<and> n \<le> 102 then Some (n - 87)
      else None)"

fun unquote_to_bytes :: "string \<Rightarrow> string" where
  "unquote_to_bytes (c # h # l # rest) =
     (case (c = CHR ''%'', hexval h, hexval l) of
        (True, Some a, Some b) \<Rightarrow> char_of (16 * a + b) # unquote_to_bytes rest
      | _ \<Rightarrow> c # unquote_to_bytes (h # l # rest))"
| "unquote_to_bytes s = s"

definition is_ascii :: "char \<Rightarrow> bool" where
  "is_ascii c = ((of_char c :: nat) < 128)"

definition char_of_code_point :: "nat \<Rightarrow> char" where
  "char_of_code_point n = (if n < 256 then char_of n else CHR 0xFF)"

definition utf8_lead :: "nat \<Rightarrow> (nat \<times> nat \<times> nat \<times> nat) option" where
  "utf8_lead b =
     (if 194 \<le> b \<and> b \<le> 223 then Some (1, 128, 191, b - 192)
      else if b = 224 then Some (2, 160, 191, 0)
      else if b = 237 then Some (2, 128, 159, 13)
      else if 225 \<le> b \<and> b \<le> 239 then Some (2, 128, 191, b - 224)
      else if b = 240 then Some (3, 144, 191, 0)
      else if 241 \<le> b \<and> b \<le> 243 then Some (3, 128, 191, b - 240)
      else if b = 244 then Some (3, 128, 143, 4)
      else None)"

fun utf8_decode :: "nat \<times> nat \<times> nat \<times> nat \<Rightarrow> string \<Rightarrow> string" where
  "utf8_decode (k, lo, hi, cp) [] = (if k = 0 then [] else [char_of_code_point 65533])"
| "utf8_decode (k, lo, hi, cp) (c # cs) =
     (if k = 0 \<and> is_ascii c then c # utf8_decode (0, 0, 0, 0) cs
      else
        let b = (of_char c :: nat) in
        if 0 < k \<and> lo \<le> b \<and> b \<le> hi
        then (if k = 1 then char_of_code_point (cp * 64 + (b - 128)) # utf8_decode (0, 0, 0, 0) cs
              else utf8_decode (k - 1, 128, 191, cp * 64 + (b - 128)) cs)
        else (if 0 < k then [char_of_code_point 65533] else []) @
             (case utf8_lead b of
                None \<Rightarrow> (if is_ascii c then c else char_of_code_point 65533)
                         # utf8_decode (0, 0, 0, 0) cs
              | Some st \<Rightarrow> utf8_decode st cs))"

fun unquote_runs :: "string \<Rightarrow> string \<Rightarrow> string" where
  "unquote_runs run [] = utf8_decode (0, 0, 0, 0) (unquote_to_bytes (rev run))"
| "unquote_runs run (c # cs) =
     (if is_ascii c then unquote_runs (c # run) cs
      else utf8_decode (0, 0, 0, 0) (unquote_to_bytes (rev run)) @ c # unquote_runs [] cs)"

definition unquote :: "string \<Rightarrow> string" where
  "unquote s = unquote_runs [] s"

text \<open>
  \<^verbatim>\<open>parse_qsl\<close> with its defaults: fields are separated by \<^verbatim>\<open>&\<close>, a field without
  \<^verbatim>\<open>=\<close> or with an empty value is dropped, \<^verbatim>\<open>+\<close> reads as a space, and name and
  value are unquoted.  \<^verbatim>\<open>parse_qs(q).get(k, [None])[0]\<close> is the first value of \<open>k\<close>.
\<close>

definition plus_to_space :: "string \<Rightarrow> string" where
  "plus_to_space s = map (\<lambda>c. if c = CHR ''+'' then CHR '' '' else c) s"

definition parse_qsl :: "string \<Rightarrow> (string \<times> string) list" where
  "parse_qsl qs =
     concat (map (\<lambda>nv.
        if nv = [] \<or> CHR ''='' \<notin> set nv then []
        else (let (n, v) = split_at CHR ''='' nv in
              if v = [] then [] else [(unquote (plus_to_space n), unquote (plus_to_space v))]))
       (split_on CHR ''&'' [] qs))"

definition parse_qs_first :: "string \<Rightarrow> string \<Rightarrow> string option" where
  "parse_qs_first qs k = map_of (parse_qsl qs) k"

subsection \<open>The network, the HTML parser and the clock\<close>

text \<open>
  What lies outside the program is a parameter of the model.  \<open>fetch\<close> is
  \<^verbatim>\<open>requests.get\<close> with redirects followed: \<open>Inr\<close> the response, \<open>Inl\<close> the
  text of the \<^verbatim>\<open>RequestException\<close> (time-out, connection failure, invalid URL).
  \<open>select html sel\<close> is \<^verbatim>\<open>BeautifulSoup(html, "html.parser").select(sel)\<close>, the
  anchors with what the engine reads of each; \<open>urljoin\<close> is \<^verbatim>\<open>urllib.parse.urljoin\<close>,
  which may raise; \<open>now_utc_iso\<close> is the time stamp written into a record.
\<close>

record response =
  resp_url :: string
  resp_status_code :: int
  resp_content_type :: "string option"
  resp_text :: string

record anchor =
  a_href :: "string option"
  a_text :: string
  a_aria_label :: "string option"
  a_title :: "string option"

record world =
  fetch :: "string \<Rightarrow> string + response"
  select :: "string \<Rightarrow> string \<Rightarrow> anchor list"
  urljoin :: "string \<Rightarrow> string \<Rightarrow> py_error + string"
  now_utc_iso :: string

text \<open>
  A computation returns a value or raises, and leaves the list of the URLs it has
  fetched, in order.
\<close>

type_synonym 'a io = "(py_error + 'a) \<times> string list"

definition io_return :: "'a \<Rightarrow> 'a io" where
  "io_return x = (Inr x, [])"

definition io_raise :: "py_error \<Rightarrow> 'a io" where
  "io_raise e = (Inl e, [])"

definition io_lift :: "py_error + 'a \<Rightarrow> 'a io" where
  "io_lift r = (r, [])"

definition io_bind :: "'a io \<Rightarrow> ('a \<Rightarrow> 'b io) \<Rightarrow> 'b io" where
  "io_bind m f =
     (case m of
        (Inl e, l) \<Rightarrow> (Inl e, l)
      | (Inr x, l) \<Rightarrow> (case f x of (r, l') \<Rightarrow> (r, l @ l')))"

text \<open>\<^verbatim>\<open>bool(resp)\<close> is \<^verbatim>\<open>resp.ok\<close>: the status is not a 4xx or 5xx.\<close>

definition resp_truthy :: "response \<Rightarrow> bool" where
  "resp_truthy r = (\<not> (400 \<le> resp_status_code r \<and> resp_status_code r < 600))"

section \<open>Configuration\<close>

definition DO_NOT_REWRITE_IF_STATUS_IN :: "jval list" where
  "DO_NOT_REWRITE_IF_STATUS_IN = [JInt 401, JInt 403]"

definition REDISCOVER_IF_STATUS_IN :: "jval list" where
  "REDISCOVER_IF_STATUS_IN = [JInt 404, JInt 410, JNull, JInt (- 1)]"

definition REDISCOVER_IF_SOFT404_TRUE :: bool where
  "REDISCOVER_IF_SOFT404_TRUE = True"

definition CIVICPLUS_COMMON_PATHS :: "string list" where
  "CIVICPLUS_COMMON_PATHS =
     [''/Jobs.aspx'', ''/jobs.aspx'', ''/Employment'', ''/employment'',
      ''/Employment-Opportunities'', ''/employment-opportunities'',
      ''/Careers'', ''/careers'', ''/Human-Resources'', ''/human-resources'',
      ''/QuickLinks.aspx'', ''/quicklinks.aspx'', ''/211/Departments'']"

definition KW_EMPLOYMENT :: "string list" where
  "KW_EMPLOYMENT =
     [''employment'', ''employment opportunities'', ''jobs'', ''job'', ''job openings'',
      ''job opportunities'', ''careers'', ''career opportunities'', ''human resources'', ''hr'',
      ''vacancies'', ''openings'', ''apply'', ''application'']"

definition KW_STRONG_LABELS :: "string list" where
  "KW_STRONG_LABELS =
     [''employment opportunities'', ''job openings'', ''career opportunities'', ''human resources'']"

definition KW_NEGATIVE :: "string list" where
  "KW_NEGATIVE =
     [''departments'', ''department'', ''about'', ''contact'', ''news'', ''calendar'', ''events'',
      ''agenda'', ''minutes'', ''meetings'', ''boards'', ''commissions'']"

definition ATS_HINTS :: "string list" where
  "ATS_HINTS =
     [''governmentjobs.com'', ''neogov.com'', ''appone.com'', ''paycomonline.net'',
      ''jobapscloud.com'', ''frontlineeducation.com'', ''applitrack.com'']"

definition SOCIAL_BLOCK :: "string list" where
  "SOCIAL_BLOCK =
     [''facebook.com'', ''twitter.com'', ''x.com'', ''instagram.com'', ''youtube.com'', ''linkedin.com'']"

text \<open>\<^verbatim>\<open>SOFT404_RE\<close> is an alternation of literals, searched ignoring case.\<close>

definition SOFT404_PHRASES :: "string list" where
  "SOFT404_PHRASES =
     [''page not found'', ''404'', ''the page you requested'', ''does not exist'', ''not be found'']"

definition BLOCKED_PATTERNS :: "string list" where
  "BLOCKED_PATTERNS =
     [''checking your browser'', ''ddos protection'', ''attention required'', ''cloudflare'',
      ''please enable javascript'', ''enable javascript'', ''enable cookies'', ''access denied'',
      ''temporarily unavailable'', ''verify you are human'']"

definition APPLICATION_HINTS :: "string list" where
  "APPLICATION_HINTS =
     [''application for employment'', ''employment application'', ''job application'',
      ''application'', ''fillable'', ''empapp'', ''employment-app'']"

text \<open>
  \<^verbatim>\<open>CIVICPLUS_PAGEID_RE.match(p)\<close> for the pattern \<^verbatim>\<open>^/\d{2,6}/\<close>: a slash, two to
  six digits, a slash.
\<close>

definition civicplus_pageid_match :: "string \<Rightarrow> bool" where
  "civicplus_pageid_match p =
     (case p of
        [] \<Rightarrow> False
      | c # cs \<Rightarrow>
          c = CHR ''/'' \<and>
          (let ds = takeWhile is_digit cs in
           2 \<le> length ds \<and> length ds \<le> 6 \<and> startswith (drop (length ds) cs) ''/''))"

section \<open>Helpers\<close>

definition is_url_str :: "string \<Rightarrow> bool" where
  "is_url_str v = (startswith (lower (strip v)) ''http://'' \<or> startswith (lower (strip v)) ''https://'')"

fun is_url :: "jval \<Rightarrow> bool" where
  "is_url (JStr v) = is_url_str v"
| "is_url _ = False"

definition is_pdf :: "string \<Rightarrow> bool" where
  "is_pdf url = endswith (takeWhile (\<lambda>c. c \<noteq> CHR ''?'') (lower url)) ''.pdf''"

definition blocked_reason :: "string \<Rightarrow> string option" where
  "blocked_reason html = find (\<lambda>p. contains (lower html) p) BLOCKED_PATTERNS"

definition looks_soft404 :: "response \<Rightarrow> bool" where
  "looks_soft404 resp =
     (if resp_status_code resp \<noteq> 200 then False
      else
        let ctype = lower (case resp_content_type resp of None \<Rightarrow> '''' | Some c \<Rightarrow> c) in
        if \<not> contains ctype ''text/html'' \<and> \<not> contains ctype ''application/xhtml'' \<and> ctype \<noteq> ''''
        then False
        else any_in SOFT404_PHRASES (lower (take 250000 (resp_text resp))))"

fun homepage :: "jval \<Rightarrow> py_error + string option" where
  "homepage (JStr url) =
     (if strip url = [] then Inr None
      else
        case urlparse (strip url) of
          Inl e \<Rightarrow> Inl e
        | Inr u \<Rightarrow>
            if scheme u = [] \<or> netloc u = [] then Inr None
            else Inr (Some (scheme u @ ''://'' @ netloc u @ ''/'')))"
| "homepage _ = Inr None"

definition host_norm :: "string \<Rightarrow> string" where
  "host_norm url =
     (case urlparse url of
        Inl e \<Rightarrow> ''''
      | Inr u \<Rightarrow> (let h = lower (netloc u) in if startswith h ''www.'' then drop 4 h else h))"

definition same_site :: "string \<Rightarrow> string \<Rightarrow> bool" where
  "same_site a b = (let ha = host_norm a; hb = host_norm b in ha \<noteq> '''' \<and> ha = hb)"

definition is_social :: "string \<Rightarrow> bool" where
  "is_social url = any_in SOCIAL_BLOCK (lower url)"

definition is_ats :: "string \<Rightarrow> bool" where
  "is_ats url = any_in ATS_HINTS (lower url)"

definition kw_hit :: "string \<Rightarrow> bool" where
  "kw_hit s = any_in KW_EMPLOYMENT (lower s)"

text \<open>
  \<^verbatim>\<open>get\<close> turns a \<^verbatim>\<open>RequestException\<close> into the pair \<^verbatim>\<open>(None, str(e))\<close>.  The pause
  after each request is not modelled.
\<close>

definition get :: "world \<Rightarrow> string \<Rightarrow> (response option \<times> string option) io" where
  "get w url =
     (case fetch w url of
        Inr r \<Rightarrow> (Inr (Some r, None), [url])
      | Inl e \<Rightarrow> (Inr (None, Some e), [url]))"

section \<open>Link extraction\<close>

text \<open>
  The loop shared by \<^verbatim>\<open>extract_links\<close> and \<^verbatim>\<open>extract_links_with_selector\<close>: an
  anchor without a usable \<^verbatim>\<open>href\<close> is skipped; the label is the visible text with its
  white space collapsed, then \<^verbatim>\<open>aria-label\<close> and \<^verbatim>\<open>title\<close>, joined by spaces.
\<close>

definition opt_str :: "string option \<Rightarrow> string" where
  "opt_str v = (case v of None \<Rightarrow> '''' | Some s \<Rightarrow> s)"

fun links_of_anchors :: "world \<Rightarrow> string \<Rightarrow> anchor list \<Rightarrow> py_error + (string \<times> string) list" where
  "links_of_anchors w base_url [] = Inr []"
| "links_of_anchors w base_url (a # as) =
     (let href = strip (opt_str (a_href a)) in
      if href = [] \<or> startswith href ''#'' then links_of_anchors w base_url as
      else
        case urljoin w base_url href of
          Inl e \<Rightarrow> Inl e
        | Inr abs_url \<Rightarrow>
            (let txt = join '' '' (split_ws (a_text a));
                 aria = strip (opt_str (a_aria_label a));
                 title = strip (opt_str (a_title a));
                 combined = strip (join '' '' (filter (\<lambda>x. x \<noteq> []) [txt, aria, title]))
             in case links_of_anchors w base_url as of
                  Inl e \<Rightarrow> Inl e
                | Inr out \<Rightarrow> Inr ((abs_url, combined) # out)))"

definition extract_links :: "world \<Rightarrow> string \<Rightarrow> string \<Rightarrow> py_error + (string \<times> string) list" where
  "extract_links w base_url html = links_of_anchors w base_url (select w html ''a[href]'')"

definition extract_links_with_selector ::
  "world \<Rightarrow> string \<Rightarrow> string \<Rightarrow> string \<Rightarrow> py_error + (string \<times> string) list" where
  "extract_links_with_selector w base_url html selector =
     links_of_anchors w base_url (select w html selector)"

text \<open>\<open>map_err f xs\<close> runs \<open>f\<close> over \<open>xs\<close> in order and stops at the first exception.\<close>

fun map_err :: "('a \<Rightarrow> py_error + 'b) \<Rightarrow> 'a list \<Rightarrow> py_error + 'b list" where
  "map_err f [] = Inr []"
| "map_err f (x # xs) =
     (case f x of
        Inl e \<Rightarrow> Inl e
      | Inr y \<Rightarrow> (case map_err f xs of Inl e \<Rightarrow> Inl e | Inr ys \<Rightarrow> Inr (y # ys)))"

text \<open>
  The four search phrases, as \<^verbatim>\<open>urlencode({"searchPhrase": p})\<close> writes them.
\<close>

definition civicplus_search_urls :: "world \<Rightarrow> string \<Rightarrow> py_error + string list" where
  "civicplus_search_urls w base_home =
     map_err (\<lambda>q. urljoin w base_home (''Search?'' @ q))
       [''searchPhrase=employment'', ''searchPhrase=jobs'',
        ''searchPhrase=Employment+Opportunities'', ''searchPhrase=human+resources'']"

section \<open>Platform detection and scoring\<close>

definition detect_platform :: "pydict \<Rightarrow> py_error + string" where
  "detect_platform rec =
     (case py_or (dict_get rec ''ATS or Platform (if known)'') (JStr '''') of
        JStr k \<Rightarrow>
          (let known = lower (strip k) in
           if contains known ''civicplus'' then Inr ''civicplus''
           else if contains known ''civiclift'' then Inr ''civiclift''
           else if contains known ''granicus'' then Inr ''granicus''
           else
             let home = py_or (dict_get rec ''Town Website'') (JStr '''');
                 emp = py_or (dict_get rec ''Employment Page URL'') (JStr '''');
                 blob = lower (py_str home @ '' '' @ py_str emp)
             in if contains blob ''civicplus.com'' \<or> contains blob ''jobs.aspx''
                   \<or> contains blob ''quicklinks.aspx'' then Inr ''civicplus''
                else if contains blob ''civiclift'' then Inr ''civiclift''
                else if contains blob ''granicus'' then Inr ''granicus''
                else Inr ''other'')
      | _ \<Rightarrow> Inl AttributeError)"

definition score_candidate :: "string \<Rightarrow> string \<Rightarrow> string \<Rightarrow> string \<Rightarrow> int" where
  "score_candidate url label base_home source =
     (if is_social url then - 10000
      else
        let u = lower url;
            t = lower label;
            s = (0 :: int);
            s = (if same_site url base_home then s + 40 else s);
            s = (if is_ats url then s + 45 else s);
            s = (if source \<in> set [''civicplus_path'', ''civiclift_path'', ''granicus_path'']
                 then s + 20 else s);
            s = (if kw_hit u \<or> kw_hit t then s + 50 else s);
            s = (if any_in KW_STRONG_LABELS t then s + 15 else s);
            s = (case urlparse url of
                   Inl e \<Rightarrow> s
                 | Inr p \<Rightarrow>
                     if civicplus_pageid_match (path p)
                        \<and> (contains u ''employment'' \<or> contains u ''job'' \<or> contains u ''career'')
                     then s + 30 else s);
            s = (if is_pdf url then s - 25 else s);
            s = (if any_in [''employment'', ''jobs'', ''careers'', ''human-resources''] u
                 then s + 10 else s);
            s = (if contains u ''jobs.aspx'' then s + 20 else s);
            s = (if any_in KW_NEGATIVE u \<and> \<not> kw_hit u then s - 15 else s);
            s = (if any_in KW_NEGATIVE t \<and> \<not> kw_hit t then s - 10 else s)
        in s)"

section \<open>Validation\<close>

definition unwrap_granicus_splash :: "string \<Rightarrow> string option" where
  "unwrap_granicus_splash url =
     (case urlparse url of
        Inl e \<Rightarrow> None
      | Inr u \<Rightarrow>
          (case parse_qs_first (query u) ''splash'' of
             None \<Rightarrow> None
           | Some sp \<Rightarrow>
               if sp = [] then None
               else (let splash = unquote sp in if is_url_str splash then Some splash else None)))"

text \<open>
  Lines 372 to 381: the final URL is that of the response, except that a vendor
  candidate under \<^verbatim>\<open>/careers/\<close> whose response collapsed to the site root keeps the
  candidate URL.  Neither \<^verbatim>\<open>urlparse\<close> is guarded.
\<close>

definition restore_final :: "string \<Rightarrow> response \<Rightarrow> py_error + string" where
  "restore_final url resp =
     (let final = (if resp_url resp = [] then url else resp_url resp) in
      if is_ats url then
        (case urlparse url of
           Inl e \<Rightarrow> Inl e
         | Inr parsed_orig \<Rightarrow>
             (case urlparse final of
                Inl e \<Rightarrow> Inl e
              | Inr parsed_final \<Rightarrow>
                  if startswith (path parsed_orig) ''/careers/''
                     \<and> (path parsed_final = '''' \<or> path parsed_final = ''/'')
                  then Inr url else Inr final))
      else Inr final)"

type_synonym verdict = "bool \<times> string option \<times> string \<times> string option"

text \<open>
  Lines 392 to 401: the block signature found in an HTML response; the notice to
  enable JavaScript does not count on a vendor page.
\<close>

definition interstitial_block :: "response \<Rightarrow> string \<Rightarrow> string option" where
  "interstitial_block resp final =
     (let ctype = lower (opt_str (resp_content_type resp));
          html = resp_text resp
      in if contains ctype ''text/html'' \<or> ctype = ''''
         then (let block = blocked_reason html in
               if (block = Some ''enable javascript'' \<or> block = Some ''please enable javascript'')
                  \<and> is_ats final
               then None else block)
         else None)"

text \<open>Lines 384 to 417: the checks on a fetched response, in the source's order.\<close>

definition judge :: "response \<Rightarrow> string \<Rightarrow> string \<Rightarrow> verdict" where
  "judge resp final base_home =
     (let splash_target = unwrap_granicus_splash final in
      if splash_target \<noteq> None \<and> splash_target \<noteq> Some '''' \<and> is_ats (the splash_target)
      then (True, splash_target, ''ok_granicus_splash_to_ats'', None)
      else if resp_status_code resp \<ge> 400
      then (False, Some final, ''status_'' @ str_int (resp_status_code resp), None)
      else
        let block = interstitial_block resp final
        in if block \<noteq> None \<and> block \<noteq> Some ''''
           then (False, Some final, ''blocked_or_interstitial'', block)
           else if looks_soft404 resp then (False, Some final, ''soft404'', None)
           else if is_social final then (False, Some final, ''social_blocked'', None)
           else if \<not> same_site final base_home \<and> \<not> is_ats final
           then (False, Some final, ''offsite_not_ats'', None)
           else (True, Some final, ''ok'', None))"

definition validate_candidate :: "world \<Rightarrow> string \<Rightarrow> string \<Rightarrow> verdict io" where
  "validate_candidate w url base_home =
     io_bind (get w url) (\<lambda>(resp, err).
       case resp of
         None \<Rightarrow> io_return (False, None, ''fetch_error: '' @ (case err of None \<Rightarrow> ''None'' | Some e \<Rightarrow> e), None)
       | Some r \<Rightarrow>
           io_bind (io_lift (restore_final url r)) (\<lambda>final.
             io_return (judge r final base_home)))"

section \<open>The application form finder\<close>

definition pdf_score :: "string \<Rightarrow> string \<times> string \<Rightarrow> int" where
  "pdf_score base_home ut =
     (let hay = lower (fst ut @ '' '' @ snd ut);
          s = (0 :: int);
          s = (if same_site (fst ut) base_home then s + 20 else s);
          s = foldl (\<lambda>s hint. if contains hay hint then s + 25 else s) s APPLICATION_HINTS;
          s = (if contains hay ''application'' then s + 10 else s)
      in s)"

fun best_pdf_loop ::
  "string \<Rightarrow> (string \<times> string) list \<Rightarrow> string option \<times> int \<Rightarrow> string option \<times> int" where
  "best_pdf_loop base_home [] acc = acc"
| "best_pdf_loop base_home (ut # pdfs) (best, best_score) =
     (let s = pdf_score base_home ut in
      if s > best_score then best_pdf_loop base_home pdfs (Some (fst ut), s)
      else best_pdf_loop base_home pdfs (best, best_score))"

definition find_application_pdf :: "world \<Rightarrow> string \<Rightarrow> string \<Rightarrow> (string option \<times> string) io" where
  "find_application_pdf w employment_url base_home =
     io_bind (get w employment_url) (\<lambda>(resp, err).
       case resp of
         None \<Rightarrow> io_return (None, ''employment_fetch_error: '' @ (case err of None \<Rightarrow> ''None'' | Some e \<Rightarrow> e))
       | Some r \<Rightarrow>
           if resp_status_code r \<ge> 400 \<or> looks_soft404 r
           then io_return (None, ''employment_not_ok: '' @ str_int (resp_status_code r))
           else
             let ctype = lower (opt_str (resp_content_type r)) in
             if \<not> contains ctype ''text/html'' \<and> ctype \<noteq> ''''
             then io_return (None, ''employment_not_html'')
             else
               io_bind (io_lift (extract_links w (if resp_url r = [] then employment_url else resp_url r)
                                   (resp_text r))) (\<lambda>links.
                 let pdfs = filter (\<lambda>ut. is_pdf (fst ut)) links in
                 if pdfs = [] then io_return (None, ''no_pdf_links'')
                 else
                   let (best, best_score) = best_pdf_loop base_home pdfs (None, - 999) in
                   if best \<noteq> None \<and> best \<noteq> Some '''' \<and> best_score \<ge> 35
                   then
                     io_bind (validate_candidate w (the best) base_home) (\<lambda>(ok, final, reason, b).
                       if ok then io_return (final, ''application_pdf_found_on_employment_page'')
                       else io_return (None, ''application_pdf_candidate_invalid:'' @ reason))
                   else io_return (None, ''no_confident_application_pdf_found'')))"

section \<open>Candidate generation\<close>

type_synonym cand = "string \<times> string \<times> string"

definition granicus_ats_fallback_candidates :: "jval \<Rightarrow> py_error + cand list" where
  "granicus_ats_fallback_candidates town =
     (case py_or town (JStr '''') of
        JStr s \<Rightarrow>
          (let slug = filter (\<lambda>c. c \<in> set ''abcdefghijklmnopqrstuvwxyz0123456789'') (lower s) in
           Inr [(''https://www.governmentjobs.com/careers/'' @ slug @ ''ct'',
                 ''ATS_FALLBACK:governmentjobs_slug_ct'', ''ats_fallback''),
                (''https://www.governmentjobs.com/careers/'' @ slug,
                 ''ATS_FALLBACK:governmentjobs_slug'', ''ats_fallback'')])
      | _ \<Rightarrow> Inl AttributeError)"

text \<open>The static paths of a platform, joined to the homepage: \<^verbatim>\<open>urljoin(base_home, p.lstrip("/"))\<close>.\<close>

definition path_candidates :: "world \<Rightarrow> string \<Rightarrow> string \<Rightarrow> string \<Rightarrow> string list \<Rightarrow> py_error + cand list" where
  "path_candidates w base_home tag source paths =
     map_err (\<lambda>p. case urljoin w base_home (dropWhile (\<lambda>c. c = CHR ''/'') p) of
                     Inl e \<Rightarrow> Inl e
                   | Inr u \<Rightarrow> Inr (u, tag @ p, source)) paths"

text \<open>
  The homepage crawl every platform repeats: when the homepage was fetched, is not an
  error page and not a soft 404, all its links, then those of its navigation and footer,
  each list filtered by the platform's test \<open>keep\<close>.
\<close>

definition crawl_homepage ::
  "world \<Rightarrow> string \<Rightarrow> response option \<Rightarrow> (string \<Rightarrow> string \<Rightarrow> bool) \<Rightarrow> py_error + cand list" where
  "crawl_homepage w base_home h_resp keep =
     (case h_resp of
        None \<Rightarrow> Inr []
      | Some r \<Rightarrow>
          if resp_truthy r \<and> resp_status_code r < 400 \<and> \<not> looks_soft404 r then
            (let page_url = (if resp_url r = [] then base_home else resp_url r);
                 html = resp_text r
             in case extract_links w page_url html of
                  Inl e \<Rightarrow> Inl e
                | Inr l1 \<Rightarrow>
                    (case extract_links_with_selector w page_url html ''nav a[href], footer a[href]'' of
                       Inl e \<Rightarrow> Inl e
                     | Inr l2 \<Rightarrow>
                         Inr (map (\<lambda>(u, t). (u, t, ''homepage_link'')) (filter (\<lambda>(u, t). keep u t) l1)
                              @ map (\<lambda>(u, t). (u, t, ''nav_footer_link'')) (filter (\<lambda>(u, t). keep u t) l2))))
          else Inr [])"

definition path_of :: "string \<Rightarrow> py_error + string" where
  "path_of u = (case urlparse u of Inl e \<Rightarrow> Inl e | Inr p \<Rightarrow> Inr (path p))"

text \<open>
  The CivicPlus test reads \<^verbatim>\<open>urlparse(u).path\<close> unguarded, but only when neither the
  URL nor the label has a keyword.
\<close>

fun filter_err :: "('a \<Rightarrow> py_error + bool) \<Rightarrow> 'a list \<Rightarrow> py_error + 'a list" where
  "filter_err f [] = Inr []"
| "filter_err f (x # xs) =
     (case f x of
        Inl e \<Rightarrow> Inl e
      | Inr b \<Rightarrow> (case filter_err f xs of Inl e \<Rightarrow> Inl e | Inr ys \<Rightarrow> Inr (if b then x # ys else ys)))"

definition civicplus_keep :: "string \<times> string \<Rightarrow> py_error + bool" where
  "civicplus_keep ut =
     (if kw_hit (fst ut) \<or> kw_hit (snd ut) then Inr True
      else case path_of (fst ut) of Inl e \<Rightarrow> Inl e | Inr p \<Rightarrow> Inr (civicplus_pageid_match p))"

definition civicplus_keep_links :: "(string \<times> string) list \<Rightarrow> string \<Rightarrow> py_error + cand list" where
  "civicplus_keep_links l source =
     (case filter_err civicplus_keep l of
        Inl e \<Rightarrow> Inl e
      | Inr k \<Rightarrow> Inr (map (\<lambda>(u, t). (u, t, source)) k))"

fun civicplus_search :: "world \<Rightarrow> string list \<Rightarrow> cand list io" where
  "civicplus_search w [] = io_return []"
| "civicplus_search w (s_url # rest) =
     io_bind (get w s_url) (\<lambda>(s_resp, err).
       io_bind
         (case s_resp of
            None \<Rightarrow> io_return []
          | Some r \<Rightarrow>
              if \<not> resp_truthy r \<or> resp_status_code r \<ge> 400 \<or> looks_soft404 r then io_return []
              else io_bind (io_lift (extract_links w (resp_url r) (resp_text r))) (\<lambda>l.
                     io_lift (civicplus_keep_links l ''civicplus_search'')))
         (\<lambda>found. io_bind (civicplus_search w rest) (\<lambda>more. io_return (found @ more))))"

text \<open>Step 2 of \<^verbatim>\<open>discover_civicplus\<close>: the homepage crawl.\<close>

definition civicplus_homepage_crawl :: "world \<Rightarrow> string \<Rightarrow> cand list io" where
  "civicplus_homepage_crawl w base_home =
     io_bind (get w base_home) (\<lambda>(h_resp, err).
       case h_resp of
         None \<Rightarrow> io_return []
       | Some r \<Rightarrow>
           if resp_truthy r \<and> resp_status_code r < 400 \<and> \<not> looks_soft404 r then
             (let page_url = (if resp_url r = [] then base_home else resp_url r);
                  html = resp_text r
              in io_bind (io_lift (extract_links w page_url html)) (\<lambda>l1.
                 io_bind (io_lift (civicplus_keep_links l1 ''homepage_link'')) (\<lambda>k1.
                 io_bind (io_lift (extract_links_with_selector w page_url html
                                     ''nav a[href], footer a[href]'')) (\<lambda>l2.
                 io_bind (io_lift (civicplus_keep_links l2 ''nav_footer_link'')) (\<lambda>k2.
                 io_return (k1 @ k2))))))
           else io_return [])"

text \<open>Step 3: the quick links page.\<close>

definition civicplus_quicklinks_crawl :: "world \<Rightarrow> string \<Rightarrow> cand list io" where
  "civicplus_quicklinks_crawl w base_home =
     io_bind (io_lift (urljoin w base_home ''QuickLinks.aspx'')) (\<lambda>ql.
     io_bind (get w ql) (\<lambda>(q_resp, err).
       case q_resp of
         None \<Rightarrow> io_return []
       | Some r \<Rightarrow>
           if resp_truthy r \<and> resp_status_code r < 400 \<and> \<not> looks_soft404 r then
             io_bind (io_lift (extract_links w (resp_url r) (resp_text r))) (\<lambda>l.
               io_return (map (\<lambda>(u, t). (u, t, ''quicklinks''))
                  (filter (\<lambda>(u, t). kw_hit u \<or> kw_hit t \<or> contains (lower u) ''jobs.aspx'') l)))
           else io_return []))"

text \<open>Step 1, the static paths, then steps 2 and 3, then step 4, the site search.\<close>

definition discover_civicplus :: "world \<Rightarrow> string \<Rightarrow> cand list io" where
  "discover_civicplus w base_home =
     io_bind (io_lift (path_candidates w base_home ''CIVICPLUS_PATH:'' ''civicplus_path''
                         CIVICPLUS_COMMON_PATHS)) (\<lambda>c1.
     io_bind (civicplus_homepage_crawl w base_home) (\<lambda>c2.
     io_bind (civicplus_quicklinks_crawl w base_home) (\<lambda>c3.
     io_bind (io_lift (civicplus_search_urls w base_home)) (\<lambda>s_urls.
     io_bind (civicplus_search w s_urls) (\<lambda>c4.
     io_return (c1 @ c2 @ c3 @ c4))))))"

definition discover_civiclift :: "world \<Rightarrow> string \<Rightarrow> cand list io" where
  "discover_civiclift w base_home =
     io_bind (io_lift (path_candidates w base_home ''CIVICLIFT_PATH:'' ''civiclift_path''
                         [''/employment'', ''/job-openings'', ''/jobs'', ''/career-opportunities'', ''/careers''])) (\<lambda>c1.
     io_bind (get w base_home) (\<lambda>(h_resp, err).
     io_bind (io_lift (crawl_homepage w base_home h_resp (\<lambda>u t. kw_hit u \<or> kw_hit t))) (\<lambda>c2.
     io_return (c1 @ c2 @ [(base_home, ''CIVICLIFT_FALLBACK_HOME'', ''fallback_home'')]))))"

definition discover_granicus :: "world \<Rightarrow> string \<Rightarrow> cand list io" where
  "discover_granicus w base_home =
     io_bind (get w base_home) (\<lambda>(h_resp, err).
     io_bind (io_lift (crawl_homepage w base_home h_resp (\<lambda>u t. is_ats u \<or> kw_hit u \<or> kw_hit t))) (\<lambda>c1.
     io_bind (io_lift (path_candidates w base_home ''GRANICUS_PATH:'' ''granicus_path''
                         [''/government/human-resources'', ''/government/human-resources/city-jobs'', ''/jobs''])) (\<lambda>c2.
     io_return (c1 @ c2))))"

definition discover_other :: "world \<Rightarrow> string \<Rightarrow> cand list io" where
  "discover_other w base_home =
     io_bind (get w base_home) (\<lambda>(h_resp, err).
     io_lift (crawl_homepage w base_home h_resp
                (\<lambda>u t. kw_hit u \<or> kw_hit t \<or> contains (lower t) ''human resources'')))"

section \<open>The per-record state machine\<close>

definition should_attempt :: "pydict \<Rightarrow> bool" where
  "should_attempt rec =
     (let status = dict_get rec ''employment_url_status_code'';
          soft404 = truthy (dict_get rec ''employment_url_soft404'')
      in if status \<in> set DO_NOT_REWRITE_IF_STATUS_IN then False
         else if status \<in> set REDISCOVER_IF_STATUS_IN then True
         else if REDISCOVER_IF_SOFT404_TRUE \<and> soft404 then True
         else False)"

definition update_record ::
  "world \<Rightarrow> pydict \<Rightarrow> string \<Rightarrow> string \<Rightarrow> string \<Rightarrow> int \<Rightarrow> string \<Rightarrow> int \<Rightarrow> string \<Rightarrow> pydict" where
  "update_record w rec new_emp platform change_reason confidence discovery_method
       discovery_score validation_reason =
     (let rec = dict_set rec ''platform_detected'' (JStr platform);
          rec = dict_set rec ''Employment Page URL'' (JStr new_emp);
          rec = dict_set rec ''employment_url_final'' (JStr new_emp);
          rec = dict_set rec ''employment_url_last_checked_at'' (JStr (now_utc_iso w));
          rec = dict_set rec ''employment_url_change_reason'' (JStr change_reason);
          rec = dict_set rec ''employment_url_confidence'' (JInt confidence);
          rec = dict_set rec ''employment_url_discovery_method'' (JStr discovery_method);
          rec = dict_set rec ''employment_url_discovery_score'' (JInt discovery_score);
          rec = dict_set rec ''employment_url_validation_reason'' (JStr validation_reason)
      in rec)"

text \<open>Lines 659 to 664: the site URL is replaced by its homepage.\<close>

definition str_or :: "string option \<Rightarrow> jval \<Rightarrow> jval" where
  "str_or h v = (case h of None \<Rightarrow> v | Some s \<Rightarrow> if s = [] then v else JStr s)"

definition normalize_town_website :: "pydict \<Rightarrow> py_error + pydict" where
  "normalize_town_website rec =
     (if is_url (dict_get rec ''Town Website'') then
        (case homepage (dict_get rec ''Town Website'') of
           Inl e \<Rightarrow> Inl e
         | Inr h \<Rightarrow> Inr (dict_set rec ''Town Website'' (str_or h (dict_get rec ''Town Website''))))
      else if is_url (dict_get rec ''Employment Page URL'') then
        (case homepage (dict_get rec ''Employment Page URL'') of
           Inl e \<Rightarrow> Inl e
         | Inr h \<Rightarrow> Inr (dict_set rec ''Town Website'' (str_or h (dict_get rec ''Town Website''))))
      else Inr rec)"

text \<open>Lines 681 to 692: the candidates of the detected platform.\<close>

definition gather_candidates :: "world \<Rightarrow> string \<Rightarrow> string \<Rightarrow> jval \<Rightarrow> cand list io" where
  "gather_candidates w platform base_home town =
     (if platform = ''civicplus'' then discover_civicplus w base_home
      else if platform = ''civiclift'' then discover_civiclift w base_home
      else if platform = ''granicus'' then
        io_bind (discover_granicus w base_home) (\<lambda>cand.
        io_bind (io_lift (granicus_ats_fallback_candidates town)) (\<lambda>fb.
        io_return (cand @ fb)))
      else discover_other w base_home)"

text \<open>Lines 694 to 704: candidates that are not URLs go, and so does a URL seen before.\<close>

fun dedupe :: "string list \<Rightarrow> cand list \<Rightarrow> cand list" where
  "dedupe seen [] = []"
| "dedupe seen ((u, t, src) # cand) =
     (if \<not> is_url_str u then dedupe seen cand
      else let u = strip u in
           if u \<in> set seen then dedupe seen cand
           else (u, t, src) # dedupe (u # seen) cand)"

type_synonym scored = "int \<times> string \<times> string \<times> string"

text \<open>
  Lines 707 and 708.  \<^verbatim>\<open>list.sort(reverse=True, key=...)\<close> is stable: elements with
  equal keys keep their order, also when reversed.
\<close>

definition score_and_sort :: "string \<Rightarrow> cand list \<Rightarrow> scored list" where
  "score_and_sort base_home deduped =
     sort_key (\<lambda>x. - fst x)
       (map (\<lambda>(u, t, src). (score_candidate u t base_home src, u, t, src)) deduped)"

text \<open>Lines 710 to 734: the best accepted page, the best accepted PDF, the last block reason.\<close>

type_synonym best = "(int \<times> string \<times> string \<times> string) option"

fun validate_loop ::
  "world \<Rightarrow> string \<Rightarrow> scored list \<Rightarrow> best \<times> best \<times> string option \<Rightarrow> (best \<times> best \<times> string option) io" where
  "validate_loop w base_home [] st = io_return st"
| "validate_loop w base_home ((s, u, t, src) # rest) (best_html, best_pdf, last_blocked_reason) =
     (if s < 0 then validate_loop w base_home rest (best_html, best_pdf, last_blocked_reason)
      else if is_social u then validate_loop w base_home rest (best_html, best_pdf, last_blocked_reason)
      else
        io_bind (validate_candidate w u base_home) (\<lambda>(ok, final, why, blocked).
          let last_blocked_reason =
                (if blocked \<noteq> None \<and> blocked \<noteq> Some '''' then blocked else last_blocked_reason)
          in if \<not> ok \<or> final = None \<or> final = Some ''''
             then validate_loop w base_home rest (best_html, best_pdf, last_blocked_reason)
             else if is_pdf (the final) then
               validate_loop w base_home rest
                 (best_html,
                  (if best_pdf = None \<or> s > fst (the best_pdf) then Some (s, the final, src, why)
                   else best_pdf),
                  last_blocked_reason)
             else
               validate_loop w base_home rest
                 ((if best_html = None \<or> s > fst (the best_html) then Some (s, the final, src, why)
                   else best_html),
                  best_pdf, last_blocked_reason)))"

text \<open>Lines 764 to 775.\<close>

definition confidence :: "string \<Rightarrow> py_error + int" where
  "confidence new_emp =
     (let conf = (70 :: int);
          low = lower new_emp;
          conf = (if any_in [''employment'', ''jobs'', ''careers'', ''human-resources''] low
                  then conf + 15 else conf)
      in case path_of new_emp of
           Inl e \<Rightarrow> Inl e
         | Inr p \<Rightarrow>
             (let conf = (if civicplus_pageid_match p then conf + 10 else conf);
                  conf = (if is_ats new_emp then max conf 85 else conf);
                  conf = (if is_pdf new_emp then min conf 75 else conf);
                  conf = min conf 95
              in Inr conf))"

text \<open>Lines 777 to 787; \<^verbatim>\<open>urlparse\<close> cannot raise here, it has returned at line 769.\<close>

definition employment_page_type :: "pydict \<Rightarrow> string \<Rightarrow> string \<Rightarrow> py_error + string" where
  "employment_page_type rec platform new_emp =
     (if is_ats new_emp then Inr ''ats_vendor''
      else if platform = ''civicplus''
              \<and> (contains (lower new_emp) ''jobs.aspx''
                 \<or> (case path_of new_emp of Inl e \<Rightarrow> False | Inr p \<Rightarrow> civicplus_pageid_match p))
      then Inr ''module_page''
      else if contains (lower new_emp) ''human-resources'' then Inr ''hr_page''
      else
        case py_or (dict_get rec ''Notes'') (JStr '''') of
          JStr notes \<Rightarrow>
            if contains (lower notes) ''human resources'' then Inr ''hr_page''
            else if is_pdf new_emp then Inr ''pdf_posting''
            else Inr ''page''
        | _ \<Rightarrow> Inl AttributeError)"

text \<open>Lines 800 to 810: the application form, looked for on an accepted same-site page.\<close>

definition refresh_application :: "world \<Rightarrow> pydict \<Rightarrow> string \<Rightarrow> string \<Rightarrow> pydict io" where
  "refresh_application w rec new_emp base_home =
     (if \<not> is_pdf new_emp \<and> same_site new_emp base_home then
        io_bind (find_application_pdf w new_emp base_home) (\<lambda>(pdf, pdf_reason).
          if pdf \<noteq> None \<and> pdf \<noteq> Some '''' then
            (let rec = (if \<not> dict_has rec ''Application Form URL (original)''
                           \<and> (case dict_get rec ''Application Form URL'' of JStr a \<Rightarrow> True | _ \<Rightarrow> False)
                        then dict_set rec ''Application Form URL (original)''
                               (dict_get rec ''Application Form URL'')
                        else rec);
                 rec = dict_set rec ''Application Form URL'' (JStr (the pdf));
                 rec = dict_set rec ''application_url_final'' (JStr (the pdf));
                 rec = dict_set rec ''application_url_last_checked_at'' (JStr (now_utc_iso w));
                 rec = dict_set rec ''application_url_change_reason'' (JStr pdf_reason);
                 rec = dict_set rec ''application_url_confidence'' (JInt 85)
             in io_return rec)
          else io_return rec)
      else io_return rec)"

text \<open>Lines 761 to 821: a chosen candidate is written into the record.\<close>

definition accept_choice ::
  "world \<Rightarrow> pydict \<Rightarrow> jval \<Rightarrow> string \<Rightarrow> string \<Rightarrow> int \<times> string \<times> string \<times> string \<Rightarrow> (pydict \<times> pydict) io" where
  "accept_choice w rec town platform base_home chosen =
     (case chosen of (s, new_emp, src, why) \<Rightarrow>
        let old_emp = dict_get rec ''Employment Page URL'' in
        io_bind (io_lift (confidence new_emp)) (\<lambda>conf.
        io_bind (io_lift (employment_page_type rec platform new_emp)) (\<lambda>ptype.
        let rec = dict_set rec ''employment_page_type'' (JStr ptype);
            rec = update_record w rec new_emp platform (''rediscovered_from_'' @ src) conf src s why
        in io_bind (refresh_application w rec new_emp base_home) (\<lambda>rec.
           io_return (rec,
             [(''Town'', town),
              (''action'', JStr ''updated''),
              (''platform'', JStr platform),
              (''old_employment_url'', py_or old_emp (JStr '''')),
              (''new_employment_url'', JStr new_emp),
              (''confidence'', JInt conf),
              (''source'', JStr src),
              (''employment_page_type'', py_or (dict_get rec ''employment_page_type'') (JStr ''''))])))))"

text \<open>Lines 680 to 821: candidates are gathered, scored and validated, and the outcome decided.\<close>

definition attempt :: "world \<Rightarrow> pydict \<Rightarrow> jval \<Rightarrow> string \<Rightarrow> string \<Rightarrow> (pydict \<times> pydict) io" where
  "attempt w rec town platform base_home =
     io_bind (gather_candidates w platform base_home town) (\<lambda>cand.
     let deduped = dedupe [] cand;
         scored = score_and_sort base_home deduped
     in io_bind (validate_loop w base_home (take 40 scored) (None, None, None))
          (\<lambda>(best_html, best_pdf, last_blocked_reason).
        case (if best_html \<noteq> None then best_html else best_pdf) of
          None \<Rightarrow>
            if platform = ''civiclift''
            then io_return (dict_set rec ''employment_page_type'' (JStr ''ephemeral_posts''),
                   [(''Town'', town),
                    (''action'', JStr ''updated''),
                    (''platform'', JStr platform),
                    (''reason'', JStr ''no_stable_employment_page_detected_ephemeral_posts''),
                    (''new_employment_url'', JStr base_home),
                    (''confidence'', JInt 60),
                    (''employment_page_type'', JStr ''ephemeral_posts'')])
            else if last_blocked_reason \<noteq> None \<and> last_blocked_reason \<noteq> Some ''''
            then io_return (dict_set rec ''employment_url_last_blocked_reason''
                              (JStr (the last_blocked_reason)),
                   [(''Town'', town),
                    (''action'', JStr ''needs_review''),
                    (''reason'', JStr ''no_candidate_validated''),
                    (''platform'', JStr platform),
                    (''blocked_reason'', JStr (the last_blocked_reason))])
            else io_return (rec,
                   [(''Town'', town),
                    (''action'', JStr ''needs_review''),
                    (''reason'', JStr ''no_candidate_validated''),
                    (''platform'', JStr platform)])
        | Some chosen \<Rightarrow> accept_choice w rec town platform base_home chosen))"

text \<open>Lines 656 to 678: the gates before any request is made.\<close>

definition rediscover_for_town :: "world \<Rightarrow> pydict \<Rightarrow> (pydict \<times> pydict) io" where
  "rediscover_for_town w rec =
     (let town = py_or (dict_get rec ''Town'') (JStr ''(unknown)'') in
      io_bind (io_lift (normalize_town_website rec)) (\<lambda>rec.
      if \<not> is_url (dict_get rec ''Town Website'')
      then io_return (rec, [(''Town'', town), (''action'', JStr ''skipped''),
                            (''reason'', JStr ''missing_town_homepage'')])
      else
        let base_home = py_str (dict_get rec ''Town Website'') in
        io_bind (io_lift (detect_platform rec)) (\<lambda>platform.
        let rec = dict_set rec ''platform_detected'' (JStr platform);
            status = dict_get rec ''employment_url_status_code''
        in if status \<in> set DO_NOT_REWRITE_IF_STATUS_IN
           then io_return (rec, [(''Town'', town), (''action'', JStr ''no_change''),
                  (''reason'', JStr (''status_'' @ py_str status @ ''_bot_block_likely'')),
                  (''platform'', JStr platform)])
           else if \<not> should_attempt rec
           then io_return (rec, [(''Town'', town), (''action'', JStr ''no_change''),
                  (''reason'', JStr ''employment_not_marked_broken''),
                  (''platform'', JStr platform)])
           else attempt w rec town platform base_home)))"

section \<open>The run over all records\<close>

text \<open>
  The loop of \<^verbatim>\<open>main\<close>, lines 851 to 863: records in order, the rows collected;
  \<open>target\<close> is the lower-cased town of \<^verbatim>\<open>--town\<close>, if given.  An exception of one
  record ends the run.
\<close>

fun process_records :: "world \<Rightarrow> string option \<Rightarrow> pydict list \<Rightarrow> (pydict list \<times> pydict list) io" where
  "process_records w target [] = io_return ([], [])"
| "process_records w target (rec # data) =
     (case py_or (dict_get rec ''Town'') (JStr '''') of
        JStr nm \<Rightarrow>
          if target \<noteq> None \<and> target \<noteq> Some '''' \<and> lower (strip nm) \<noteq> the target
          then io_bind (process_records w target data) (\<lambda>(recs, rows). io_return (rec # recs, rows))
          else
            io_bind (rediscover_for_town w rec) (\<lambda>(rec', row).
            io_bind (process_records w target data) (\<lambda>(recs, rows).
            io_return (rec' # recs, row # rows)))
      | _ \<Rightarrow> io_raise AttributeError)"

section \<open>Notions used in the statements\<close>

text \<open>
  The validator does not accept \<open>url\<close>: it returns a verdict that is not \<^verbatim>\<open>ok\<close> or
  has no final URL, which is when the loop of lines 715 to 734 passes a candidate over.
\<close>

definition rejects :: "world \<Rightarrow> string \<Rightarrow> string \<Rightarrow> bool" where
  "rejects w url base_home =
     (case fst (validate_candidate w url base_home) of
        Inl e \<Rightarrow> False
      | Inr (ok, final, why, blocked) \<Rightarrow> \<not> ok \<or> final = None \<or> final = Some '''')"

text \<open>The fields the application finder may write.\<close>

definition application_keys :: "string list" where
  "application_keys =
     [''Application Form URL (original)'', ''Application Form URL'', ''application_url_final'',
      ''application_url_last_checked_at'', ''application_url_change_reason'',
      ''application_url_confidence'']"

text \<open>
  The link fields of a record, with the confidence and content-type fields that go
  with them.
\<close>

definition link_fields :: "string list" where
  "link_fields =
     [''Employment Page URL'', ''employment_url_final'', ''employment_url_confidence'',
      ''employment_page_type'', ''Application Form URL'', ''Application Form URL (original)'',
      ''application_url_final'', ''application_url_confidence'']"

text \<open>
  The confidence as the specification words it: 70, plus 15 if the new URL contains an
  employment keyword, plus 10 if its path matches the numeric-ID pattern, at least 85 for
  a vendor URL, at most 75 for a PDF, at most 95.  The employment keywords are the
  vocabulary \<^verbatim>\<open>KW_EMPLOYMENT\<close> of \<open>kw_hit\<close> (jobs, careers, employment, human
  resources, vacancies, apply, and so on).
\<close>

definition spec_confidence :: "string \<Rightarrow> string \<Rightarrow> int" where
  "spec_confidence new_emp p =
     (let c = 70 + (if kw_hit new_emp then 15 else 0) + (if civicplus_pageid_match p then 10 else 0);
          c = (if is_ats new_emp then max c 85 else c);
          c = (if is_pdf new_emp then min c 75 else c)
      in min c 95)"

section \<open>Example worlds and records\<close>

text \<open>
  Concrete inputs for the closed theorems below.  In each world \<open>urljoin\<close> appends a
  relative path to a base that ends in a slash, which is what \<^verbatim>\<open>urljoin\<close> does
  for the bases and paths used here.
\<close>

definition page :: "string \<Rightarrow> int \<Rightarrow> string \<Rightarrow> response" where
  "page u st body =
     \<lparr>resp_url = u, resp_status_code = st, resp_content_type = Some ''text/html'', resp_text = body\<rparr>"

text \<open>Every request is answered 503 by a wrapper page whose URL carries a splash parameter.\<close>

definition splash_url :: string where
  "splash_url =
     ''https://www.essex.com/redirect?splash=https%3A%2F%2Fwww.governmentjobs.com%2Fcareers%2Fessexct''"

definition w_denied :: world where
  "w_denied =
     \<lparr>fetch = (\<lambda>u. Inr (page splash_url 503 ''Access denied'')),
      select = (\<lambda>html sel. []),
      urljoin = (\<lambda>b u. Inr (b @ u)),
      now_utc_iso = ''2026-01-01T00:00:00+00:00''\<rparr>"

text \<open>Every URL answers 200 under its own address with a plain page.\<close>

definition w_echo :: world where
  "w_echo =
     \<lparr>fetch = (\<lambda>u. Inr (page u 200 ''<html><body>Welcome</body></html>'')),
      select = (\<lambda>html sel. []),
      urljoin = (\<lambda>b u. Inr (b @ u)),
      now_utc_iso = ''2026-01-01T00:00:00+00:00''\<rparr>"

text \<open>Every request ends at a wrapper whose splash parameter names a share link.\<close>

definition share_url :: string where
  "share_url =
     ''https://www.essexct.gov/redirect?splash=https%3A%2F%2Fwww.linkedin.com%2FshareArticle%3Furl%3Dhttps%3A%2F%2Fwww.governmentjobs.com%2Fcareers%2Fessexct''"

definition w_share :: world where
  "w_share =
     \<lparr>fetch = (\<lambda>u. Inr (page share_url 200 ''<html><body>Redirecting</body></html>'')),
      select = (\<lambda>html sel. []),
      urljoin = (\<lambda>b u. Inr (b @ u)),
      now_utc_iso = ''2026-01-01T00:00:00+00:00''\<rparr>"

definition share_target :: string where
  "share_target =
     ''https://www.linkedin.com/shareArticle?url=https://www.governmentjobs.com/careers/essexct''"

text \<open>
  Candidates of one attempt: a URL found twice, once with white space around it, a
  link that is no URL, and two candidates that score alike.
\<close>

definition tied_candidates :: "cand list" where
  "tied_candidates =
     [('' http://a.io/jobs'', ''Jobs'', ''homepage_link''),
      (''mailto:hr@a.io'', ''Mail'', ''homepage_link''),
      (''http://a.io/careers'', ''Careers'', ''nav_footer_link''),
      (''http://a.io/jobs'', ''Job openings'', ''nav_footer_link'')]"

text \<open>Records whose last status is 403: one with a site, one without any URL.\<close>

definition rec_blocked :: pydict where
  "rec_blocked =
     [(''Town'', JStr ''Essex''),
      (''Town Website'', JStr ''https://www.essexct.gov/home''),
      (''Employment Page URL'', JStr ''https://www.essexct.gov/jobs''),
      (''employment_url_status_code'', JInt 403)]"

definition rec_no_site :: pydict where
  "rec_no_site =
     [(''Town'', JStr ''Essex''),
      (''Employment Page URL'', JStr ''see town hall''),
      (''employment_url_status_code'', JInt 403)]"

text \<open>A world in which every request times out, and a CivicLift record marked broken.\<close>

definition w_down :: world where
  "w_down =
     \<lparr>fetch = (\<lambda>u. Inl ''timeout''),
      select = (\<lambda>html sel. []),
      urljoin = (\<lambda>b u. Inr (b @ u)),
      now_utc_iso = ''2026-01-01T00:00:00+00:00''\<rparr>"

definition rec_lift :: pydict where
  "rec_lift =
     [(''Town'', JStr ''Essex''),
      (''Town Website'', JStr ''https://www.essexct.gov/home''),
      (''Employment Page URL'', JStr ''https://www.essexct.gov/old-jobs''),
      (''ATS or Platform (if known)'', JStr ''CivicLift''),
      (''employment_url_status_code'', JInt 404)]"

definition lift_candidates :: "cand list" where
  "lift_candidates =
     [(''https://www.essexct.gov/employment'', ''CIVICLIFT_PATH:/employment'', ''civiclift_path''),
      (''https://www.essexct.gov/job-openings'', ''CIVICLIFT_PATH:/job-openings'', ''civiclift_path''),
      (''https://www.essexct.gov/jobs'', ''CIVICLIFT_PATH:/jobs'', ''civiclift_path''),
      (''https://www.essexct.gov/career-opportunities'', ''CIVICLIFT_PATH:/career-opportunities'',
       ''civiclift_path''),
      (''https://www.essexct.gov/careers'', ''CIVICLIFT_PATH:/careers'', ''civiclift_path''),
      (''https://www.essexct.gov/'', ''CIVICLIFT_FALLBACK_HOME'', ''fallback_home'')]"

definition rec_lift_home :: pydict where
  "rec_lift_home =
     [(''Town'', JStr ''Essex''),
      (''Town Website'', JStr ''https://www.essexct.gov/''),
      (''Employment Page URL'', JStr ''https://www.essexct.gov/old-jobs''),
      (''ATS or Platform (if known)'', JStr ''CivicLift''),
      (''employment_url_status_code'', JInt 404)]"

text \<open>
  A site whose homepage links to a page of vacancies; every other address times out.
\<close>

definition home_body :: string where
  "home_body = ''<html><body><a href=/vacancies>Current vacancies</a></body></html>''"

definition vacancy_body :: string where
  "vacancy_body = ''<html><body><h1>Vacancies</h1></body></html>''"

definition w_vacancy :: world where
  "w_vacancy =
     \<lparr>fetch = (\<lambda>u. if u = ''http://t.gov/'' then Inr (page u 200 home_body)
                   else if u = ''http://t.gov/vacancies'' then Inr (page u 200 vacancy_body)
                   else Inl ''timeout''),
      select = (\<lambda>html sel.
                  if html = home_body \<and> sel = ''a[href]''
                  then [\<lparr>a_href = Some ''/vacancies'', a_text = ''Current vacancies'',
                         a_aria_label = None, a_title = None\<rparr>]
                  else []),
      urljoin = (\<lambda>b u. Inr (b @ dropWhile (\<lambda>c. c = CHR ''/'') u)),
      now_utc_iso = ''2026-01-01T00:00:00+00:00''\<rparr>"

definition rec_vacancy :: pydict where
  "rec_vacancy =
     [(''Town'', JStr ''Tolland''),
      (''Town Website'', JStr ''http://t.gov/''),
      (''Employment Page URL'', JStr ''http://t.gov/old''),
      (''employment_url_status_code'', JInt 404)]"

text \<open>
  The same site with a page of jobs at one of the static paths as well, and a record
  whose old employment link was hosted by the vendor of the site.
\<close>

definition jobs_body :: string where
  "jobs_body = ''<html><body><h1>Jobs</h1></body></html>''"

definition w_jobs :: world where
  "w_jobs =
     \<lparr>fetch = (\<lambda>u. if u = ''http://t.gov/'' then Inr (page u 200 home_body)
                   else if u = ''http://t.gov/vacancies'' then Inr (page u 200 vacancy_body)
                   else if u = ''http://t.gov/jobs'' then Inr (page u 200 jobs_body)
                   else Inl ''timeout''),
      select = (\<lambda>html sel.
                  if html = home_body \<and> sel = ''a[href]''
                  then [\<lparr>a_href = Some ''/vacancies'', a_text = ''Current vacancies'',
                         a_aria_label = None, a_title = None\<rparr>]
                  else []),
      urljoin = (\<lambda>b u. Inr (b @ dropWhile (\<lambda>c. c = CHR ''/'') u)),
      now_utc_iso = ''2026-01-01T00:00:00+00:00''\<rparr>"

definition rec_gran :: pydict where
  "rec_gran =
     [(''Town'', JStr ''Tolland''),
      (''Town Website'', JStr ''http://t.gov/''),
      (''Employment Page URL'', JStr ''http://tolland.granicus.com/jobs''),
      (''employment_url_status_code'', JInt 404)]"

definition gran_candidates :: "cand list" where
  "gran_candidates =
     [(''http://t.gov/vacancies'', ''Current vacancies'', ''homepage_link''),
      (''http://t.gov/government/human-resources'', ''GRANICUS_PATH:/government/human-resources'',
       ''granicus_path''),
      (''http://t.gov/government/human-resources/city-jobs'',
       ''GRANICUS_PATH:/government/human-resources/city-jobs'', ''granicus_path''),
      (''http://t.gov/jobs'', ''GRANICUS_PATH:/jobs'', ''granicus_path''),
      (''https://www.governmentjobs.com/careers/tollandct'', ''ATS_FALLBACK:governmentjobs_slug_ct'',
       ''ats_fallback''),
      (''https://www.governmentjobs.com/careers/tolland'', ''ATS_FALLBACK:governmentjobs_slug'',
       ''ats_fallback'')]"

text \<open>The record of Tolland as the first run in this world leaves it.\<close>

definition rec_gran_jobs :: pydict where
  "rec_gran_jobs =
     [(''Town'', JStr ''Tolland''),
      (''Town Website'', JStr ''http://t.gov/''),
      (''Employment Page URL'', JStr ''http://t.gov/jobs''),
      (''employment_url_status_code'', JInt 404),
      (''platform_detected'', JStr ''granicus''),
      (''employment_page_type'', JStr ''page''),
      (''employment_url_final'', JStr ''http://t.gov/jobs''),
      (''employment_url_last_checked_at'', JStr ''2026-01-01T00:00:00+00:00''),
      (''employment_url_change_reason'', JStr ''rediscovered_from_granicus_path''),
      (''employment_url_confidence'', JInt 85),
      (''employment_url_discovery_method'', JStr ''granicus_path''),
      (''employment_url_discovery_score'', JInt 120),
      (''employment_url_validation_reason'', JStr ''ok'')]"

section \<open>Basic facts\<close>

text \<open>A code equation on the bits of a character, for evaluation.\<close>

lemma lower_char_bits [code]:
  "lower_char (Char b0 b1 b2 b3 b4 b5 b6 b7) =
     (if b6 \<and> \<not> b5 \<and>
         (if b7 then \<not> (b0 \<and> b1 \<and> b2 \<and> b4)
          else (b0 \<or> b1 \<or> b2 \<or> b3 \<or> b4) \<and> \<not> (b4 \<and> b3 \<and> (b2 \<or> (b1 \<and> b0))))
      then Char b0 b1 b2 b3 b4 True b6 b7 else Char b0 b1 b2 b3 b4 b5 b6 b7)"
  by (cases b0; cases b1; cases b2; cases b3; cases b4; cases b5; cases b6; cases b7;
      simp add: lower_char_def char_of_def bit_Suc_0_iff)

lemma is_ascii_bits [code]: "is_ascii (Char b0 b1 b2 b3 b4 b5 b6 b7) = (\<not> b7)"
  by (cases b0; cases b1; cases b2; cases b3; cases b4; cases b5; cases b6; cases b7;
      simp add: is_ascii_def)

lemma io_bind_return [simp]: "io_bind (io_return x) f = f x"
  by (simp add: io_bind_def io_return_def split: prod.splits)

lemma io_bind_lift_Inr [simp]: "io_bind (io_lift (Inr x)) f = f x"
  by (simp add: io_bind_def io_lift_def split: prod.splits)

lemma io_bind_lift_Inl [simp]: "io_bind (io_lift (Inl e)) f = (Inl e, [])"
  by (simp add: io_bind_def io_lift_def)

lemma io_bind_raise [simp]: "io_bind (io_raise e) f = (Inl e, [])"
  by (simp add: io_bind_def io_raise_def)

lemma io_bind_get:
  "io_bind (get w url) f =
     (case f (case fetch w url of Inr r \<Rightarrow> (Some r, None) | Inl e \<Rightarrow> (None, Some e)) of
        (r, l) \<Rightarrow> (r, url # l))"
  by (simp add: io_bind_def get_def split: sum.splits prod.splits)

lemma startswith_iff: "startswith s p \<longleftrightarrow> (\<exists>b. s = p @ b)"
  by (induction s p rule: startswith.induct) auto

lemma contains_iff: "contains s p \<longleftrightarrow> (\<exists>a b. s = a @ p @ b)"
proof (induction s)
  case Nil
  then show ?case by simp
next
  case (Cons c cs)
  show ?case
  proof
    assume "contains (c # cs) p"
    then consider "startswith (c # cs) p" | "contains cs p" by auto
    then show "\<exists>a b. c # cs = a @ p @ b"
    proof cases
      case 1
      then obtain b where "c # cs = p @ b" by (auto simp: startswith_iff)
      then have "c # cs = [] @ p @ b" by simp
      then show ?thesis by blast
    next
      case 2
      then obtain a b where "cs = a @ p @ b" using Cons.IH by auto
      then have "c # cs = (c # a) @ p @ b" by simp
      then show ?thesis by blast
    qed
  next
    assume "\<exists>a b. c # cs = a @ p @ b"
    then obtain a b where ab: "c # cs = a @ p @ b" by auto
    show "contains (c # cs) p"
    proof (cases a)
      case Nil
      then have "startswith (c # cs) p" using ab by (auto simp: startswith_iff)
      then show ?thesis by simp
    next
      case (Cons x a')
      then have "cs = a' @ p @ b" using ab by simp
      then have "contains cs p" using Cons.IH by auto
      then show ?thesis by simp
    qed
  qed
qed

lemma lower_append [simp]: "lower (a @ b) = lower a @ lower b"
  by (simp add: lower_def)

lemma any_in_iff: "any_in ks s \<longleftrightarrow> (\<exists>k\<in>set ks. contains s k)"
  by (simp add: any_in_def list_ex_iff)

section \<open>The validator\<close>

lemma validate_candidate_fetched:
  "fetch w url = Inr resp \<Longrightarrow> restore_final url resp = Inr final \<Longrightarrow>
   validate_candidate w url base_home = (Inr (judge resp final base_home), [url])"
  by (simp add: validate_candidate_def io_bind_get io_return_def)

lemma validate_candidate_fetch_error:
  "fetch w url = Inl e \<Longrightarrow>
   validate_candidate w url base_home = (Inr (False, None, ''fetch_error: '' @ e, None), [url])"
  by (simp add: validate_candidate_def io_bind_get io_return_def)

lemma validate_candidate_raises:
  "fetch w url = Inr resp \<Longrightarrow> restore_final url resp = Inl e \<Longrightarrow>
   validate_candidate w url base_home = (Inl e, [url])"
  by (simp add: validate_candidate_def io_bind_get)

lemma is_url_str_nonempty: "is_url_str s \<Longrightarrow> s \<noteq> []"
  by (auto simp: is_url_str_def strip_def lower_def)

text \<open>
  C6.  When the fetch of a candidate has succeeded and the final URL (line 381) parses
  with a \<^verbatim>\<open>splash\<close> query parameter whose decoded value is a URL with a vendor hint,
  the validator accepts with that inner URL and the reason
  \<^verbatim>\<open>ok_granicus_splash_to_ats\<close>, whatever the status code, the body, the content type
  and the base site are: none of the later checks is consulted.
\<close>

theorem splash_short_circuit:
  assumes "fetch w url = Inr resp"
    and "restore_final url resp = Inr final"
    and "urlparse final = Inr u"
    and "parse_qs_first (query u) ''splash'' = Some sp"
    and "is_url_str (unquote sp)"
    and "is_ats (unquote sp)"
  shows "validate_candidate w url base_home =
           (Inr (True, Some (unquote sp), ''ok_granicus_splash_to_ats'', None), [url])"
proof -
  have "sp \<noteq> []"
    using assms(5) is_url_str_nonempty [of "unquote sp"] by (auto simp: unquote_def)
  then have "unwrap_granicus_splash final = Some (unquote sp)"
    using assms(3,4,5) by (simp add: unwrap_granicus_splash_def)
  moreover have "unquote sp \<noteq> []"
    using assms(5) by (rule is_url_str_nonempty)
  ultimately have "judge resp final base_home =
      (True, Some (unquote sp), ''ok_granicus_splash_to_ats'', None)"
    using assms(6) by (simp add: judge_def)
  then show ?thesis
    using validate_candidate_fetched [OF assms(1,2)] by simp
qed

theorem splash_short_circuit_witness:
  "fetch w_denied ''https://www.essexct.gov/jobs'' = Inr (page splash_url 503 ''Access denied'')
   \<and> restore_final ''https://www.essexct.gov/jobs'' (page splash_url 503 ''Access denied'') = Inr splash_url
   \<and> urlparse splash_url =
       Inr \<lparr>scheme = ''https'', netloc = ''www.essex.com'', path = ''/redirect'', params = '''',
            query = ''splash=https%3A%2F%2Fwww.governmentjobs.com%2Fcareers%2Fessexct'', fragment = ''''\<rparr>
   \<and> parse_qs_first ''splash=https%3A%2F%2Fwww.governmentjobs.com%2Fcareers%2Fessexct'' ''splash''
       = Some ''https://www.governmentjobs.com/careers/essexct''
   \<and> is_url_str (unquote ''https://www.governmentjobs.com/careers/essexct'')
   \<and> is_ats (unquote ''https://www.governmentjobs.com/careers/essexct'')
   \<and> resp_status_code (page splash_url 503 ''Access denied'') \<ge> 400
   \<and> interstitial_block (page splash_url 503 ''Access denied'') splash_url = Some ''access denied''
   \<and> is_social splash_url
   \<and> \<not> same_site splash_url ''https://www.essexct.gov/''
   \<and> validate_candidate w_denied ''https://www.essexct.gov/jobs'' ''https://www.essexct.gov/'' =
       (Inr (True, Some (unquote ''https://www.governmentjobs.com/careers/essexct''),
             ''ok_granicus_splash_to_ats'', None), [''https://www.essexct.gov/jobs''])"
proof -
  let ?r = "page splash_url 503 ''Access denied''"
  let ?u = "\<lparr>scheme = ''https'', netloc = ''www.essex.com'', path = ''/redirect'', params = '''',
            query = ''splash=https%3A%2F%2Fwww.governmentjobs.com%2Fcareers%2Fessexct'', fragment = ''''\<rparr>"
  have h1: "fetch w_denied ''https://www.essexct.gov/jobs'' = Inr ?r"
    by (simp add: w_denied_def)
  have h2: "restore_final ''https://www.essexct.gov/jobs'' ?r = Inr splash_url"
    by code_simp
  have h3: "urlparse splash_url = Inr ?u"
    by code_simp
  have h4: "parse_qs_first (query ?u) ''splash'' = Some ''https://www.governmentjobs.com/careers/essexct''"
    by code_simp
  have h5: "is_url_str (unquote ''https://www.governmentjobs.com/careers/essexct'')"
    by code_simp
  have h6: "is_ats (unquote ''https://www.governmentjobs.com/careers/essexct'')"
    by code_simp
  have h7: "resp_status_code ?r \<ge> 400"
    by (simp add: page_def)
  have h8: "interstitial_block ?r splash_url = Some ''access denied''"
    by code_simp
  have h9: "is_social splash_url"
    by code_simp
  have h10: "\<not> same_site splash_url ''https://www.essexct.gov/''"
    by code_simp
  note splash_short_circuit [OF h1 h2 h3 h4 h5 h6, of "''https://www.essexct.gov/''"]
  with h1 h2 h3 h4 h5 h6 h7 h8 h9 h10 show ?thesis
    by simp
qed

lemma judge_splash:
  "unwrap_granicus_splash final = Some inner \<Longrightarrow> inner \<noteq> [] \<Longrightarrow> is_ats inner \<Longrightarrow>
   judge resp final base_home = (True, Some inner, ''ok_granicus_splash_to_ats'', None)"
  by (simp add: judge_def)

text \<open>
  What acceptance guarantees on every path: the final URL is same-site or carries a vendor
  hint; the ordinary path (reason \<^verbatim>\<open>ok\<close>) has also passed the social check.
\<close>

lemma accepted_final_same_site_or_vendor:
  assumes "validate_candidate w url base_home = (Inr (True, final, reason, blk), l)"
  shows "\<exists>f. final = Some f \<and> (same_site f base_home \<or> is_ats f)
           \<and> (reason = ''ok'' \<longrightarrow> \<not> is_social f)"
proof (cases "fetch w url")
  case (Inl e)
  then show ?thesis
    using assms validate_candidate_fetch_error [OF Inl, of base_home] by simp
next
  case (Inr resp)
  show ?thesis
  proof (cases "restore_final url resp")
    case (Inl e)
    then show ?thesis
      using assms validate_candidate_raises [OF Inr Inl, of base_home] by simp
  next
    case fin: (Inr f0)
    have j: "judge resp f0 base_home = (True, final, reason, blk)"
      using assms validate_candidate_fetched [OF Inr fin, of base_home] by simp
    show ?thesis
    proof (cases "unwrap_granicus_splash f0")
      case None
      then show ?thesis
        using j by (auto simp: judge_def Let_def split: if_splits)
    next
      case (Some y)
      show ?thesis
        using j unfolding judge_def Let_def Some by (auto split: if_splits)
    qed
  qed
qed

text \<open>
  C1.  The splash short-circuit returns before the social check.  A wrapper whose splash
  parameter names a share link on a social site, itself carrying a vendor address, is
  accepted, and the accepted final URL is a social URL off the base site.
\<close>

theorem splash_accepts_social_target:
  "validate_candidate w_share ''https://www.essexct.gov/jobs'' ''https://www.essexct.gov/'' =
     (Inr (True, Some share_target, ''ok_granicus_splash_to_ats'', None), [''https://www.essexct.gov/jobs''])
   \<and> is_social share_target
   \<and> \<not> same_site share_target ''https://www.essexct.gov/''"
proof -
  let ?r = "page share_url 200 ''<html><body>Redirecting</body></html>''"
  have h3: "fetch w_share ''https://www.essexct.gov/jobs'' = Inr ?r" by (simp add: w_share_def)
  have h4: "restore_final ''https://www.essexct.gov/jobs'' ?r = Inr share_url" by code_simp
  have h5: "unwrap_granicus_splash share_url = Some share_target"
    by code_simp
  have h6: "is_ats share_target" by code_simp
  have h7: "is_social share_target" by code_simp
  have h8: "\<not> same_site share_target ''https://www.essexct.gov/''" by code_simp
  have h9: "share_target \<noteq> []" by (simp add: share_target_def)
  have "judge ?r share_url ''https://www.essexct.gov/'' =
      (True, Some share_target, ''ok_granicus_splash_to_ats'', None)"
    using h5 h9 h6 by (rule judge_splash)
  with validate_candidate_fetched [OF h3 h4, of "''https://www.essexct.gov/''"] h7 h8
  show ?thesis by simp
qed

section \<open>Social domains\<close>

lemma contains_self [simp]: "contains s s"
  by (auto simp: contains_iff intro: exI [of _ "[]"])

lemma looks_soft404_page:
  "length body \<le> 250000 \<Longrightarrow>
   looks_soft404 (page u st body) = (st = 200 \<and> any_in SOFT404_PHRASES (lower body))"
proof -
  have "lower ''text/html'' = ''text/html''" by code_simp
  then show "length body \<le> 250000 \<Longrightarrow>
   looks_soft404 (page u st body) = (st = 200 \<and> any_in SOFT404_PHRASES (lower body))"
    by (simp add: looks_soft404_def page_def)
qed

lemma social_block_lower: "d \<in> set SOCIAL_BLOCK \<Longrightarrow> lower d = d"
  by (auto simp: SOCIAL_BLOCK_def lower_def lower_char_bits)

lemma is_social_substring:
  assumes "d \<in> set SOCIAL_BLOCK" and "url = a @ d @ b"
  shows "is_social url"
proof -
  have "lower url = lower a @ d @ lower b"
    using assms by (simp add: social_block_lower)
  then have "contains (lower url) d"
    by (auto simp: contains_iff)
  then show ?thesis
    using assms(1) by (auto simp: is_social_def any_in_iff)
qed

lemma judge_social:
  assumes "is_social final"
    and "\<not> (\<exists>inner. unwrap_granicus_splash final = Some inner \<and> is_ats inner)"
  shows "\<exists>reason blk. judge resp final base_home = (False, Some final, reason, blk)
           \<and> (resp_status_code resp < 400 \<and> interstitial_block resp final = None
                \<and> \<not> looks_soft404 resp \<longrightarrow> reason = ''social_blocked'' \<and> blk = None)"
  using assms by (auto simp: judge_def Let_def)

text \<open>
  C10, as the code has it.  A URL with a social-domain name anywhere in it scores
  \<open>-10000\<close>.  When the fetch of a candidate succeeds with such a final URL and the splash
  unwrap does not apply, the validator rejects: with the reason of an earlier check when
  the status is 400 or more, the body is a block page or a soft 404, and with
  \<^verbatim>\<open>social_blocked\<close> otherwise, whether or not the URL is on the base site's host.
\<close>

theorem social_substring_veto:
  assumes "d \<in> set SOCIAL_BLOCK" and "final = a @ d @ b"
  shows "score_candidate final label base_home source = - 10000
         \<and> (fetch w url = Inr resp \<longrightarrow> restore_final url resp = Inr final \<longrightarrow>
              \<not> (\<exists>inner. unwrap_granicus_splash final = Some inner \<and> is_ats inner) \<longrightarrow>
              (\<exists>reason blk.
                 validate_candidate w url base_home = (Inr (False, Some final, reason, blk), [url])
                 \<and> (resp_status_code resp < 400 \<and> interstitial_block resp final = None
                      \<and> \<not> looks_soft404 resp \<longrightarrow> reason = ''social_blocked'' \<and> blk = None)))"
proof -
  have soc: "is_social final"
    using assms by (rule is_social_substring)
  then have "score_candidate final label base_home source = - 10000"
    by (simp add: score_candidate_def)
  moreover have "\<exists>reason blk.
       validate_candidate w url base_home = (Inr (False, Some final, reason, blk), [url])
       \<and> (resp_status_code resp < 400 \<and> interstitial_block resp final = None
            \<and> \<not> looks_soft404 resp \<longrightarrow> reason = ''social_blocked'' \<and> blk = None)"
    if "fetch w url = Inr resp" "restore_final url resp = Inr final"
      "\<not> (\<exists>inner. unwrap_granicus_splash final = Some inner \<and> is_ats inner)"
    using judge_social [OF soc that(3), of resp base_home]
      validate_candidate_fetched [OF that(1,2), of base_home] by auto
  ultimately show ?thesis by blast
qed

theorem social_substring_veto_witness:
  "''x.com'' \<in> set SOCIAL_BLOCK
   \<and> ''https://www.essex.com/jobs'' = ''https://www.esse'' @ ''x.com'' @ ''/jobs''
   \<and> same_site ''https://www.essex.com/jobs'' ''https://www.essex.com/''
   \<and> score_candidate ''https://www.essex.com/jobs'' ''Jobs'' ''https://www.essex.com/'' ''homepage_link''
        = - 10000
   \<and> validate_candidate w_echo ''https://www.essex.com/jobs'' ''https://www.essex.com/'' =
        (Inr (False, Some ''https://www.essex.com/jobs'', ''social_blocked'', None),
         [''https://www.essex.com/jobs''])"
proof -
  let ?u = "''https://www.essex.com/jobs''"
  let ?r = "page ?u 200 ''<html><body>Welcome</body></html>''"
  have h1: "''x.com'' \<in> set SOCIAL_BLOCK"
    by (simp add: SOCIAL_BLOCK_def)
  have h2: "?u = ''https://www.esse'' @ ''x.com'' @ ''/jobs''"
    by simp
  have h3: "fetch w_echo ?u = Inr ?r"
    by (simp add: w_echo_def)
  have h4: "restore_final ?u ?r = Inr ?u"
    by code_simp
  have h5: "\<not> (\<exists>inner. unwrap_granicus_splash ?u = Some inner \<and> is_ats inner)"
  proof -
    have "unwrap_granicus_splash ?u = None" by code_simp
    then show ?thesis by simp
  qed
  have h6: "resp_status_code ?r < 400" by (simp add: page_def)
  have h7: "interstitial_block ?r ?u = None" by code_simp
  have "\<not> any_in SOFT404_PHRASES (lower ''<html><body>Welcome</body></html>'')" by code_simp
  then have h8: "\<not> looks_soft404 ?r" by (simp add: looks_soft404_page)
  have h9: "same_site ?u ''https://www.essex.com/''" by code_simp
  from social_substring_veto [OF h1 h2, of "''Jobs''" "''https://www.essex.com/''" "''homepage_link''"
      w_echo ?u ?r] h3 h4 h5 h6 h7 h8
  have "score_candidate ?u ''Jobs'' ''https://www.essex.com/'' ''homepage_link'' = - 10000
        \<and> validate_candidate w_echo ?u ''https://www.essex.com/'' =
            (Inr (False, Some ?u, ''social_blocked'', None), [?u])"
    by blast
  with h1 h2 h9 show ?thesis by blast
qed

text \<open>
  The claim as stated fails: a URL on a host that embeds \<^verbatim>\<open>x.com\<close>, same-host as the
  base site, is accepted when its splash parameter names a vendor URL.
\<close>

theorem social_url_accepted_via_splash:
  "contains splash_url ''x.com''
   \<and> same_site splash_url ''https://www.essex.com/''
   \<and> validate_candidate w_echo splash_url ''https://www.essex.com/'' =
        (Inr (True, Some ''https://www.governmentjobs.com/careers/essexct'',
              ''ok_granicus_splash_to_ats'', None), [splash_url])"
proof -
  let ?r = "page splash_url 200 ''<html><body>Welcome</body></html>''"
  have h1: "contains splash_url ''x.com''" by code_simp
  have h2: "same_site splash_url ''https://www.essex.com/''" by code_simp
  have h3: "fetch w_echo splash_url = Inr ?r" by (simp add: w_echo_def)
  have h4: "restore_final splash_url ?r = Inr splash_url" by code_simp
  have h5: "unwrap_granicus_splash splash_url = Some ''https://www.governmentjobs.com/careers/essexct''"
    by code_simp
  have h6: "is_ats ''https://www.governmentjobs.com/careers/essexct''" by code_simp
  have "judge ?r splash_url ''https://www.essex.com/'' =
      (True, Some ''https://www.governmentjobs.com/careers/essexct'', ''ok_granicus_splash_to_ats'', None)"
    using h5 h6 by (simp add: judge_splash)
  with validate_candidate_fetched [OF h3 h4, of "''https://www.essex.com/''"] h1 h2
  show ?thesis by simp
qed

section \<open>Deduplication and ordering\<close>

lemma dedupe_first_occurrence:
  "(u, t, src) \<in> set (dedupe seen cand) \<Longrightarrow>
     u \<notin> set seen
     \<and> (\<exists>u0. find (\<lambda>c. is_url_str (fst c) \<and> strip (fst c) = u) cand = Some (u0, t, src))"
proof (induction cand arbitrary: seen)
  case Nil
  then show ?case by simp
next
  case (Cons c cand)
  obtain u1 t1 s1 where c: "c = (u1, t1, s1)" by (cases c) auto
  show ?case
  proof (cases "is_url_str u1")
    case False
    then show ?thesis using Cons c by auto
  next
    case url: True
    show ?thesis
    proof (cases "strip u1 \<in> set seen")
      case True
      then have "(u, t, src) \<in> set (dedupe seen cand)"
        using Cons.prems c url by (simp add: Let_def)
      from Cons.IH [OF this] True show ?thesis
        using c by auto
    next
      case False
      then have mem: "(u, t, src) = (strip u1, t1, s1) \<or> (u, t, src) \<in> set (dedupe (strip u1 # seen) cand)"
        using Cons.prems c url by (simp add: Let_def)
      then show ?thesis
      proof
        assume "(u, t, src) = (strip u1, t1, s1)"
        then show ?thesis using False c url by auto
      next
        assume "(u, t, src) \<in> set (dedupe (strip u1 # seen) cand)"
        from Cons.IH [OF this] show ?thesis
          using c by auto
      qed
    qed
  qed
qed

lemma dedupe_distinct: "distinct (map fst (dedupe seen cand))"
proof (induction cand arbitrary: seen)
  case Nil
  then show ?case by simp
next
  case (Cons c cand)
  obtain u1 t1 s1 where c: "c = (u1, t1, s1)" by (cases c) auto
  have "strip u1 \<notin> fst ` set (dedupe (strip u1 # seen) cand)"
  proof
    assume "strip u1 \<in> fst ` set (dedupe (strip u1 # seen) cand)"
    then obtain t src where "(strip u1, t, src) \<in> set (dedupe (strip u1 # seen) cand)"
      by auto
    from dedupe_first_occurrence [OF this] show False by simp
  qed
  then show ?case
    using Cons.IH c by (simp add: Let_def)
qed

lemma dedupe_urls:
  "fst ` set (dedupe seen cand) = {strip (fst c) | c. c \<in> set cand \<and> is_url_str (fst c)} - set seen"
proof (induction cand arbitrary: seen)
  case Nil
  then show ?case by simp
next
  case (Cons c cand)
  obtain u1 t1 s1 where c: "c = (u1, t1, s1)" by (cases c) auto
  show ?case
    using Cons.IH [of seen] Cons.IH [of "strip u1 # seen"] c
    by (auto simp: Let_def)
qed



section \<open>Records\<close>

lemma map_of_dict_set: "map_of (dict_set d k v) = (map_of d)(k \<mapsto> v)"
  by (induction d) (auto simp: fun_eq_iff)

lemma dict_get_set: "dict_get (dict_set d k v) k' = (if k' = k then v else dict_get d k')"
  by (simp add: dict_get_def map_of_dict_set)

lemma dict_has_set: "dict_has (dict_set d k v) k' = (k' = k \<or> dict_has d k')"
  by (simp add: dict_has_def map_of_dict_set)

lemma normalize_frame:
  "normalize_town_website rec = Inr rec1 \<Longrightarrow> k \<noteq> ''Town Website'' \<Longrightarrow> map_of rec1 k = map_of rec k"
  by (auto simp: normalize_town_website_def map_of_dict_set split: if_splits sum.splits)

lemma normalize_frame_get:
  "normalize_town_website rec = Inr rec1 \<Longrightarrow> k \<noteq> ''Town Website'' \<Longrightarrow> dict_get rec1 k = dict_get rec k"
  by (simp add: dict_get_def normalize_frame)

section \<open>The do-not-touch gate\<close>

lemma str_int_401: "str_int 401 = ''401''"
  by code_simp

lemma str_int_403: "str_int 403 = ''403''"
  by code_simp

text \<open>
  C2, as the code has it.  For a record whose last status is 401 or 403 no request is
  made and the employment link stays as it was.  The record is first asked for a site:
  when the site URL (after the homepage step of lines 659 to 664) is an http(s) URL the
  action is \<^verbatim>\<open>no_change\<close> with the reason naming the status; when it is not, the
  action is \<^verbatim>\<open>skipped\<close>.
\<close>

theorem do_not_touch_gate:
  assumes "dict_get rec ''employment_url_status_code'' \<in> set DO_NOT_REWRITE_IF_STATUS_IN"
  shows "snd (rediscover_for_town w rec) = []
    \<and> (\<forall>rec' row. fst (rediscover_for_town w rec) = Inr (rec', row) \<longrightarrow>
          map_of rec' ''Employment Page URL'' = map_of rec ''Employment Page URL''
          \<and> ((is_url (dict_get rec' ''Town Website'')
               \<and> map_of row ''action'' = Some (JStr ''no_change'')
               \<and> ((dict_get rec ''employment_url_status_code'' = JInt 401
                     \<and> map_of row ''reason'' = Some (JStr ''status_401_bot_block_likely''))
                    \<or> (dict_get rec ''employment_url_status_code'' = JInt 403
                        \<and> map_of row ''reason'' = Some (JStr ''status_403_bot_block_likely''))))
              \<or> (\<not> is_url (dict_get rec' ''Town Website'')
                  \<and> map_of row ''action'' = Some (JStr ''skipped'')
                  \<and> map_of row ''reason'' = Some (JStr ''missing_town_homepage''))))"
proof (cases "normalize_town_website rec")
  case (Inl e)
  then show ?thesis
    by (simp add: rediscover_for_town_def)
next
  case (Inr rec1)
  note frame = normalize_frame [OF Inr] normalize_frame_get [OF Inr]
  show ?thesis
  proof (cases "is_url (dict_get rec1 ''Town Website'')")
    case False
    then show ?thesis
      using Inr frame by (simp add: rediscover_for_town_def io_return_def)
  next
    case site: True
    show ?thesis
    proof (cases "detect_platform rec1")
      case (Inl e)
      then show ?thesis
        using Inr site by (simp add: rediscover_for_town_def)
    next
      case plat: (Inr platform)
      have st: "dict_get (dict_set rec1 ''platform_detected'' (JStr platform)) ''employment_url_status_code''
                  = dict_get rec ''employment_url_status_code''"
        by (simp add: dict_get_set frame)
      have cases: "dict_get rec ''employment_url_status_code'' = JInt 401
                   \<or> dict_get rec ''employment_url_status_code'' = JInt 403"
        using assms by (simp add: DO_NOT_REWRITE_IF_STATUS_IN_def)
      have run: "rediscover_for_town w rec =
          (Inr (dict_set rec1 ''platform_detected'' (JStr platform),
                [(''Town'', py_or (dict_get rec ''Town'') (JStr ''(unknown)'')),
                 (''action'', JStr ''no_change''),
                 (''reason'', JStr (''status_'' @ py_str (dict_get rec ''employment_url_status_code'')
                                     @ ''_bot_block_likely'')),
                 (''platform'', JStr platform)]), [])"
        using Inr site plat assms st
        by (simp add: rediscover_for_town_def Let_def io_return_def)
      show ?thesis
        using cases
      proof
        assume s: "dict_get rec ''employment_url_status_code'' = JInt 401"
        show ?thesis
          unfolding run using s site frame
          by (simp add: map_of_dict_set dict_get_set str_int_401)
      next
        assume s: "dict_get rec ''employment_url_status_code'' = JInt 403"
        show ?thesis
          unfolding run using s site frame
          by (simp add: map_of_dict_set dict_get_set str_int_403)
      qed
    qed
  qed
qed

theorem do_not_touch_gate_witness:
  "dict_get rec_blocked ''employment_url_status_code'' \<in> set DO_NOT_REWRITE_IF_STATUS_IN
   \<and> rediscover_for_town w_echo rec_blocked =
       (Inr ([(''Town'', JStr ''Essex''),
              (''Town Website'', JStr ''https://www.essexct.gov/''),
              (''Employment Page URL'', JStr ''https://www.essexct.gov/jobs''),
              (''employment_url_status_code'', JInt 403),
              (''platform_detected'', JStr ''other'')],
             [(''Town'', JStr ''Essex''),
              (''action'', JStr ''no_change''),
              (''reason'', JStr ''status_403_bot_block_likely''),
              (''platform'', JStr ''other'')]), [])
   \<and> map_of rec_blocked ''Employment Page URL'' = Some (JStr ''https://www.essexct.gov/jobs'')"
proof -
  have h1: "dict_get rec_blocked ''employment_url_status_code'' \<in> set DO_NOT_REWRITE_IF_STATUS_IN"
    by code_simp
  have h2: "fst (rediscover_for_town w_echo rec_blocked) =
       Inr ([(''Town'', JStr ''Essex''),
              (''Town Website'', JStr ''https://www.essexct.gov/''),
              (''Employment Page URL'', JStr ''https://www.essexct.gov/jobs''),
              (''employment_url_status_code'', JInt 403),
              (''platform_detected'', JStr ''other'')],
             [(''Town'', JStr ''Essex''),
              (''action'', JStr ''no_change''),
              (''reason'', JStr ''status_403_bot_block_likely''),
              (''platform'', JStr ''other'')])"
    by code_simp
  have h3: "map_of rec_blocked ''Employment Page URL'' = Some (JStr ''https://www.essexct.gov/jobs'')"
    by (simp add: rec_blocked_def)
  from do_not_touch_gate [OF h1, of w_echo]
  have "snd (rediscover_for_town w_echo rec_blocked) = []" by blast
  with h1 h2 h3 show ?thesis
    by (simp add: prod_eq_iff)
qed

text \<open>
  The claim as stated fails: a record with status 403 and no site URL is reported
  \<^verbatim>\<open>skipped\<close>, not \<^verbatim>\<open>no_change\<close>.
\<close>

theorem do_not_touch_record_skipped:
  "dict_get rec_no_site ''employment_url_status_code'' \<in> set DO_NOT_REWRITE_IF_STATUS_IN
   \<and> rediscover_for_town w_echo rec_no_site =
       (Inr ([(''Town'', JStr ''Essex''),
              (''Employment Page URL'', JStr ''see town hall''),
              (''employment_url_status_code'', JInt 403)],
             [(''Town'', JStr ''Essex''),
              (''action'', JStr ''skipped''),
              (''reason'', JStr ''missing_town_homepage'')]), [])"
  by code_simp

section \<open>Failed requests\<close>

lemma io_bind_Inr: "m = (Inr x, l) \<Longrightarrow> io_bind m f = (case f x of (r, l') \<Rightarrow> (r, l @ l'))"
  by (simp add: io_bind_def)

lemma io_bind_Inl: "m = (Inl e, l) \<Longrightarrow> io_bind m f = (Inl e, l)"
  by (simp add: io_bind_def)

lemma io_bind_return_right [simp]: "io_bind m (\<lambda>x. io_return x) = m"
  by (cases m) (auto simp: io_bind_def io_return_def split: sum.splits)

lemma io_bind_get_fail:
  "fetch w url = Inl e \<Longrightarrow>
   io_bind (get w url) f = (case f (None, Some e) of (r, l) \<Rightarrow> (r, url # l))"
  by (simp add: io_bind_get)

lemma io_bind_get_ok:
  "fetch w url = Inr resp \<Longrightarrow>
   io_bind (get w url) f = (case f (Some resp, None) of (r, l) \<Rightarrow> (r, url # l))"
  by (simp add: io_bind_get)

lemma discover_other_fetch_error:
  "fetch w base_home = Inl e \<Longrightarrow> discover_other w base_home = (Inr [], [base_home])"
  by (simp add: discover_other_def io_bind_get_fail crawl_homepage_def io_lift_def)

lemma discover_civiclift_fetch_error:
  "fetch w base_home = Inl e \<Longrightarrow>
   path_candidates w base_home ''CIVICLIFT_PATH:'' ''civiclift_path''
     [''/employment'', ''/job-openings'', ''/jobs'', ''/career-opportunities'', ''/careers''] = Inr c1 \<Longrightarrow>
   discover_civiclift w base_home =
     (Inr (c1 @ [(base_home, ''CIVICLIFT_FALLBACK_HOME'', ''fallback_home'')]), [base_home])"
  by (simp add: discover_civiclift_def io_bind_get_fail crawl_homepage_def io_return_def)

lemma discover_granicus_fetch_error:
  "fetch w base_home = Inl e \<Longrightarrow>
   path_candidates w base_home ''GRANICUS_PATH:'' ''granicus_path''
     [''/government/human-resources'', ''/government/human-resources/city-jobs'', ''/jobs''] = Inr c2 \<Longrightarrow>
   discover_granicus w base_home = (Inr c2, [base_home])"
  by (simp add: discover_granicus_def io_bind_get_fail crawl_homepage_def io_return_def)

lemma civicplus_homepage_crawl_fetch_error:
  "fetch w base_home = Inl e \<Longrightarrow> civicplus_homepage_crawl w base_home = (Inr [], [base_home])"
  by (simp add: civicplus_homepage_crawl_def io_bind_get_fail io_return_def)

lemma civicplus_quicklinks_crawl_fetch_error:
  "urljoin w base_home ''QuickLinks.aspx'' = Inr ql \<Longrightarrow> fetch w ql = Inl e \<Longrightarrow>
   civicplus_quicklinks_crawl w base_home = (Inr [], [ql])"
  by (simp add: civicplus_quicklinks_crawl_def io_bind_get_fail io_return_def)

lemma civicplus_search_fetch_error:
  "fetch w s_url = Inl e \<Longrightarrow>
   civicplus_search w (s_url # rest) = (case civicplus_search w rest of (r, l) \<Rightarrow> (r, s_url # l))"
  by (simp add: io_bind_get_fail)

lemma find_application_pdf_fetch_error:
  "fetch w url = Inl e \<Longrightarrow>
   find_application_pdf w url base_home = (Inr (None, ''employment_fetch_error: '' @ e), [url])"
  by (simp add: find_application_pdf_def io_bind_get_fail io_return_def)

lemma validate_loop_fetch_error:
  assumes "fetch w u = Inl e" and "0 \<le> s" and "\<not> is_social u"
  shows "validate_loop w base_home ((s, u, t, src) # rest) st =
           (case validate_loop w base_home rest st of (r, l) \<Rightarrow> (r, u # l))"
proof -
  obtain bh bp lb where st: "st = (bh, bp, lb)" by (cases st) auto
  show ?thesis
    using assms unfolding st
    by (simp add: io_bind_Inr [OF validate_candidate_fetch_error [OF assms(1)]])
qed

section \<open>When no candidate validates\<close>

lemma rejects_fetch_error: "fetch w u = Inl e \<Longrightarrow> rejects w u base_home"
  by (simp add: rejects_def validate_candidate_fetch_error)

lemma validate_loop_all_rejected:
  "\<forall>c \<in> set scored. rejects w (fst (snd c)) base_home \<Longrightarrow>
   \<exists>lb l. validate_loop w base_home scored (bh, bp, lb0) = (Inr (bh, bp, lb), l)"
proof (induction scored arbitrary: lb0)
  case Nil
  then show ?case by (simp add: io_return_def)
next
  case (Cons c scored)
  obtain s u t src where c: "c = (s, u, t, src)" by (cases c) auto
  have rest: "\<exists>lb l. validate_loop w base_home scored (bh, bp, lb1) = (Inr (bh, bp, lb), l)" for lb1
    using Cons.IH [of lb1] Cons.prems by simp
  show ?case
  proof (cases "s < 0 \<or> is_social u")
    case True
    then show ?thesis using rest [of lb0] c by auto
  next
    case False
    have "rejects w u base_home" using Cons.prems c by simp
    then obtain ok fin why blk l1 where
      v: "validate_candidate w u base_home = (Inr (ok, fin, why, blk), l1)"
      and r: "\<not> ok \<or> fin = None \<or> fin = Some ''''"
      by (cases "validate_candidate w u base_home")
         (auto simp: rejects_def split: sum.splits)
    obtain lb l where
      "validate_loop w base_home scored
         (bh, bp, if blk \<noteq> None \<and> blk \<noteq> Some '''' then blk else lb0) = (Inr (bh, bp, lb), l)"
      using rest by blast
    then show ?thesis
      using False r c by (auto simp: io_bind_Inr [OF v] Let_def)
  qed
qed

lemma scored_candidates:
  "c \<in> set (take n (score_and_sort base_home deduped)) \<Longrightarrow> snd c \<in> set deduped"
proof -
  assume "c \<in> set (take n (score_and_sort base_home deduped))"
  then have "c \<in> set (score_and_sort base_home deduped)"
    by (rule in_set_takeD)
  then show ?thesis
    by (auto simp: score_and_sort_def)
qed

lemma attempt_none_validates:
  assumes "gather_candidates w platform base_home town = (Inr cand, l)"
    and "\<forall>c \<in> set (dedupe [] cand). rejects w (fst c) base_home"
  shows "\<exists>lb l'. attempt w rec town platform base_home =
    (if platform = ''civiclift''
     then (Inr (dict_set rec ''employment_page_type'' (JStr ''ephemeral_posts''),
             [(''Town'', town),
              (''action'', JStr ''updated''),
              (''platform'', JStr platform),
              (''reason'', JStr ''no_stable_employment_page_detected_ephemeral_posts''),
              (''new_employment_url'', JStr base_home),
              (''confidence'', JInt 60),
              (''employment_page_type'', JStr ''ephemeral_posts'')]), l')
     else if lb \<noteq> None \<and> lb \<noteq> Some ''''
     then (Inr (dict_set rec ''employment_url_last_blocked_reason'' (JStr (the lb)),
             [(''Town'', town),
              (''action'', JStr ''needs_review''),
              (''reason'', JStr ''no_candidate_validated''),
              (''platform'', JStr platform),
              (''blocked_reason'', JStr (the lb))]), l')
     else (Inr (rec,
             [(''Town'', town),
              (''action'', JStr ''needs_review''),
              (''reason'', JStr ''no_candidate_validated''),
              (''platform'', JStr platform)]), l'))"
proof -
  let ?scored = "take 40 (score_and_sort base_home (dedupe [] cand))"
  have "\<forall>c \<in> set ?scored. rejects w (fst (snd c)) base_home"
    using assms(2) scored_candidates by blast
  from validate_loop_all_rejected [OF this, of None None None]
  obtain lb l2 where
    loop: "validate_loop w base_home ?scored (None, None, None) = (Inr (None, None, lb), l2)"
    by blast
  show ?thesis
    unfolding attempt_def io_bind_Inr [OF assms(1)] Let_def io_bind_Inr [OF loop]
    by (intro exI [of _ lb] exI [of _ "l @ l2"]) (simp add: io_return_def)
qed

section \<open>The ephemeral platform\<close>

lemma should_attempt_cong:
  "dict_get r ''employment_url_status_code'' = dict_get r' ''employment_url_status_code'' \<Longrightarrow>
   dict_get r ''employment_url_soft404'' = dict_get r' ''employment_url_soft404'' \<Longrightarrow>
   should_attempt r = should_attempt r'"
  by (simp add: should_attempt_def)

lemma should_attempt_not_blocked:
  "should_attempt r \<Longrightarrow> dict_get r ''employment_url_status_code'' \<notin> set DO_NOT_REWRITE_IF_STATUS_IN"
  by (auto simp: should_attempt_def Let_def split: if_splits)

text \<open>Past the gates the engine is \<open>attempt\<close> on the record with its platform noted.\<close>

lemma rediscover_attempts:
  assumes "normalize_town_website rec = Inr rec1"
    and "is_url (dict_get rec1 ''Town Website'')"
    and "detect_platform rec1 = Inr platform"
    and "should_attempt rec"
  shows "rediscover_for_town w rec =
           attempt w (dict_set rec1 ''platform_detected'' (JStr platform))
             (py_or (dict_get rec ''Town'') (JStr ''(unknown)'')) platform
             (py_str (dict_get rec1 ''Town Website''))"
proof -
  let ?rec2 = "dict_set rec1 ''platform_detected'' (JStr platform)"
  have st: "dict_get ?rec2 ''employment_url_status_code'' = dict_get rec ''employment_url_status_code''"
    and so: "dict_get ?rec2 ''employment_url_soft404'' = dict_get rec ''employment_url_soft404''"
    by (simp_all add: dict_get_set normalize_frame_get [OF assms(1)])
  have "should_attempt ?rec2"
    using assms(4) should_attempt_cong [OF st so] by simp
  moreover have "dict_get ?rec2 ''employment_url_status_code'' \<notin> set DO_NOT_REWRITE_IF_STATUS_IN"
    using should_attempt_not_blocked [OF assms(4)] st by simp
  ultimately show ?thesis
    using assms(1,2,3) by (simp add: rediscover_for_town_def Let_def)
qed

text \<open>The run of the CivicLift record of Essex while every request times out.\<close>

lemma lift_run:
  "\<exists>l. rediscover_for_town w_down rec_lift =
     (Inr (dict_set (dict_set rec_lift_home ''platform_detected'' (JStr ''civiclift''))
             ''employment_page_type'' (JStr ''ephemeral_posts''),
           [(''Town'', JStr ''Essex''),
            (''action'', JStr ''updated''),
            (''platform'', JStr ''civiclift''),
            (''reason'', JStr ''no_stable_employment_page_detected_ephemeral_posts''),
            (''new_employment_url'', JStr ''https://www.essexct.gov/''),
            (''confidence'', JInt 60),
            (''employment_page_type'', JStr ''ephemeral_posts'')]), l)"
proof -
  have h1: "normalize_town_website rec_lift = Inr rec_lift_home" by code_simp
  have h2: "is_url (dict_get rec_lift_home ''Town Website'')" by code_simp
  have h3: "detect_platform rec_lift_home = Inr ''civiclift''" by code_simp
  have h4: "should_attempt rec_lift" by code_simp
  have b: "py_str (dict_get rec_lift_home ''Town Website'') = ''https://www.essexct.gov/''"
    by code_simp
  have t: "py_or (dict_get rec_lift ''Town'') (JStr ''(unknown)'') = JStr ''Essex''"
    by code_simp
  have h5: "gather_candidates w_down ''civiclift'' ''https://www.essexct.gov/'' (JStr ''Essex'')
       = (Inr lift_candidates, [''https://www.essexct.gov/''])"
    by code_simp
  have h6: "\<forall>c \<in> set (dedupe [] lift_candidates). rejects w_down (fst c) ''https://www.essexct.gov/''"
    by (simp add: rejects_fetch_error w_down_def)
  from attempt_none_validates [OF h5 h6, of "dict_set rec_lift_home ''platform_detected'' (JStr ''civiclift'')"]
  show ?thesis
    unfolding rediscover_attempts [OF h1 h2 h3 h4] b t by simp
qed

text \<open>
  C4, as the code has it.  A record detected as CivicLift that passes the attempt gate,
  whose candidates are generated without an exception and are all passed over by the
  validator, gets the outcome row \<^verbatim>\<open>updated\<close> with the homepage as new employment
  URL, confidence 60 and the content type \<^verbatim>\<open>ephemeral_posts\<close>.  Of these, only the
  content type is written into the record (with the detected platform, and the site
  URL replaced by its homepage as for every record): the record's employment link, its
  final copy and its confidence are what they were before the run, present or absent.
  The homepage is the new link of the row, not of the record.
\<close>

theorem civiclift_ephemeral_fallback:
  assumes "normalize_town_website rec = Inr rec1"
    and "is_url (dict_get rec1 ''Town Website'')"
    and "detect_platform rec1 = Inr ''civiclift''"
    and "should_attempt rec"
    and "gather_candidates w ''civiclift'' (py_str (dict_get rec1 ''Town Website''))
           (py_or (dict_get rec ''Town'') (JStr ''(unknown)'')) = (Inr cand, l)"
    and "\<forall>c \<in> set (dedupe [] cand). rejects w (fst c) (py_str (dict_get rec1 ''Town Website''))"
  shows "\<exists>rec' l'. rediscover_for_town w rec =
           (Inr (rec',
                 [(''Town'', py_or (dict_get rec ''Town'') (JStr ''(unknown)'')),
                  (''action'', JStr ''updated''),
                  (''platform'', JStr ''civiclift''),
                  (''reason'', JStr ''no_stable_employment_page_detected_ephemeral_posts''),
                  (''new_employment_url'', JStr (py_str (dict_get rec1 ''Town Website''))),
                  (''confidence'', JInt 60),
                  (''employment_page_type'', JStr ''ephemeral_posts'')]), l')
         \<and> rec' = dict_set (dict_set rec1 ''platform_detected'' (JStr ''civiclift''))
                    ''employment_page_type'' (JStr ''ephemeral_posts'')
         \<and> map_of rec' ''employment_page_type'' = Some (JStr ''ephemeral_posts'')
         \<and> map_of rec' ''Employment Page URL'' = map_of rec ''Employment Page URL''
         \<and> map_of rec' ''employment_url_final'' = map_of rec ''employment_url_final''
         \<and> map_of rec' ''employment_url_confidence'' = map_of rec ''employment_url_confidence''"
proof -
  let ?rec' = "dict_set (dict_set rec1 ''platform_detected'' (JStr ''civiclift''))
                 ''employment_page_type'' (JStr ''ephemeral_posts'')"
  from attempt_none_validates [OF assms(5,6),
      of "dict_set rec1 ''platform_detected'' (JStr ''civiclift'')"]
  obtain l' where run: "rediscover_for_town w rec =
           (Inr (?rec',
                 [(''Town'', py_or (dict_get rec ''Town'') (JStr ''(unknown)'')),
                  (''action'', JStr ''updated''),
                  (''platform'', JStr ''civiclift''),
                  (''reason'', JStr ''no_stable_employment_page_detected_ephemeral_posts''),
                  (''new_employment_url'', JStr (py_str (dict_get rec1 ''Town Website''))),
                  (''confidence'', JInt 60),
                  (''employment_page_type'', JStr ''ephemeral_posts'')]), l')"
    unfolding rediscover_attempts [OF assms(1-4)] by auto
  have "map_of ?rec' ''employment_page_type'' = Some (JStr ''ephemeral_posts'')"
    by (simp add: map_of_dict_set)
  moreover have "map_of ?rec' ''Employment Page URL'' = map_of rec ''Employment Page URL''"
    by (simp add: map_of_dict_set normalize_frame [OF assms(1)])
  moreover have "map_of ?rec' ''employment_url_final'' = map_of rec ''employment_url_final''"
    by (simp add: map_of_dict_set normalize_frame [OF assms(1)])
  moreover have "map_of ?rec' ''employment_url_confidence'' = map_of rec ''employment_url_confidence''"
    by (simp add: map_of_dict_set normalize_frame [OF assms(1)])
  ultimately show ?thesis
    using run by blast
qed

theorem civiclift_ephemeral_fallback_witness:
  "normalize_town_website rec_lift = Inr rec_lift_home
   \<and> is_url (dict_get rec_lift_home ''Town Website'')
   \<and> detect_platform rec_lift_home = Inr ''civiclift''
   \<and> should_attempt rec_lift
   \<and> gather_candidates w_down ''civiclift'' (py_str (dict_get rec_lift_home ''Town Website''))
        (py_or (dict_get rec_lift ''Town'') (JStr ''(unknown)''))
       = (Inr lift_candidates, [''https://www.essexct.gov/''])
   \<and> list_all (\<lambda>c. rejects w_down (fst c) (py_str (dict_get rec_lift_home ''Town Website'')))
        (dedupe [] lift_candidates)
   \<and> (\<exists>rec' l'. rediscover_for_town w_down rec_lift =
           (Inr (rec',
                 [(''Town'', JStr ''Essex''),
                  (''action'', JStr ''updated''),
                  (''platform'', JStr ''civiclift''),
                  (''reason'', JStr ''no_stable_employment_page_detected_ephemeral_posts''),
                  (''new_employment_url'', JStr ''https://www.essexct.gov/''),
                  (''confidence'', JInt 60),
                  (''employment_page_type'', JStr ''ephemeral_posts'')]), l')
         \<and> rec' = dict_set (dict_set rec_lift_home ''platform_detected'' (JStr ''civiclift''))
                    ''employment_page_type'' (JStr ''ephemeral_posts'')
         \<and> map_of rec' ''employment_page_type'' = Some (JStr ''ephemeral_posts'')
         \<and> map_of rec' ''Employment Page URL'' = map_of rec_lift ''Employment Page URL''
         \<and> map_of rec' ''employment_url_final'' = map_of rec_lift ''employment_url_final''
         \<and> map_of rec' ''employment_url_confidence'' = map_of rec_lift ''employment_url_confidence'')"
proof -
  have h1: "normalize_town_website rec_lift = Inr rec_lift_home" by code_simp
  have h2: "is_url (dict_get rec_lift_home ''Town Website'')" by code_simp
  have h3: "detect_platform rec_lift_home = Inr ''civiclift''" by code_simp
  have h4: "should_attempt rec_lift" by code_simp
  have b: "py_str (dict_get rec_lift_home ''Town Website'') = ''https://www.essexct.gov/''"
    by code_simp
  have t: "py_or (dict_get rec_lift ''Town'') (JStr ''(unknown)'') = JStr ''Essex''"
    by code_simp
  have "gather_candidates w_down ''civiclift'' ''https://www.essexct.gov/'' (JStr ''Essex'')
       = (Inr lift_candidates, [''https://www.essexct.gov/''])"
    by code_simp
  then have h5: "gather_candidates w_down ''civiclift'' (py_str (dict_get rec_lift_home ''Town Website''))
        (py_or (dict_get rec_lift ''Town'') (JStr ''(unknown)''))
       = (Inr lift_candidates, [''https://www.essexct.gov/''])"
    by (simp only: b t)
  have h6: "\<forall>c \<in> set (dedupe [] lift_candidates).
       rejects w_down (fst c) (py_str (dict_get rec_lift_home ''Town Website''))"
    by (simp add: rejects_fetch_error w_down_def)
  have h6': "list_all (\<lambda>c. rejects w_down (fst c) (py_str (dict_get rec_lift_home ''Town Website'')))
        (dedupe [] lift_candidates)"
    using h6 by (simp add: list_all_iff)
  from civiclift_ephemeral_fallback [OF h1 h2 h3 h4 h5 h6]
  have "\<exists>rec' l'. rediscover_for_town w_down rec_lift =
           (Inr (rec',
                 [(''Town'', JStr ''Essex''),
                  (''action'', JStr ''updated''),
                  (''platform'', JStr ''civiclift''),
                  (''reason'', JStr ''no_stable_employment_page_detected_ephemeral_posts''),
                  (''new_employment_url'', JStr ''https://www.essexct.gov/''),
                  (''confidence'', JInt 60),
                  (''employment_page_type'', JStr ''ephemeral_posts'')]), l')
         \<and> rec' = dict_set (dict_set rec_lift_home ''platform_detected'' (JStr ''civiclift''))
                    ''employment_page_type'' (JStr ''ephemeral_posts'')
         \<and> map_of rec' ''employment_page_type'' = Some (JStr ''ephemeral_posts'')
         \<and> map_of rec' ''Employment Page URL'' = map_of rec_lift ''Employment Page URL''
         \<and> map_of rec' ''employment_url_final'' = map_of rec_lift ''employment_url_final''
         \<and> map_of rec' ''employment_url_confidence'' = map_of rec_lift ''employment_url_confidence''"
    by (simp only: b t)
  with h1 h2 h3 h4 h5 h6' show ?thesis
    by (intro conjI)
qed

text \<open>
  The claim as stated fails in one part.  The CivicLift record of Essex passes the
  attempt gate, and while every request times out none of its candidates validates.
  The row of the run is \<^verbatim>\<open>updated\<close> with the homepage, confidence 60 and the content
  type \<^verbatim>\<open>ephemeral_posts\<close>; but the homepage is not the record's new employment link:
  the record keeps the link it came with, and has neither a final URL nor a
  confidence.
\<close>

theorem ephemeral_fallback_keeps_old_link:
  "detect_platform rec_lift_home = Inr ''civiclift''
   \<and> normalize_town_website rec_lift = Inr rec_lift_home
   \<and> should_attempt rec_lift
   \<and> list_all (\<lambda>c. rejects w_down (fst c) ''https://www.essexct.gov/'') (dedupe [] lift_candidates)
   \<and> (\<exists>rec' row l. rediscover_for_town w_down rec_lift = (Inr (rec', row), l)
        \<and> dict_get row ''action'' = JStr ''updated''
        \<and> dict_get row ''new_employment_url'' = JStr ''https://www.essexct.gov/''
        \<and> dict_get row ''confidence'' = JInt 60
        \<and> dict_get row ''employment_page_type'' = JStr ''ephemeral_posts''
        \<and> dict_get rec' ''Employment Page URL'' = JStr ''https://www.essexct.gov/old-jobs''
        \<and> dict_get rec' ''Employment Page URL'' \<noteq> dict_get row ''new_employment_url''
        \<and> \<not> dict_has rec' ''employment_url_final''
        \<and> \<not> dict_has rec' ''employment_url_confidence'')"
proof -
  have h1: "detect_platform rec_lift_home = Inr ''civiclift''" by code_simp
  have h2: "normalize_town_website rec_lift = Inr rec_lift_home" by code_simp
  have h3: "should_attempt rec_lift" by code_simp
  have h4: "list_all (\<lambda>c. rejects w_down (fst c) ''https://www.essexct.gov/'') (dedupe [] lift_candidates)"
    by (simp add: list_all_iff rejects_fetch_error w_down_def)
  from lift_run obtain l where
    "rediscover_for_town w_down rec_lift =
     (Inr (dict_set (dict_set rec_lift_home ''platform_detected'' (JStr ''civiclift''))
             ''employment_page_type'' (JStr ''ephemeral_posts''),
           [(''Town'', JStr ''Essex''),
            (''action'', JStr ''updated''),
            (''platform'', JStr ''civiclift''),
            (''reason'', JStr ''no_stable_employment_page_detected_ephemeral_posts''),
            (''new_employment_url'', JStr ''https://www.essexct.gov/''),
            (''confidence'', JInt 60),
            (''employment_page_type'', JStr ''ephemeral_posts'')]), l)"
    by blast
  then have "\<exists>rec' row l. rediscover_for_town w_down rec_lift = (Inr (rec', row), l)
        \<and> dict_get row ''action'' = JStr ''updated''
        \<and> dict_get row ''new_employment_url'' = JStr ''https://www.essexct.gov/''
        \<and> dict_get row ''confidence'' = JInt 60
        \<and> dict_get row ''employment_page_type'' = JStr ''ephemeral_posts''
        \<and> dict_get rec' ''Employment Page URL'' = JStr ''https://www.essexct.gov/old-jobs''
        \<and> dict_get rec' ''Employment Page URL'' \<noteq> dict_get row ''new_employment_url''
        \<and> \<not> dict_has rec' ''employment_url_final''
        \<and> \<not> dict_has rec' ''employment_url_confidence''"
    by (simp add: dict_get_def dict_has_def map_of_dict_set rec_lift_home_def)
  with h1 h2 h3 h4 show ?thesis
    by (intro conjI)
qed

section \<open>Transport errors\<close>

lemma process_records_step:
  assumes "py_or (dict_get rec ''Town'') (JStr '''') = JStr nm"
    and "rediscover_for_town w rec = (Inr (rec', row), l)"
  shows "process_records w None (rec # data) =
           (case process_records w None data of
              (Inl e, l') \<Rightarrow> (Inl e, l @ l')
            | (Inr (recs, rows), l') \<Rightarrow> (Inr (rec' # recs, row # rows), l @ l'))"
  using assms(1)
  by (simp add: io_bind_Inr [OF assms(2)])
     (simp add: io_bind_def io_return_def split: prod.splits sum.splits)

text \<open>
  C9.  A request that fails with a transport error is a value, not an exception:
  \<^verbatim>\<open>get\<close> returns \<^verbatim>\<open>(None, str(e))\<close>; the validator returns the fetch-error verdict;
  the validation loop passes the candidate over and goes on with the rest, its state
  unchanged; the application finder returns no PDF; each crawling sub-strategy of the
  generator (homepage, quick links, every search page) contributes no candidate while the
  static candidates stay.  When every request fails, a record past the gates whose
  candidates are generated still gets its row, and the run goes on with the next record
  after any record that got a row.
\<close>

theorem transport_error_is_not_fatal:
  assumes "fetch w url = Inl e"
  shows "get w url = (Inr (None, Some e), [url])
    \<and> validate_candidate w url base_home = (Inr (False, None, ''fetch_error: '' @ e, None), [url])
    \<and> (0 \<le> s \<and> \<not> is_social url \<longrightarrow>
         validate_loop w base_home ((s, url, t, src) # rest) st =
           (case validate_loop w base_home rest st of (r, l) \<Rightarrow> (r, url # l)))
    \<and> find_application_pdf w url base_home = (Inr (None, ''employment_fetch_error: '' @ e), [url])
    \<and> discover_other w url = (Inr [], [url])
    \<and> (\<forall>c1. path_candidates w url ''CIVICLIFT_PATH:'' ''civiclift_path''
               [''/employment'', ''/job-openings'', ''/jobs'', ''/career-opportunities'', ''/careers'']
               = Inr c1 \<longrightarrow>
             discover_civiclift w url =
               (Inr (c1 @ [(url, ''CIVICLIFT_FALLBACK_HOME'', ''fallback_home'')]), [url]))
    \<and> (\<forall>c2. path_candidates w url ''GRANICUS_PATH:'' ''granicus_path''
               [''/government/human-resources'', ''/government/human-resources/city-jobs'', ''/jobs'']
               = Inr c2 \<longrightarrow>
             discover_granicus w url = (Inr c2, [url]))
    \<and> civicplus_homepage_crawl w url = (Inr [], [url])
    \<and> (urljoin w base_home ''QuickLinks.aspx'' = Inr url \<longrightarrow>
          civicplus_quicklinks_crawl w base_home = (Inr [], [url]))
    \<and> civicplus_search w (url # urls) =
          (case civicplus_search w urls of (r, l) \<Rightarrow> (r, url # l))
    \<and> ((\<forall>u. \<exists>e'. fetch w u = Inl e') \<longrightarrow>
          normalize_town_website rec = Inr rec1 \<longrightarrow>
          is_url (dict_get rec1 ''Town Website'') \<longrightarrow>
          detect_platform rec1 = Inr platform \<longrightarrow>
          should_attempt rec \<longrightarrow>
          gather_candidates w platform (py_str (dict_get rec1 ''Town Website''))
             (py_or (dict_get rec ''Town'') (JStr ''(unknown)'')) = (Inr cand, l0) \<longrightarrow>
          (\<exists>rec' row l'. rediscover_for_town w rec = (Inr (rec', row), l')
              \<and> (map_of row ''action'' = Some (JStr ''needs_review'')
                   \<or> map_of row ''action'' = Some (JStr ''updated''))))
    \<and> (\<forall>nm rec' row l. py_or (dict_get rec ''Town'') (JStr '''') = JStr nm \<longrightarrow>
          rediscover_for_town w rec = (Inr (rec', row), l) \<longrightarrow>
          process_records w None (rec # data) =
            (case process_records w None data of
               (Inl e, l') \<Rightarrow> (Inl e, l @ l')
             | (Inr (recs, rows), l') \<Rightarrow> (Inr (rec' # recs, row # rows), l @ l')))"
proof -
  have run: "\<exists>rec' row l'. rediscover_for_town w rec = (Inr (rec', row), l')
              \<and> (map_of row ''action'' = Some (JStr ''needs_review'')
                   \<or> map_of row ''action'' = Some (JStr ''updated''))"
    if down: "\<forall>u. \<exists>e'. fetch w u = Inl e'"
      and n: "normalize_town_website rec = Inr rec1"
      and s: "is_url (dict_get rec1 ''Town Website'')"
      and p: "detect_platform rec1 = Inr platform"
      and a: "should_attempt rec"
      and g: "gather_candidates w platform (py_str (dict_get rec1 ''Town Website''))
             (py_or (dict_get rec ''Town'') (JStr ''(unknown)'')) = (Inr cand, l0)"
  proof -
    have "\<forall>c \<in> set (dedupe [] cand). rejects w (fst c) (py_str (dict_get rec1 ''Town Website''))"
      using down rejects_fetch_error by blast
    from attempt_none_validates [OF g this, of "dict_set rec1 ''platform_detected'' (JStr platform)"]
    obtain lb l' where
      "attempt w (dict_set rec1 ''platform_detected'' (JStr platform))
         (py_or (dict_get rec ''Town'') (JStr ''(unknown)'')) platform
         (py_str (dict_get rec1 ''Town Website'')) =
       (if platform = ''civiclift''
        then (Inr (dict_set (dict_set rec1 ''platform_detected'' (JStr platform))
                ''employment_page_type'' (JStr ''ephemeral_posts''),
             [(''Town'', py_or (dict_get rec ''Town'') (JStr ''(unknown)'')),
              (''action'', JStr ''updated''),
              (''platform'', JStr platform),
              (''reason'', JStr ''no_stable_employment_page_detected_ephemeral_posts''),
              (''new_employment_url'', JStr (py_str (dict_get rec1 ''Town Website''))),
              (''confidence'', JInt 60),
              (''employment_page_type'', JStr ''ephemeral_posts'')]), l')
        else if lb \<noteq> None \<and> lb \<noteq> Some ''''
        then (Inr (dict_set (dict_set rec1 ''platform_detected'' (JStr platform))
                ''employment_url_last_blocked_reason'' (JStr (the lb)),
             [(''Town'', py_or (dict_get rec ''Town'') (JStr ''(unknown)'')),
              (''action'', JStr ''needs_review''),
              (''reason'', JStr ''no_candidate_validated''),
              (''platform'', JStr platform),
              (''blocked_reason'', JStr (the lb))]), l')
        else (Inr (dict_set rec1 ''platform_detected'' (JStr platform),
             [(''Town'', py_or (dict_get rec ''Town'') (JStr ''(unknown)'')),
              (''action'', JStr ''needs_review''),
              (''reason'', JStr ''no_candidate_validated''),
              (''platform'', JStr platform)]), l'))"
      by blast
    then show ?thesis
      unfolding rediscover_attempts [OF n s p a]
      by (auto split: if_splits)
  qed
  have "get w url = (Inr (None, Some e), [url])"
    using assms by (simp add: get_def)
  moreover note validate_candidate_fetch_error [OF assms, of base_home]
    find_application_pdf_fetch_error [OF assms, of base_home]
    discover_other_fetch_error [OF assms]
    civicplus_homepage_crawl_fetch_error [OF assms]
    civicplus_search_fetch_error [OF assms, of urls]
  moreover have "0 \<le> s \<and> \<not> is_social url \<longrightarrow>
         validate_loop w base_home ((s, url, t, src) # rest) st =
           (case validate_loop w base_home rest st of (r, l) \<Rightarrow> (r, url # l))"
    using validate_loop_fetch_error [OF assms] by blast
  moreover have "\<forall>c1. path_candidates w url ''CIVICLIFT_PATH:'' ''civiclift_path''
               [''/employment'', ''/job-openings'', ''/jobs'', ''/career-opportunities'', ''/careers'']
               = Inr c1 \<longrightarrow>
             discover_civiclift w url =
               (Inr (c1 @ [(url, ''CIVICLIFT_FALLBACK_HOME'', ''fallback_home'')]), [url])"
    using discover_civiclift_fetch_error [OF assms] by blast
  moreover have "\<forall>c2. path_candidates w url ''GRANICUS_PATH:'' ''granicus_path''
               [''/government/human-resources'', ''/government/human-resources/city-jobs'', ''/jobs'']
               = Inr c2 \<longrightarrow>
             discover_granicus w url = (Inr c2, [url])"
    using discover_granicus_fetch_error [OF assms] by blast
  moreover have "urljoin w base_home ''QuickLinks.aspx'' = Inr url \<longrightarrow>
          civicplus_quicklinks_crawl w base_home = (Inr [], [url])"
    using civicplus_quicklinks_crawl_fetch_error [OF _ assms] by blast
  moreover have "\<forall>nm rec' row l. py_or (dict_get rec ''Town'') (JStr '''') = JStr nm \<longrightarrow>
          rediscover_for_town w rec = (Inr (rec', row), l) \<longrightarrow>
          process_records w None (rec # data) =
            (case process_records w None data of
               (Inl e, l') \<Rightarrow> (Inl e, l @ l')
             | (Inr (recs, rows), l') \<Rightarrow> (Inr (rec' # recs, row # rows), l @ l'))"
    using process_records_step by blast
  ultimately show ?thesis
    using run by blast
qed

theorem transport_error_is_not_fatal_witness:
  "fetch w_down ''https://www.essexct.gov/'' = Inl ''timeout''
   \<and> get w_down ''https://www.essexct.gov/'' = (Inr (None, Some ''timeout''), [''https://www.essexct.gov/''])
   \<and> validate_candidate w_down ''https://www.essexct.gov/'' ''https://www.essexct.gov/'' =
        (Inr (False, None, ''fetch_error: '' @ ''timeout'', None), [''https://www.essexct.gov/''])
   \<and> discover_other w_down ''https://www.essexct.gov/'' = (Inr [], [''https://www.essexct.gov/''])
   \<and> civicplus_homepage_crawl w_down ''https://www.essexct.gov/'' = (Inr [], [''https://www.essexct.gov/''])"
proof -
  have h: "fetch w_down ''https://www.essexct.gov/'' = Inl ''timeout''"
    by (simp add: w_down_def)
  from transport_error_is_not_fatal [OF h, of "''https://www.essexct.gov/''"] h
  show ?thesis by blast
qed

section \<open>The outcomes of a run\<close>

lemma io_bind_Inr_iff:
  "io_bind m f = (Inr y, l) \<longleftrightarrow> (\<exists>x l1 l2. m = (Inr x, l1) \<and> f x = (Inr y, l2) \<and> l = l1 @ l2)"
  by (cases m; cases "fst m") (auto simp: io_bind_def split: prod.splits sum.splits)

lemma io_lift_Inr_iff: "io_lift r = (Inr y, l) \<longleftrightarrow> r = Inr y \<and> l = []"
  by (auto simp: io_lift_def)

lemma io_return_Inr_iff: "io_return x = (Inr y, l) \<longleftrightarrow> x = y \<and> l = []"
  by (auto simp: io_return_def)

lemma employment_page_type_values:
  "employment_page_type rec platform new_emp = Inr ty \<Longrightarrow>
   ty \<in> {''ats_vendor'', ''module_page'', ''hr_page'', ''pdf_posting'', ''page''}"
  by (auto simp: employment_page_type_def split: if_splits jval.splits)

lemma map_of_update_record:
  "map_of (update_record w rec new_emp platform change_reason conf method score why) =
     (map_of rec)
       (''platform_detected'' \<mapsto> JStr platform,
        ''Employment Page URL'' \<mapsto> JStr new_emp,
        ''employment_url_final'' \<mapsto> JStr new_emp,
        ''employment_url_last_checked_at'' \<mapsto> JStr (now_utc_iso w),
        ''employment_url_change_reason'' \<mapsto> JStr change_reason,
        ''employment_url_confidence'' \<mapsto> JInt conf,
        ''employment_url_discovery_method'' \<mapsto> JStr method,
        ''employment_url_discovery_score'' \<mapsto> JInt score,
        ''employment_url_validation_reason'' \<mapsto> JStr why)"
  by (simp add: update_record_def map_of_dict_set)

lemma refresh_application_frame:
  assumes "refresh_application w rec new_emp base_home = (Inr rec', l)"
    and "k \<notin> set application_keys"
  shows "map_of rec' k = map_of rec k"
proof (cases "\<not> is_pdf new_emp \<and> same_site new_emp base_home")
  case False
  then show ?thesis
    using assms(1) by (auto simp: refresh_application_def io_return_def)
next
  case True
  then obtain pdf pdf_reason l1 l2 where
    "(if pdf \<noteq> None \<and> pdf \<noteq> Some '''' then
        (let rec1 = (if \<not> dict_has rec ''Application Form URL (original)''
                        \<and> (case dict_get rec ''Application Form URL'' of JStr a \<Rightarrow> True | _ \<Rightarrow> False)
                     then dict_set rec ''Application Form URL (original)''
                            (dict_get rec ''Application Form URL'')
                     else rec);
             rec2 = dict_set rec1 ''Application Form URL'' (JStr (the pdf));
             rec3 = dict_set rec2 ''application_url_final'' (JStr (the pdf));
             rec4 = dict_set rec3 ''application_url_last_checked_at'' (JStr (now_utc_iso w));
             rec5 = dict_set rec4 ''application_url_change_reason'' (JStr pdf_reason);
             rec6 = dict_set rec5 ''application_url_confidence'' (JInt 85)
         in io_return rec6)
      else io_return rec) = (Inr rec', l2)"
    using assms(1) by (auto simp: refresh_application_def io_bind_Inr_iff)
  then show ?thesis
    using assms(2)
    by (auto simp: application_keys_def io_return_def Let_def map_of_dict_set split: if_splits)
qed

lemma accept_choice_Inr:
  assumes "accept_choice w rec town platform base_home (s, new_emp, src, why) = (Inr (rec', row), l)"
  shows "\<exists>conf ptype.
      confidence new_emp = Inr conf
      \<and> employment_page_type rec platform new_emp = Inr ptype
      \<and> refresh_application w
           (update_record w (dict_set rec ''employment_page_type'' (JStr ptype)) new_emp platform
              (''rediscovered_from_'' @ src) conf src s why) new_emp base_home = (Inr rec', l)
      \<and> row = [(''Town'', town),
               (''action'', JStr ''updated''),
               (''platform'', JStr platform),
               (''old_employment_url'', py_or (dict_get rec ''Employment Page URL'') (JStr '''')),
               (''new_employment_url'', JStr new_emp),
               (''confidence'', JInt conf),
               (''source'', JStr src),
               (''employment_page_type'', JStr ptype)]"
proof -
  from assms obtain conf ptype where
    c: "confidence new_emp = Inr conf"
    and p: "employment_page_type rec platform new_emp = Inr ptype"
    and r: "refresh_application w
           (update_record w (dict_set rec ''employment_page_type'' (JStr ptype)) new_emp platform
              (''rediscovered_from_'' @ src) conf src s why) new_emp base_home = (Inr rec', l)"
    and row: "row = [(''Town'', town),
               (''action'', JStr ''updated''),
               (''platform'', JStr platform),
               (''old_employment_url'', py_or (dict_get rec ''Employment Page URL'') (JStr '''')),
               (''new_employment_url'', JStr new_emp),
               (''confidence'', JInt conf),
               (''source'', JStr src),
               (''employment_page_type'', py_or (dict_get rec' ''employment_page_type'') (JStr ''''))]"
    by (auto simp: accept_choice_def Let_def io_bind_Inr_iff io_lift_Inr_iff io_return_Inr_iff)
  have "map_of rec' ''employment_page_type'' = Some (JStr ptype)"
    using refresh_application_frame [OF r, of "''employment_page_type''"]
    by (simp add: application_keys_def map_of_update_record map_of_dict_set)
  moreover have "ptype \<noteq> []"
    using employment_page_type_values [OF p] by auto
  ultimately have "py_or (dict_get rec' ''employment_page_type'') (JStr '''') = JStr ptype"
    by (simp add: py_or_def dict_get_def)
  then show ?thesis
    using c p r row by simp
qed

text \<open>The four ways in which \<open>attempt\<close> ends with a row.\<close>

lemma attempt_cases:
  assumes "attempt w rec town platform base_home = (Inr (rec', row), l)"
  shows "(platform = ''civiclift''
          \<and> rec' = dict_set rec ''employment_page_type'' (JStr ''ephemeral_posts'')
          \<and> row = [(''Town'', town),
                    (''action'', JStr ''updated''),
                    (''platform'', JStr platform),
                    (''reason'', JStr ''no_stable_employment_page_detected_ephemeral_posts''),
                    (''new_employment_url'', JStr base_home),
                    (''confidence'', JInt 60),
                    (''employment_page_type'', JStr ''ephemeral_posts'')])
       \<or> (\<exists>lb. rec' = dict_set rec ''employment_url_last_blocked_reason'' (JStr lb)
             \<and> row = [(''Town'', town),
                       (''action'', JStr ''needs_review''),
                       (''reason'', JStr ''no_candidate_validated''),
                       (''platform'', JStr platform),
                       (''blocked_reason'', JStr lb)])
       \<or> (rec' = rec
           \<and> row = [(''Town'', town),
                     (''action'', JStr ''needs_review''),
                     (''reason'', JStr ''no_candidate_validated''),
                     (''platform'', JStr platform)])
       \<or> (\<exists>chosen l2. accept_choice w rec town platform base_home chosen = (Inr (rec', row), l2))"
  using assms
  by (auto simp: attempt_def Let_def io_bind_Inr_iff io_return_Inr_iff
           split: option.splits if_splits)

lemma rediscover_cases:
  assumes "rediscover_for_town w rec = (Inr (rec', row), l)"
  shows "\<exists>rec1. normalize_town_website rec = Inr rec1
     \<and> ((\<not> is_url (dict_get rec1 ''Town Website'') \<and> rec' = rec1 \<and> l = []
          \<and> row = [(''Town'', py_or (dict_get rec ''Town'') (JStr ''(unknown)'')),
                    (''action'', JStr ''skipped''),
                    (''reason'', JStr ''missing_town_homepage'')])
        \<or> (is_url (dict_get rec1 ''Town Website'')
            \<and> (\<exists>platform. detect_platform rec1 = Inr platform
                 \<and> ((\<not> should_attempt rec
                      \<and> rec' = dict_set rec1 ''platform_detected'' (JStr platform) \<and> l = []
                      \<and> (\<exists>reason. row = [(''Town'', py_or (dict_get rec ''Town'') (JStr ''(unknown)'')),
                                (''action'', JStr ''no_change''),
                                (''reason'', JStr reason),
                                (''platform'', JStr platform)]))
                     \<or> (should_attempt rec
                         \<and> attempt w (dict_set rec1 ''platform_detected'' (JStr platform))
                              (py_or (dict_get rec ''Town'') (JStr ''(unknown)'')) platform
                              (py_str (dict_get rec1 ''Town Website'')) = (Inr (rec', row), l))))))"
proof -
  from assms obtain rec1 where n: "normalize_town_website rec = Inr rec1"
    by (cases "normalize_town_website rec") (auto simp: rediscover_for_town_def)
  show ?thesis
  proof (cases "is_url (dict_get rec1 ''Town Website'')")
    case False
    then show ?thesis
      using assms n by (auto simp: rediscover_for_town_def io_return_def)
  next
    case site: True
    from assms n site obtain platform where p: "detect_platform rec1 = Inr platform"
      by (cases "detect_platform rec1") (auto simp: rediscover_for_town_def)
    let ?rec2 = "dict_set rec1 ''platform_detected'' (JStr platform)"
    have st: "dict_get ?rec2 ''employment_url_status_code'' = dict_get rec ''employment_url_status_code''"
      and so: "dict_get ?rec2 ''employment_url_soft404'' = dict_get rec ''employment_url_soft404''"
      by (simp_all add: dict_get_set normalize_frame_get [OF n])
    note sa = should_attempt_cong [OF st so]
    show ?thesis
    proof (cases "should_attempt rec")
      case True
      then show ?thesis
        using assms n site p rediscover_attempts [OF n site p True, of w] by auto
    next
      case False
      then have "\<not> should_attempt ?rec2"
        using sa by simp
      then have "rediscover_for_town w rec =
          (Inr (?rec2,
             [(''Town'', py_or (dict_get rec ''Town'') (JStr ''(unknown)'')),
              (''action'', JStr ''no_change''),
              (''reason'', JStr (if dict_get rec ''employment_url_status_code''
                                     \<in> set DO_NOT_REWRITE_IF_STATUS_IN
                                  then ''status_'' @ py_str (dict_get rec ''employment_url_status_code'')
                                       @ ''_bot_block_likely''
                                  else ''employment_not_marked_broken'')),
              (''platform'', JStr platform)]), [])"
        using n site p st by (simp add: rediscover_for_town_def Let_def io_return_def)
      then show ?thesis
        using assms n site p False by auto
    qed
  qed
qed

section \<open>Evaluating a run step by step\<close>

lemma judge_ok:
  assumes "unwrap_granicus_splash final = None"
    and "resp_status_code resp < 400"
    and "interstitial_block resp final = None"
    and "\<not> looks_soft404 resp"
    and "\<not> is_social final"
    and "same_site final base_home \<or> is_ats final"
  shows "judge resp final base_home = (True, Some final, ''ok'', None)"
  using assms by (auto simp: judge_def)

lemma crawl_homepage_page:
  assumes "st < 400" and "\<not> looks_soft404 (page u st body)" and "u \<noteq> []"
    and "extract_links w u body = Inr l1"
    and "extract_links_with_selector w u body ''nav a[href], footer a[href]'' = Inr l2"
  shows "crawl_homepage w base_home (Some (page u st body)) keep =
           Inr (map (\<lambda>(u, t). (u, t, ''homepage_link'')) (filter (\<lambda>(u, t). keep u t) l1)
                @ map (\<lambda>(u, t). (u, t, ''nav_footer_link'')) (filter (\<lambda>(u, t). keep u t) l2))"
  using assms by (simp add: crawl_homepage_def resp_truthy_def page_def)

lemma validate_loop_accept_page:
  assumes "validate_candidate w u base_home = (Inr (True, Some f, why, None), l1)"
    and "0 \<le> s" and "\<not> is_social u" and "f \<noteq> []" and "\<not> is_pdf f"
  shows "validate_loop w base_home ((s, u, t, src) # rest) (best_html, best_pdf, lb) =
           (case validate_loop w base_home rest
                   ((if best_html = None \<or> s > fst (the best_html) then Some (s, f, src, why)
                     else best_html), best_pdf, lb) of
              (r, l) \<Rightarrow> (r, l1 @ l))"
  using assms(2-5) by (simp add: io_bind_Inr [OF assms(1)])

lemma find_application_pdf_no_links:
  assumes "fetch w url = Inr (page u st body)"
    and "st < 400" and "\<not> looks_soft404 (page u st body)" and "u \<noteq> []"
    and "extract_links w u body = Inr links"
    and "filter (\<lambda>ut. is_pdf (fst ut)) links = []"
  shows "find_application_pdf w url base_home = (Inr (None, ''no_pdf_links''), [url])"
proof -
  have "lower ''text/html'' = ''text/html''" by code_simp
  then have "contains (lower (opt_str (resp_content_type (page u st body)))) ''text/html''"
    by (simp add: page_def opt_str_def)
  then show ?thesis
    using assms
    by (simp add: find_application_pdf_def io_bind_get_ok [OF assms(1)] Let_def)
       (simp add: page_def io_return_def)
qed

lemma refresh_application_no_pdf:
  assumes "find_application_pdf w new_emp base_home = (Inr (None, reason), l)"
  shows "refresh_application w rec new_emp base_home =
           (Inr rec, if \<not> is_pdf new_emp \<and> same_site new_emp base_home then l else [])"
  by (simp add: refresh_application_def io_bind_Inr [OF assms] io_return_def)

lemma accept_choice_eval:
  assumes "confidence new_emp = Inr conf"
    and "employment_page_type rec platform new_emp = Inr ptype"
    and "refresh_application w
           (update_record w (dict_set rec ''employment_page_type'' (JStr ptype)) new_emp platform
              (''rediscovered_from_'' @ src) conf src s why) new_emp base_home = (Inr rec', l)"
    and "dict_get rec' ''employment_page_type'' = JStr ptype" and "ptype \<noteq> []"
  shows "accept_choice w rec town platform base_home (s, new_emp, src, why) =
          (Inr (rec',
             [(''Town'', town),
              (''action'', JStr ''updated''),
              (''platform'', JStr platform),
              (''old_employment_url'', py_or (dict_get rec ''Employment Page URL'') (JStr '''')),
              (''new_employment_url'', JStr new_emp),
              (''confidence'', JInt conf),
              (''source'', JStr src),
              (''employment_page_type'', JStr ptype)]), l)"
  using assms
  by (auto simp: accept_choice_def Let_def io_bind_Inr_iff io_return_Inr_iff py_or_def)

lemma attempt_eval:
  assumes "gather_candidates w platform base_home town = (Inr cand, l1)"
    and "take 40 (score_and_sort base_home (dedupe [] cand)) = scored"
    and "validate_loop w base_home scored (None, None, None) = (Inr (best_html, best_pdf, lb), l2)"
    and "(if best_html \<noteq> None then best_html else best_pdf) = Some chosen"
    and "accept_choice w rec town platform base_home chosen = (r, l3)"
  shows "attempt w rec town platform base_home = (r, l1 @ l2 @ l3)"
  using assms(4,5) unfolding attempt_def io_bind_Inr [OF assms(1)] Let_def assms(2)
    io_bind_Inr [OF assms(3)]
  by (auto split: option.splits)

section \<open>The run on the site with a page of vacancies\<close>

lemma vacancy_home_ok: "\<not> looks_soft404 (page ''http://t.gov/'' 200 home_body)"
proof -
  have "\<not> any_in SOFT404_PHRASES (lower home_body)" by code_simp
  moreover have "length home_body \<le> 250000" by (simp add: home_body_def)
  ultimately show ?thesis by (simp add: looks_soft404_page)
qed

lemma vacancy_page_ok: "\<not> looks_soft404 (page ''http://t.gov/vacancies'' 200 vacancy_body)"
proof -
  have "\<not> any_in SOFT404_PHRASES (lower vacancy_body)" by code_simp
  moreover have "length vacancy_body \<le> 250000" by (simp add: vacancy_body_def)
  ultimately show ?thesis by (simp add: looks_soft404_page)
qed

lemma vacancy_gather:
  "gather_candidates w_vacancy ''other'' ''http://t.gov/'' town =
     (Inr [(''http://t.gov/vacancies'', ''Current vacancies'', ''homepage_link'')], [''http://t.gov/''])"
proof -
  have f: "fetch w_vacancy ''http://t.gov/'' = Inr (page ''http://t.gov/'' 200 home_body)"
    by (simp add: w_vacancy_def)
  have l1: "extract_links w_vacancy ''http://t.gov/'' home_body
              = Inr [(''http://t.gov/vacancies'', ''Current vacancies'')]"
    by code_simp
  have l2: "extract_links_with_selector w_vacancy ''http://t.gov/'' home_body
              ''nav a[href], footer a[href]'' = Inr []"
    by code_simp
  have k: "kw_hit ''http://t.gov/vacancies''" by code_simp
  have "crawl_homepage w_vacancy ''http://t.gov/'' (Some (page ''http://t.gov/'' 200 home_body))
          (\<lambda>u t. kw_hit u \<or> kw_hit t \<or> contains (lower t) ''human resources'')
        = Inr [(''http://t.gov/vacancies'', ''Current vacancies'', ''homepage_link'')]"
    using crawl_homepage_page [OF _ vacancy_home_ok _ l1 l2] k by simp
  then show ?thesis
    by (simp add: gather_candidates_def discover_other_def io_bind_get_ok [OF f] io_lift_def)
qed

lemma vacancy_validate:
  "validate_candidate w_vacancy ''http://t.gov/vacancies'' ''http://t.gov/''
     = (Inr (True, Some ''http://t.gov/vacancies'', ''ok'', None), [''http://t.gov/vacancies''])"
proof -
  let ?u = "''http://t.gov/vacancies''"
  let ?r = "page ?u 200 vacancy_body"
  have f: "fetch w_vacancy ?u = Inr ?r" by (simp add: w_vacancy_def)
  have rf: "restore_final ?u ?r = Inr ?u" by code_simp
  have a: "unwrap_granicus_splash ?u = None" by code_simp
  have b: "resp_status_code ?r < 400" by (simp add: page_def)
  have c: "interstitial_block ?r ?u = None" by code_simp
  have d: "\<not> is_social ?u" by code_simp
  have e: "same_site ?u ''http://t.gov/''" by code_simp
  have "judge ?r ?u ''http://t.gov/'' = (True, Some ?u, ''ok'', None)"
    using a b c vacancy_page_ok d e by (intro judge_ok) simp_all
  then show ?thesis
    using validate_candidate_fetched [OF f rf, of "''http://t.gov/''"] by simp
qed

lemma vacancy_run:
  "rediscover_for_town w_vacancy rec_vacancy =
     (Inr (update_record w_vacancy
             (dict_set (dict_set rec_vacancy ''platform_detected'' (JStr ''other''))
                ''employment_page_type'' (JStr ''page''))
             ''http://t.gov/vacancies'' ''other'' ''rediscovered_from_homepage_link'' 70
             ''homepage_link'' 90 ''ok'',
           [(''Town'', JStr ''Tolland''),
            (''action'', JStr ''updated''),
            (''platform'', JStr ''other''),
            (''old_employment_url'', JStr ''http://t.gov/old''),
            (''new_employment_url'', JStr ''http://t.gov/vacancies''),
            (''confidence'', JInt 70),
            (''source'', JStr ''homepage_link''),
            (''employment_page_type'', JStr ''page'')]),
      [''http://t.gov/'', ''http://t.gov/vacancies'', ''http://t.gov/vacancies''])"
proof -
  let ?u = "''http://t.gov/vacancies''"
  let ?b = "''http://t.gov/''"
  let ?rec2 = "dict_set rec_vacancy ''platform_detected'' (JStr ''other'')"
  let ?rec3 = "update_record w_vacancy (dict_set ?rec2 ''employment_page_type'' (JStr ''page''))
             ?u ''other'' (''rediscovered_from_'' @ ''homepage_link'') 70 ''homepage_link'' 90 ''ok''"
  have n: "normalize_town_website rec_vacancy = Inr rec_vacancy" by code_simp
  have s: "is_url (dict_get rec_vacancy ''Town Website'')" by code_simp
  have p: "detect_platform rec_vacancy = Inr ''other''" by code_simp
  have a: "should_attempt rec_vacancy" by code_simp
  have b: "py_str (dict_get rec_vacancy ''Town Website'') = ?b" by code_simp
  have t: "py_or (dict_get rec_vacancy ''Town'') (JStr ''(unknown)'') = JStr ''Tolland''" by code_simp
  have sc: "take 40 (score_and_sort ?b (dedupe [] [(?u, ''Current vacancies'', ''homepage_link'')]))
              = [(90, ?u, ''Current vacancies'', ''homepage_link'')]"
    by code_simp
  have soc: "\<not> is_social ?u" by code_simp
  have pdf: "\<not> is_pdf ?u" by code_simp
  have loop: "validate_loop w_vacancy ?b [(90, ?u, ''Current vacancies'', ''homepage_link'')]
                (None, None, None) = (Inr (Some (90, ?u, ''homepage_link'', ''ok''), None, None), [?u])"
    using validate_loop_accept_page [OF vacancy_validate _ soc _ pdf, of 90 "''Current vacancies''"
        "''homepage_link''" "[]" None None None]
    by (simp add: io_return_def)
  have conf: "confidence ?u = Inr 70" by code_simp
  have ty: "employment_page_type ?rec2 ''other'' ?u = Inr ''page''" by code_simp
  have f: "fetch w_vacancy ?u = Inr (page ?u 200 vacancy_body)" by (simp add: w_vacancy_def)
  have links: "extract_links w_vacancy ?u vacancy_body = Inr []" by code_simp
  have fa: "find_application_pdf w_vacancy ?u ?b = (Inr (None, ''no_pdf_links''), [?u])"
    using find_application_pdf_no_links [OF f _ vacancy_page_ok _ links] by simp
  have ss: "same_site ?u ?b" by code_simp
  have ra: "refresh_application w_vacancy ?rec3 ?u ?b = (Inr ?rec3, [?u])"
    using refresh_application_no_pdf [OF fa, of ?rec3] pdf ss by simp
  have ept: "dict_get ?rec3 ''employment_page_type'' = JStr ''page''"
    by (simp add: dict_get_def map_of_update_record map_of_dict_set)
  have old: "py_or (dict_get ?rec2 ''Employment Page URL'') (JStr '''') = JStr ''http://t.gov/old''"
    by code_simp
  have acc: "accept_choice w_vacancy ?rec2 (JStr ''Tolland'') ''other'' ?b
               (90, ?u, ''homepage_link'', ''ok'') =
          (Inr (?rec3,
             [(''Town'', JStr ''Tolland''),
              (''action'', JStr ''updated''),
              (''platform'', JStr ''other''),
              (''old_employment_url'', JStr ''http://t.gov/old''),
              (''new_employment_url'', JStr ?u),
              (''confidence'', JInt 70),
              (''source'', JStr ''homepage_link''),
              (''employment_page_type'', JStr ''page'')]), [?u])"
    using accept_choice_eval [OF conf ty ra ept, of "JStr ''Tolland''"] old by simp
  have "attempt w_vacancy ?rec2 (JStr ''Tolland'') ''other'' ?b =
          (Inr (?rec3,
             [(''Town'', JStr ''Tolland''),
              (''action'', JStr ''updated''),
              (''platform'', JStr ''other''),
              (''old_employment_url'', JStr ''http://t.gov/old''),
              (''new_employment_url'', JStr ?u),
              (''confidence'', JInt 70),
              (''source'', JStr ''homepage_link''),
              (''employment_page_type'', JStr ''page'')]), [?b] @ [?u] @ [?u])"
    by (rule attempt_eval [OF vacancy_gather sc loop _ acc]) simp
  then show ?thesis
    unfolding rediscover_attempts [OF n s p a] b t by simp
qed

section \<open>What a run writes\<close>

text \<open>
  C3, as the code has it.  A run that returns a row has one of the four actions.  Unless
  the action is \<^verbatim>\<open>updated\<close>, the employment link, the application link, their final
  copies, the confidences and the content type of the record are as before.  When the
  action is \<^verbatim>\<open>updated\<close>, either a candidate was accepted, and then the employment
  link, the confidence and the content type are all three written, with the values the
  row reports; or it is the ephemeral fallback, which writes the content type
  \<^verbatim>\<open>ephemeral_posts\<close> and nothing else: not the link, not the confidence.
\<close>

theorem link_fields_frame:
  assumes "rediscover_for_town w rec = (Inr (rec', row), l)"
  shows "(map_of row ''action'' = Some (JStr ''skipped'') \<or> map_of row ''action'' = Some (JStr ''no_change'')
          \<or> map_of row ''action'' = Some (JStr ''needs_review'')
          \<or> map_of row ''action'' = Some (JStr ''updated''))
    \<and> (map_of row ''action'' \<noteq> Some (JStr ''updated'') \<longrightarrow>
          (\<forall>k \<in> set link_fields. map_of rec' k = map_of rec k))
    \<and> (map_of row ''action'' = Some (JStr ''updated'') \<longrightarrow>
          (map_of row ''reason'' = Some (JStr ''no_stable_employment_page_detected_ephemeral_posts'')
             \<and> map_of rec' ''employment_page_type'' = Some (JStr ''ephemeral_posts'')
             \<and> (\<forall>k \<in> set link_fields. k \<noteq> ''employment_page_type'' \<longrightarrow> map_of rec' k = map_of rec k))
          \<or> (\<exists>new_emp conf ptype.
                map_of row ''new_employment_url'' = Some (JStr new_emp)
                \<and> map_of rec' ''Employment Page URL'' = Some (JStr new_emp)
                \<and> map_of rec' ''employment_url_final'' = Some (JStr new_emp)
                \<and> map_of row ''confidence'' = Some (JInt conf)
                \<and> map_of rec' ''employment_url_confidence'' = Some (JInt conf)
                \<and> map_of row ''employment_page_type'' = Some (JStr ptype)
                \<and> map_of rec' ''employment_page_type'' = Some (JStr ptype)))"
proof -
  from rediscover_cases [OF assms] obtain rec1 where
    n: "normalize_town_website rec = Inr rec1"
    and c: "(\<not> is_url (dict_get rec1 ''Town Website'') \<and> rec' = rec1 \<and> l = []
          \<and> row = [(''Town'', py_or (dict_get rec ''Town'') (JStr ''(unknown)'')),
                    (''action'', JStr ''skipped''),
                    (''reason'', JStr ''missing_town_homepage'')])
        \<or> (is_url (dict_get rec1 ''Town Website'')
            \<and> (\<exists>platform. detect_platform rec1 = Inr platform
                 \<and> ((\<not> should_attempt rec
                      \<and> rec' = dict_set rec1 ''platform_detected'' (JStr platform) \<and> l = []
                      \<and> (\<exists>reason. row = [(''Town'', py_or (dict_get rec ''Town'') (JStr ''(unknown)'')),
                                (''action'', JStr ''no_change''),
                                (''reason'', JStr reason),
                                (''platform'', JStr platform)]))
                     \<or> (should_attempt rec
                         \<and> attempt w (dict_set rec1 ''platform_detected'' (JStr platform))
                              (py_or (dict_get rec ''Town'') (JStr ''(unknown)'')) platform
                              (py_str (dict_get rec1 ''Town Website'')) = (Inr (rec', row), l)))))"
    by blast
  have fr: "\<forall>k \<in> set link_fields. map_of rec1 k = map_of rec k"
    using normalize_frame [OF n] by (simp add: link_fields_def)
  from c show ?thesis
  proof (elim disjE conjE exE)
    assume "rec' = rec1"
      and "row = [(''Town'', py_or (dict_get rec ''Town'') (JStr ''(unknown)'')),
                    (''action'', JStr ''skipped''),
                    (''reason'', JStr ''missing_town_homepage'')]"
    then show ?thesis using fr by simp
  next
    fix platform reason
    assume "rec' = dict_set rec1 ''platform_detected'' (JStr platform)"
      and "row = [(''Town'', py_or (dict_get rec ''Town'') (JStr ''(unknown)'')),
                                (''action'', JStr ''no_change''),
                                (''reason'', JStr reason),
                                (''platform'', JStr platform)]"
    then show ?thesis using fr by (simp add: link_fields_def map_of_dict_set)
  next
    fix platform
    let ?rec2 = "dict_set rec1 ''platform_detected'' (JStr platform)"
    assume a: "attempt w ?rec2
                 (py_or (dict_get rec ''Town'') (JStr ''(unknown)'')) platform
                 (py_str (dict_get rec1 ''Town Website'')) = (Inr (rec', row), l)"
    have fr2: "\<forall>k \<in> set link_fields. map_of ?rec2 k = map_of rec k"
      using fr by (simp add: link_fields_def map_of_dict_set)
    from attempt_cases [OF a] show ?thesis
    proof (elim disjE conjE exE)
      assume "rec' = dict_set ?rec2 ''employment_page_type'' (JStr ''ephemeral_posts'')"
        and "row = [(''Town'', py_or (dict_get rec ''Town'') (JStr ''(unknown)'')),
                    (''action'', JStr ''updated''),
                    (''platform'', JStr platform),
                    (''reason'', JStr ''no_stable_employment_page_detected_ephemeral_posts''),
                    (''new_employment_url'', JStr (py_str (dict_get rec1 ''Town Website''))),
                    (''confidence'', JInt 60),
                    (''employment_page_type'', JStr ''ephemeral_posts'')]"
      then show ?thesis using fr2 by (simp add: link_fields_def map_of_dict_set)
    next
      fix lb
      assume "rec' = dict_set ?rec2 ''employment_url_last_blocked_reason'' (JStr lb)"
        and "row = [(''Town'', py_or (dict_get rec ''Town'') (JStr ''(unknown)'')),
                       (''action'', JStr ''needs_review''),
                       (''reason'', JStr ''no_candidate_validated''),
                       (''platform'', JStr platform),
                       (''blocked_reason'', JStr lb)]"
      then show ?thesis using fr2 by (simp add: link_fields_def map_of_dict_set)
    next
      assume "rec' = ?rec2"
        and "row = [(''Town'', py_or (dict_get rec ''Town'') (JStr ''(unknown)'')),
                     (''action'', JStr ''needs_review''),
                     (''reason'', JStr ''no_candidate_validated''),
                     (''platform'', JStr platform)]"
      then show ?thesis using fr2 by simp
    next
      fix chosen l2
      assume ac: "accept_choice w ?rec2 (py_or (dict_get rec ''Town'') (JStr ''(unknown)'')) platform
                    (py_str (dict_get rec1 ''Town Website'')) chosen = (Inr (rec', row), l2)"
      obtain s new_emp src why where ch: "chosen = (s, new_emp, src, why)"
        by (cases chosen) auto
      from accept_choice_Inr [OF ac [unfolded ch]] obtain conf ptype where
        r: "refresh_application w
           (update_record w (dict_set ?rec2 ''employment_page_type'' (JStr ptype)) new_emp platform
              (''rediscovered_from_'' @ src) conf src s why) new_emp
              (py_str (dict_get rec1 ''Town Website'')) = (Inr rec', l2)"
        and row: "row = [(''Town'', py_or (dict_get rec ''Town'') (JStr ''(unknown)'')),
               (''action'', JStr ''updated''),
               (''platform'', JStr platform),
               (''old_employment_url'', py_or (dict_get ?rec2 ''Employment Page URL'') (JStr '''')),
               (''new_employment_url'', JStr new_emp),
               (''confidence'', JInt conf),
               (''source'', JStr src),
               (''employment_page_type'', JStr ptype)]"
        by blast
      have "map_of rec' ''Employment Page URL'' = Some (JStr new_emp)"
        "map_of rec' ''employment_url_final'' = Some (JStr new_emp)"
        "map_of rec' ''employment_url_confidence'' = Some (JInt conf)"
        "map_of rec' ''employment_page_type'' = Some (JStr ptype)"
        using refresh_application_frame [OF r]
        by (simp_all add: application_keys_def map_of_update_record map_of_dict_set)
      then show ?thesis
        unfolding row by simp
    qed
  qed
qed

theorem link_fields_frame_witness:
  "rediscover_for_town w_vacancy rec_vacancy =
     (Inr (update_record w_vacancy
             (dict_set (dict_set rec_vacancy ''platform_detected'' (JStr ''other''))
                ''employment_page_type'' (JStr ''page''))
             ''http://t.gov/vacancies'' ''other'' ''rediscovered_from_homepage_link'' 70
             ''homepage_link'' 90 ''ok'',
           [(''Town'', JStr ''Tolland''),
            (''action'', JStr ''updated''),
            (''platform'', JStr ''other''),
            (''old_employment_url'', JStr ''http://t.gov/old''),
            (''new_employment_url'', JStr ''http://t.gov/vacancies''),
            (''confidence'', JInt 70),
            (''source'', JStr ''homepage_link''),
            (''employment_page_type'', JStr ''page'')]),
      [''http://t.gov/'', ''http://t.gov/vacancies'', ''http://t.gov/vacancies''])
   \<and> (\<exists>new_emp conf ptype.
         map_of (update_record w_vacancy
             (dict_set (dict_set rec_vacancy ''platform_detected'' (JStr ''other''))
                ''employment_page_type'' (JStr ''page''))
             ''http://t.gov/vacancies'' ''other'' ''rediscovered_from_homepage_link'' 70
             ''homepage_link'' 90 ''ok'') ''Employment Page URL'' = Some (JStr new_emp)
         \<and> map_of (update_record w_vacancy
             (dict_set (dict_set rec_vacancy ''platform_detected'' (JStr ''other''))
                ''employment_page_type'' (JStr ''page''))
             ''http://t.gov/vacancies'' ''other'' ''rediscovered_from_homepage_link'' 70
             ''homepage_link'' 90 ''ok'') ''employment_url_confidence'' = Some (JInt conf)
         \<and> map_of (update_record w_vacancy
             (dict_set (dict_set rec_vacancy ''platform_detected'' (JStr ''other''))
                ''employment_page_type'' (JStr ''page''))
             ''http://t.gov/vacancies'' ''other'' ''rediscovered_from_homepage_link'' 70
             ''homepage_link'' 90 ''ok'') ''employment_page_type'' = Some (JStr ptype))"
proof -
  from link_fields_frame [OF vacancy_run]
  have "\<exists>new_emp conf ptype.
         map_of (update_record w_vacancy
             (dict_set (dict_set rec_vacancy ''platform_detected'' (JStr ''other''))
                ''employment_page_type'' (JStr ''page''))
             ''http://t.gov/vacancies'' ''other'' ''rediscovered_from_homepage_link'' 70
             ''homepage_link'' 90 ''ok'') ''Employment Page URL'' = Some (JStr new_emp)
         \<and> map_of (update_record w_vacancy
             (dict_set (dict_set rec_vacancy ''platform_detected'' (JStr ''other''))
                ''employment_page_type'' (JStr ''page''))
             ''http://t.gov/vacancies'' ''other'' ''rediscovered_from_homepage_link'' 70
             ''homepage_link'' 90 ''ok'') ''employment_url_confidence'' = Some (JInt conf)
         \<and> map_of (update_record w_vacancy
             (dict_set (dict_set rec_vacancy ''platform_detected'' (JStr ''other''))
                ''employment_page_type'' (JStr ''page''))
             ''http://t.gov/vacancies'' ''other'' ''rediscovered_from_homepage_link'' 70
             ''homepage_link'' 90 ''ok'') ''employment_page_type'' = Some (JStr ptype)"
    by auto
  with vacancy_run show ?thesis by blast
qed

text \<open>
  The claim as stated fails in its last part: in the ephemeral fallback the content type
  is written into the record while the record's employment link stays the old one, not
  the new URL of the row, and no confidence is written.
\<close>

theorem content_type_set_without_link:
  "\<exists>rec' row l. rediscover_for_town w_down rec_lift = (Inr (rec', row), l)
     \<and> map_of row ''action'' = Some (JStr ''updated'')
     \<and> map_of row ''new_employment_url'' = Some (JStr ''https://www.essexct.gov/'')
     \<and> map_of rec_lift ''employment_page_type'' = None
     \<and> map_of rec' ''employment_page_type'' = Some (JStr ''ephemeral_posts'')
     \<and> map_of rec' ''Employment Page URL'' = Some (JStr ''https://www.essexct.gov/old-jobs'')
     \<and> map_of rec_lift ''Employment Page URL'' = Some (JStr ''https://www.essexct.gov/old-jobs'')
     \<and> map_of rec' ''employment_url_confidence'' = None"
proof -
  from lift_run obtain l where
    "rediscover_for_town w_down rec_lift =
     (Inr (dict_set (dict_set rec_lift_home ''platform_detected'' (JStr ''civiclift''))
             ''employment_page_type'' (JStr ''ephemeral_posts''),
           [(''Town'', JStr ''Essex''),
            (''action'', JStr ''updated''),
            (''platform'', JStr ''civiclift''),
            (''reason'', JStr ''no_stable_employment_page_detected_ephemeral_posts''),
            (''new_employment_url'', JStr ''https://www.essexct.gov/''),
            (''confidence'', JInt 60),
            (''employment_page_type'', JStr ''ephemeral_posts'')]), l)"
    by blast
  then show ?thesis
    by (simp add: map_of_dict_set rec_lift_home_def rec_lift_def)
qed

section \<open>Confidence and content type\<close>

lemma confidence_formula:
  assumes "confidence new_emp = Inr conf"
  shows "\<exists>p. path_of new_emp = Inr p
           \<and> conf =
               (let c = 70 + (if any_in [''employment'', ''jobs'', ''careers'', ''human-resources'']
                                   (lower new_emp) then 15 else 0)
                           + (if civicplus_pageid_match p then 10 else 0);
                    c = (if is_ats new_emp then max c 85 else c);
                    c = (if is_pdf new_emp then min c 75 else c)
                in min c 95)
           \<and> 0 \<le> conf \<and> conf \<le> 95"
  using assms by (auto simp: confidence_def Let_def split: sum.splits)

text \<open>The rows of a run: without confidence, the ephemeral fallback, or an accepted candidate.\<close>

lemma run_row_shapes:
  assumes "rediscover_for_town w rec = (Inr (rec', row), l)"
  shows "(map_of row ''confidence'' = None \<and> map_of row ''employment_page_type'' = None
            \<and> map_of row ''source'' = None \<and> map_of row ''action'' \<noteq> Some (JStr ''updated''))
       \<or> (map_of row ''confidence'' = Some (JInt 60)
            \<and> map_of row ''employment_page_type'' = Some (JStr ''ephemeral_posts'')
            \<and> map_of row ''source'' = None \<and> map_of row ''action'' = Some (JStr ''updated''))
       \<or> (\<exists>new_emp conf src ptype.
             confidence new_emp = Inr conf
             \<and> map_of row ''new_employment_url'' = Some (JStr new_emp)
             \<and> map_of row ''confidence'' = Some (JInt conf)
             \<and> map_of row ''source'' = Some (JStr src)
             \<and> map_of row ''employment_page_type'' = Some (JStr ptype)
             \<and> map_of row ''action'' = Some (JStr ''updated'')
             \<and> map_of rec' ''employment_url_confidence'' = Some (JInt conf))"
proof -
  from rediscover_cases [OF assms] obtain rec1 where
    c: "(\<not> is_url (dict_get rec1 ''Town Website'') \<and> rec' = rec1 \<and> l = []
          \<and> row = [(''Town'', py_or (dict_get rec ''Town'') (JStr ''(unknown)'')),
                    (''action'', JStr ''skipped''),
                    (''reason'', JStr ''missing_town_homepage'')])
        \<or> (is_url (dict_get rec1 ''Town Website'')
            \<and> (\<exists>platform. detect_platform rec1 = Inr platform
                 \<and> ((\<not> should_attempt rec
                      \<and> rec' = dict_set rec1 ''platform_detected'' (JStr platform) \<and> l = []
                      \<and> (\<exists>reason. row = [(''Town'', py_or (dict_get rec ''Town'') (JStr ''(unknown)'')),
                                (''action'', JStr ''no_change''),
                                (''reason'', JStr reason),
                                (''platform'', JStr platform)]))
                     \<or> (should_attempt rec
                         \<and> attempt w (dict_set rec1 ''platform_detected'' (JStr platform))
                              (py_or (dict_get rec ''Town'') (JStr ''(unknown)'')) platform
                              (py_str (dict_get rec1 ''Town Website'')) = (Inr (rec', row), l)))))"
    by blast
  from c show ?thesis
  proof (elim disjE conjE exE)
    assume "row = [(''Town'', py_or (dict_get rec ''Town'') (JStr ''(unknown)'')),
                    (''action'', JStr ''skipped''),
                    (''reason'', JStr ''missing_town_homepage'')]"
    then show ?thesis by simp
  next
    fix platform reason
    assume "row = [(''Town'', py_or (dict_get rec ''Town'') (JStr ''(unknown)'')),
                                (''action'', JStr ''no_change''),
                                (''reason'', JStr reason),
                                (''platform'', JStr platform)]"
    then show ?thesis by simp
  next
    fix platform
    let ?rec2 = "dict_set rec1 ''platform_detected'' (JStr platform)"
    assume a: "attempt w ?rec2
                 (py_or (dict_get rec ''Town'') (JStr ''(unknown)'')) platform
                 (py_str (dict_get rec1 ''Town Website'')) = (Inr (rec', row), l)"
    from attempt_cases [OF a] show ?thesis
    proof (elim disjE conjE exE)
      assume "row = [(''Town'', py_or (dict_get rec ''Town'') (JStr ''(unknown)'')),
                    (''action'', JStr ''updated''),
                    (''platform'', JStr platform),
                    (''reason'', JStr ''no_stable_employment_page_detected_ephemeral_posts''),
                    (''new_employment_url'', JStr (py_str (dict_get rec1 ''Town Website''))),
                    (''confidence'', JInt 60),
                    (''employment_page_type'', JStr ''ephemeral_posts'')]"
      then show ?thesis by simp
    next
      fix lb
      assume "row = [(''Town'', py_or (dict_get rec ''Town'') (JStr ''(unknown)'')),
                       (''action'', JStr ''needs_review''),
                       (''reason'', JStr ''no_candidate_validated''),
                       (''platform'', JStr platform),
                       (''blocked_reason'', JStr lb)]"
      then show ?thesis by simp
    next
      assume "row = [(''Town'', py_or (dict_get rec ''Town'') (JStr ''(unknown)'')),
                     (''action'', JStr ''needs_review''),
                     (''reason'', JStr ''no_candidate_validated''),
                     (''platform'', JStr platform)]"
      then show ?thesis by simp
    next
      fix chosen l2
      assume ac: "accept_choice w ?rec2 (py_or (dict_get rec ''Town'') (JStr ''(unknown)'')) platform
                    (py_str (dict_get rec1 ''Town Website'')) chosen = (Inr (rec', row), l2)"
      obtain s new_emp src why where ch: "chosen = (s, new_emp, src, why)"
        by (cases chosen) auto
      from accept_choice_Inr [OF ac [unfolded ch]] obtain conf ptype where
        cf: "confidence new_emp = Inr conf"
        and r: "refresh_application w
           (update_record w (dict_set ?rec2 ''employment_page_type'' (JStr ptype)) new_emp platform
              (''rediscovered_from_'' @ src) conf src s why) new_emp
              (py_str (dict_get rec1 ''Town Website'')) = (Inr rec', l2)"
        and row: "row = [(''Town'', py_or (dict_get rec ''Town'') (JStr ''(unknown)'')),
               (''action'', JStr ''updated''),
               (''platform'', JStr platform),
               (''old_employment_url'', py_or (dict_get ?rec2 ''Employment Page URL'') (JStr '''')),
               (''new_employment_url'', JStr new_emp),
               (''confidence'', JInt conf),
               (''source'', JStr src),
               (''employment_page_type'', JStr ptype)]"
        by blast
      have "map_of rec' ''employment_url_confidence'' = Some (JInt conf)"
        using refresh_application_frame [OF r]
        by (simp add: application_keys_def map_of_update_record)
      then show ?thesis
        unfolding row using cf by simp
    qed
  qed
qed

text \<open>
  C5, as the code has it.  For a record updated through an accepted candidate (the row has
  a source), the confidence written into the record and reported in the row is: 70, plus
  15 if the new URL contains one of \<^verbatim>\<open>employment\<close>, \<^verbatim>\<open>jobs\<close>, \<^verbatim>\<open>careers\<close>,
  \<^verbatim>\<open>human-resources\<close>, plus 10 if its path matches the numeric-ID pattern, raised to
  at least 85 for a vendor URL, capped at 75 for a PDF, capped at 95.  Every confidence
  a row reports lies in 0..95, and a row has a content type exactly when its action is
  \<^verbatim>\<open>updated\<close>.
\<close>

theorem confidence_and_content_type:
  assumes "rediscover_for_town w rec = (Inr (rec', row), l)"
  shows "(\<forall>src new_emp.
            map_of row ''source'' = Some (JStr src) \<longrightarrow>
            map_of row ''new_employment_url'' = Some (JStr new_emp) \<longrightarrow>
            (\<exists>p. path_of new_emp = Inr p
               \<and> map_of rec' ''employment_url_confidence'' =
                   Some (JInt
                     (let c = 70 + (if any_in [''employment'', ''jobs'', ''careers'', ''human-resources'']
                                         (lower new_emp) then 15 else 0)
                                 + (if civicplus_pageid_match p then 10 else 0);
                          c = (if is_ats new_emp then max c 85 else c);
                          c = (if is_pdf new_emp then min c 75 else c)
                      in min c 95))
               \<and> map_of row ''confidence'' = map_of rec' ''employment_url_confidence''))
    \<and> (\<forall>c. map_of row ''confidence'' = Some c \<longrightarrow> (\<exists>n. c = JInt n \<and> 0 \<le> n \<and> n \<le> 95))
    \<and> ((map_of row ''employment_page_type'' \<noteq> None) = (map_of row ''action'' = Some (JStr ''updated'')))"
  using run_row_shapes [OF assms]
proof (elim disjE conjE exE)
  fix new_emp conf src ptype
  assume "confidence new_emp = Inr conf"
    and "map_of row ''new_employment_url'' = Some (JStr new_emp)"
    and "map_of row ''confidence'' = Some (JInt conf)"
    and "map_of row ''source'' = Some (JStr src)"
    and "map_of row ''employment_page_type'' = Some (JStr ptype)"
    and "map_of row ''action'' = Some (JStr ''updated'')"
    and "map_of rec' ''employment_url_confidence'' = Some (JInt conf)"
  then show ?thesis
    using confidence_formula [of new_emp conf] by auto
qed auto

theorem confidence_and_content_type_witness:
  "rediscover_for_town w_vacancy rec_vacancy =
     (Inr (update_record w_vacancy
             (dict_set (dict_set rec_vacancy ''platform_detected'' (JStr ''other''))
                ''employment_page_type'' (JStr ''page''))
             ''http://t.gov/vacancies'' ''other'' ''rediscovered_from_homepage_link'' 70
             ''homepage_link'' 90 ''ok'',
           [(''Town'', JStr ''Tolland''),
            (''action'', JStr ''updated''),
            (''platform'', JStr ''other''),
            (''old_employment_url'', JStr ''http://t.gov/old''),
            (''new_employment_url'', JStr ''http://t.gov/vacancies''),
            (''confidence'', JInt 70),
            (''source'', JStr ''homepage_link''),
            (''employment_page_type'', JStr ''page'')]),
      [''http://t.gov/'', ''http://t.gov/vacancies'', ''http://t.gov/vacancies''])
   \<and> (\<exists>p. path_of ''http://t.gov/vacancies'' = Inr p
         \<and> Some (JInt 70) =
             Some (JInt
               (let c = 70 + (if any_in [''employment'', ''jobs'', ''careers'', ''human-resources'']
                                   (lower ''http://t.gov/vacancies'') then 15 else 0)
                           + (if civicplus_pageid_match p then 10 else 0);
                    c = (if is_ats ''http://t.gov/vacancies'' then max c 85 else c);
                    c = (if is_pdf ''http://t.gov/vacancies'' then min c 75 else c)
                in min c 95)))"
proof -
  have "map_of (update_record w_vacancy
             (dict_set (dict_set rec_vacancy ''platform_detected'' (JStr ''other''))
                ''employment_page_type'' (JStr ''page''))
             ''http://t.gov/vacancies'' ''other'' ''rediscovered_from_homepage_link'' 70
             ''homepage_link'' 90 ''ok'') ''employment_url_confidence'' = Some (JInt 70)"
    by (simp add: map_of_update_record)
  with confidence_and_content_type [OF vacancy_run]
  have "\<exists>p. path_of ''http://t.gov/vacancies'' = Inr p
         \<and> Some (JInt 70) =
             Some (JInt
               (let c = 70 + (if any_in [''employment'', ''jobs'', ''careers'', ''human-resources'']
                                   (lower ''http://t.gov/vacancies'') then 15 else 0)
                           + (if civicplus_pageid_match p then 10 else 0);
                    c = (if is_ats ''http://t.gov/vacancies'' then max c 85 else c);
                    c = (if is_pdf ''http://t.gov/vacancies'' then min c 75 else c)
                in min c 95))"
    by (simp del: Let_def)
  with vacancy_run show ?thesis by blast
qed

text \<open>
  The claim as stated fails in its formula: \<^verbatim>\<open>vacancies\<close> is an employment keyword, yet
  a new URL that contains it and none of the four tokens gets no 15 points.
\<close>

theorem confidence_ignores_employment_keyword:
  "\<exists>rec' row l. rediscover_for_town w_vacancy rec_vacancy = (Inr (rec', row), l)
     \<and> map_of row ''action'' = Some (JStr ''updated'')
     \<and> map_of row ''source'' = Some (JStr ''homepage_link'')
     \<and> map_of row ''new_employment_url'' = Some (JStr ''http://t.gov/vacancies'')
     \<and> path_of ''http://t.gov/vacancies'' = Inr ''/vacancies''
     \<and> kw_hit ''http://t.gov/vacancies''
     \<and> map_of rec' ''employment_url_confidence'' = Some (JInt 70)
     \<and> spec_confidence ''http://t.gov/vacancies'' ''/vacancies'' = 85"
proof -
  have a: "path_of ''http://t.gov/vacancies'' = Inr ''/vacancies''" by code_simp
  have b: "kw_hit ''http://t.gov/vacancies''" by code_simp
  have c: "spec_confidence ''http://t.gov/vacancies'' ''/vacancies'' = 85" by code_simp
  have "map_of (update_record w_vacancy
             (dict_set (dict_set rec_vacancy ''platform_detected'' (JStr ''other''))
                ''employment_page_type'' (JStr ''page''))
             ''http://t.gov/vacancies'' ''other'' ''rediscovered_from_homepage_link'' 70
             ''homepage_link'' 90 ''ok'') ''employment_url_confidence'' = Some (JInt 70)"
    by (simp add: map_of_update_record)
  with a b c show ?thesis
    unfolding vacancy_run by simp
qed

section \<open>The homepage of a URL\<close>

lemma of_char_lower_char:
  "(of_char (lower_char c) :: nat) =
     (if (65 \<le> (of_char c :: nat) \<and> (of_char c :: nat) \<le> 90)
         \<or> (192 \<le> (of_char c :: nat) \<and> (of_char c :: nat) \<le> 222 \<and> (of_char c :: nat) \<noteq> 215)
      then of_char c + 32 else of_char c)"
  by (simp add: lower_char_def Let_def)

lemma of_char_nat_inj: "(of_char c :: nat) = of_char d \<Longrightarrow> c = d"
  by simp

lemma is_alpha_lower_char: "is_alpha (lower_char c) = is_alpha c"
  by (auto simp: is_alpha_def of_char_lower_char Let_def)

lemma lower_char_below_letters:
  assumes "lower_char c = d" and "(of_char d :: nat) < 65"
  shows "c = d"
proof -
  have "(of_char (lower_char c) :: nat) < 65"
    using assms by simp
  then have "(of_char (lower_char c) :: nat) = of_char c"
    unfolding of_char_lower_char by (simp split: if_splits)
  then have "lower_char c = c"
    by (rule of_char_nat_inj)
  then show ?thesis
    using assms(1) by simp
qed

lemma lower_char_scheme_char:
  assumes "scheme_char c" and "\<not> is_alpha c"
  shows "lower_char c = c"
proof -
  have "(of_char c :: nat) < 65"
    using assms by (auto simp: scheme_char_def is_digit_def Let_def)
  then have "(of_char (lower_char c) :: nat) = of_char c"
    unfolding of_char_lower_char by simp
  then show ?thesis
    by (rule of_char_nat_inj)
qed

lemma lower_char_idem: "lower_char (lower_char c) = lower_char c"
proof -
  have "(of_char (lower_char (lower_char c)) :: nat) = of_char (lower_char c)"
    unfolding of_char_lower_char [of "lower_char c"]
    unfolding of_char_lower_char [of c] by simp
  then show ?thesis
    by (rule of_char_nat_inj)
qed

lemma lower_idem: "lower (lower s) = lower s"
  by (simp add: lower_def lower_char_idem)

lemma scheme_char_lower_char: "scheme_char c \<Longrightarrow> scheme_char (lower_char c)"
proof (cases "is_alpha c")
  case True
  then show ?thesis by (simp add: scheme_char_def is_alpha_lower_char)
next
  case False
  assume "scheme_char c"
  then show ?thesis using False by (simp add: lower_char_scheme_char)
qed

lemma is_alpha_facts:
  "is_alpha c \<Longrightarrow> \<not> is_space c \<and> \<not> c0_or_space c \<and> \<not> unsafe_byte c \<and> c \<noteq> CHR '':'' \<and> scheme_char c"
  by (auto simp: is_alpha_def is_space_def c0_or_space_def unsafe_byte_def scheme_char_def Let_def)

lemma scheme_char_facts:
  "scheme_char c \<Longrightarrow> \<not> unsafe_byte c \<and> c \<noteq> CHR '':''"
  by (auto simp: scheme_char_def is_alpha_def is_digit_def unsafe_byte_def Let_def)

lemma takeWhile_append_stop:
  "\<forall>x \<in> set xs. P x \<Longrightarrow> \<not> P y \<Longrightarrow> takeWhile P (xs @ y # ys) = xs"
  by (induction xs) auto

lemma dropWhile_append_stop:
  "\<forall>x \<in> set xs. P x \<Longrightarrow> \<not> P y \<Longrightarrow> dropWhile P (xs @ y # ys) = y # ys"
  by (induction xs) auto

lemma strip_keeps:
  assumes "s \<noteq> []" and "\<not> is_space (hd s)" and "\<not> is_space (last s)"
  shows "strip s = s"
proof -
  have "dropWhile is_space s = s"
    using assms(1,2) by (cases s) auto
  moreover have "dropWhile is_space (rev s) = rev s"
    using assms(1,3) by (cases "rev s") (auto simp: last_rev [symmetric] hd_rev)
  ultimately show ?thesis
    by (simp add: strip_def)
qed

lemma split_at_first:
  "c \<in> set xs \<Longrightarrow>
   xs = takeWhile (\<lambda>x. x \<noteq> c) xs @ c # drop (Suc (length (takeWhile (\<lambda>x. x \<noteq> c) xs))) xs"
  by (induction xs) auto

text \<open>What \<open>urlsplit\<close> tells about a scheme and a network location it has found.\<close>

lemma split_scheme_facts:
  assumes "split_scheme url = (sch, rest)" and "sch \<noteq> []"
  shows "is_alpha (hd sch) \<and> list_all scheme_char sch \<and> lower sch = sch
         \<and> (\<exists>pre. url = pre @ CHR '':'' # rest)
         \<and> set rest \<subseteq> set url"
proof -
  let ?pre = "takeWhile (\<lambda>x. x \<noteq> CHR '':'') url"
  have c: "CHR '':'' \<in> set url \<and> ?pre \<noteq> [] \<and> is_alpha (hd ?pre) \<and> list_all scheme_char ?pre"
    and s: "sch = lower ?pre" and r: "rest = drop (Suc (length ?pre)) url"
    using assms by (auto simp: split_scheme_def Let_def split: if_splits)
  have "hd (lower ?pre) = lower_char (hd ?pre)"
    using c by (simp add: lower_def hd_map)
  then have "is_alpha (hd sch)"
    using c s by (simp add: is_alpha_lower_char)
  moreover have "list_all scheme_char sch"
    using c s by (auto simp: lower_def list_all_iff scheme_char_lower_char)
  moreover have "lower sch = sch"
    using s by (simp add: lower_idem)
  moreover have "url = ?pre @ CHR '':'' # rest"
    using c r split_at_first [of "CHR '':''" url] by simp
  moreover have "set rest \<subseteq> set url"
    using r by (simp add: set_drop_subset)
  ultimately show ?thesis by blast
qed

lemma urlsplit_Inr:
  assumes "urlsplit x = Inr r"
  obtains sch url2 where
    "split_scheme (filter (\<lambda>c. \<not> unsafe_byte c) (dropWhile c0_or_space x)) = (sch, url2)"
    and "scheme r = sch"
    and "netloc r = (if startswith url2 ''//''
                     then takeWhile (\<lambda>c. \<not> netloc_delim c) (drop 2 url2) else '''')"
    and "\<not> ((CHR ''['' \<in> set (netloc r) \<and> CHR '']'' \<notin> set (netloc r))
            \<or> (CHR '']'' \<in> set (netloc r) \<and> CHR ''['' \<notin> set (netloc r)))"
    and "\<not> (CHR ''['' \<in> set (netloc r) \<and> CHR '']'' \<in> set (netloc r)
            \<and> \<not> check_bracketed_host (bracketed_host (netloc r)))"
proof -
  let ?url1 = "filter (\<lambda>c. \<not> unsafe_byte c) (dropWhile c0_or_space x)"
  obtain sch url2 where ss: "split_scheme ?url1 = (sch, url2)"
    by (cases "split_scheme ?url1") auto
  define nl where "nl = (if startswith url2 ''//''
                         then takeWhile (\<lambda>c. \<not> netloc_delim c) (drop 2 url2) else '''')"
  define bad where "bad \<longleftrightarrow> (CHR ''['' \<in> set nl \<and> CHR '']'' \<notin> set nl)
                \<or> (CHR '']'' \<in> set nl \<and> CHR ''['' \<notin> set nl)"
  define bad2 where "bad2 \<longleftrightarrow> CHR ''['' \<in> set nl \<and> CHR '']'' \<in> set nl
                \<and> \<not> check_bracketed_host (bracketed_host nl)"
  have "\<exists>p q fr. urlsplit x =
          (if bad then Inl ValueError else if bad2 then Inl ValueError
           else Inr \<lparr>scheme = sch, netloc = nl, path = p, params = '''', query = q, fragment = fr\<rparr>)"
    unfolding urlsplit_def Let_def ss bad_def bad2_def nl_def
    by (simp add: case_prod_unfold)
  then obtain p q fr where
    "(if bad then Inl ValueError else if bad2 then Inl ValueError
      else Inr \<lparr>scheme = sch, netloc = nl, path = p, params = '''', query = q, fragment = fr\<rparr>) = Inr r"
    using assms by auto
  then have ok: "\<not> bad" and ok2: "\<not> bad2" and sr: "scheme r = sch" and nr: "netloc r = nl"
    by (auto split: if_splits)
  have nr': "netloc r = (if startswith url2 ''//''
                     then takeWhile (\<lambda>c. \<not> netloc_delim c) (drop 2 url2) else '''')"
    using nr unfolding nl_def .
  have ok': "\<not> ((CHR ''['' \<in> set (netloc r) \<and> CHR '']'' \<notin> set (netloc r))
            \<or> (CHR '']'' \<in> set (netloc r) \<and> CHR ''['' \<notin> set (netloc r)))"
    using ok unfolding bad_def nr [symmetric] .
  have ok2': "\<not> (CHR ''['' \<in> set (netloc r) \<and> CHR '']'' \<in> set (netloc r)
            \<and> \<not> check_bracketed_host (bracketed_host (netloc r)))"
    using ok2 unfolding bad2_def nr [symmetric] .
  show thesis
    by (rule that [OF ss sr nr' ok' ok2'])
qed

lemma urlsplit_facts:
  assumes "urlsplit x = Inr r" and "scheme r \<noteq> []" and "netloc r \<noteq> []"
  shows "is_alpha (hd (scheme r)) \<and> list_all scheme_char (scheme r) \<and> lower (scheme r) = scheme r
         \<and> (\<forall>c \<in> set (netloc r). \<not> netloc_delim c \<and> \<not> unsafe_byte c)"
proof -
  let ?url1 = "filter (\<lambda>c. \<not> unsafe_byte c) (dropWhile c0_or_space x)"
  from urlsplit_Inr [OF assms(1)] obtain sch url2 where
    ss: "split_scheme ?url1 = (sch, url2)" and sr: "scheme r = sch"
    and nr: "netloc r = (if startswith url2 ''//''
                     then takeWhile (\<lambda>c. \<not> netloc_delim c) (drop 2 url2) else '''')"
    by blast
  have sch: "sch \<noteq> []" using assms(2) sr by simp
  note f = split_scheme_facts [OF ss sch]
  have nl: "netloc r = takeWhile (\<lambda>c. \<not> netloc_delim c) (drop 2 url2)"
    using assms(3) nr by (simp split: if_splits)
  have "set (netloc r) \<subseteq> set url2"
    unfolding nl by (auto dest: set_takeWhileD in_set_dropD)
  also have "\<dots> \<subseteq> set ?url1" using f by blast
  finally have a: "\<forall>c \<in> set (netloc r). \<not> unsafe_byte c" by auto
  have b: "\<forall>c \<in> set (netloc r). \<not> netloc_delim c"
    unfolding nl by (auto dest: set_takeWhileD)
  show ?thesis
    unfolding sr using f a b by blast
qed

lemma urlparse_scheme_netloc:
  assumes "urlparse x = Inr u"
  shows "\<exists>r. urlsplit x = Inr r \<and> scheme u = scheme r \<and> netloc u = netloc r"
  using assms by (cases "urlsplit x") (auto simp: urlparse_def split: if_splits)

lemma urlsplit_rebuilt:
  assumes "sch \<noteq> []" and "is_alpha (hd sch)" and "list_all scheme_char sch" and "lower sch = sch"
    and "\<forall>c \<in> set nl. \<not> netloc_delim c \<and> \<not> unsafe_byte c"
    and "\<not> ((CHR ''['' \<in> set nl \<and> CHR '']'' \<notin> set nl) \<or> (CHR '']'' \<in> set nl \<and> CHR ''['' \<notin> set nl))"
    and "\<not> (CHR ''['' \<in> set nl \<and> CHR '']'' \<in> set nl \<and> \<not> check_bracketed_host (bracketed_host nl))"
  shows "urlsplit (sch @ ''://'' @ nl @ ''/'') =
           Inr \<lparr>scheme = sch, netloc = nl, path = ''/'', params = '''', query = '''', fragment = ''''\<rparr>"
proof -
  let ?h = "sch @ ''://'' @ nl @ ''/''"
  obtain c cs where sc: "sch = c # cs" using assms(1) by (cases sch) auto
  have alpha: "is_alpha c" using assms(2) sc by simp
  have safe_sch: "\<forall>x \<in> set sch. \<not> unsafe_byte x \<and> x \<noteq> CHR '':''"
    using assms(3) scheme_char_facts by (auto simp: list_all_iff)
  have d: "dropWhile c0_or_space ?h = ?h"
    using alpha is_alpha_facts [of c] sc by simp
  have "\<forall>x \<in> set ?h. \<not> unsafe_byte x"
    using safe_sch assms(5) by (auto simp: unsafe_byte_def)
  then have fl: "filter (\<lambda>c. \<not> unsafe_byte c) ?h = ?h"
    by (simp only: filter_id_conv)
  have tw: "takeWhile (\<lambda>x. x \<noteq> CHR '':'') ?h = sch"
    using takeWhile_append_stop [of sch "\<lambda>x. x \<noteq> CHR '':''" "CHR '':''" "''//'' @ nl @ ''/''"]
      safe_sch by simp
  have ss: "split_scheme ?h = (sch, ''//'' @ nl @ ''/'')"
    unfolding split_scheme_def tw Let_def using assms(1-4) by simp
  have t2: "takeWhile (\<lambda>c. \<not> netloc_delim c) (nl @ ''/'') = nl"
    using takeWhile_append_stop [of nl "\<lambda>c. \<not> netloc_delim c" "CHR ''/''" "[]"] assms(5)
    by (simp add: netloc_delim_def)
  have d2: "dropWhile (\<lambda>c. \<not> netloc_delim c) (nl @ ''/'') = ''/''"
    using dropWhile_append_stop [of nl "\<lambda>c. \<not> netloc_delim c" "CHR ''/''" "[]"] assms(5)
    by (simp add: netloc_delim_def)
  show ?thesis
    unfolding urlsplit_def d fl Let_def ss
    using assms(6,7) by (simp add: t2 d2 split_at_def)
qed

text \<open>The homepage of a homepage is that homepage.\<close>

lemma homepage_idem:
  assumes "homepage v = Inr (Some h)"
  shows "homepage (JStr h) = Inr (Some h) \<and> h \<noteq> []"
proof -
  obtain url where v: "v = JStr url"
    using assms by (cases v) auto
  obtain u where u: "urlparse (strip url) = Inr u"
    and s: "scheme u \<noteq> []" and n: "netloc u \<noteq> []"
    and h: "h = scheme u @ ''://'' @ netloc u @ ''/''"
    using assms unfolding v by (auto split: if_splits sum.splits)
  from urlparse_scheme_netloc [OF u] obtain r where
    r: "urlsplit (strip url) = Inr r" and sr: "scheme u = scheme r" and nr: "netloc u = netloc r"
    by blast
  note f = urlsplit_facts [OF r s [unfolded sr] n [unfolded nr]]
  from urlsplit_Inr [OF r] have
    b1: "\<not> ((CHR ''['' \<in> set (netloc r) \<and> CHR '']'' \<notin> set (netloc r))
            \<or> (CHR '']'' \<in> set (netloc r) \<and> CHR ''['' \<notin> set (netloc r)))"
    and b2: "\<not> (CHR ''['' \<in> set (netloc r) \<and> CHR '']'' \<in> set (netloc r)
            \<and> \<not> check_bracketed_host (bracketed_host (netloc r)))"
    by blast+
  have rb: "urlsplit h =
      Inr \<lparr>scheme = scheme r, netloc = netloc r, path = ''/'', params = '''', query = '''', fragment = ''''\<rparr>"
    unfolding h sr nr
  proof (rule urlsplit_rebuilt)
    show "scheme r \<noteq> []" using s sr by simp
    show "is_alpha (hd (scheme r))" using f by simp
    show "list_all scheme_char (scheme r)" using f by simp
    show "lower (scheme r) = scheme r" using f by simp
    show "\<forall>c \<in> set (netloc r). \<not> netloc_delim c \<and> \<not> unsafe_byte c" using f by simp
    show "\<not> ((CHR ''['' \<in> set (netloc r) \<and> CHR '']'' \<notin> set (netloc r))
            \<or> (CHR '']'' \<in> set (netloc r) \<and> CHR ''['' \<notin> set (netloc r)))" by (rule b1)
    show "\<not> (CHR ''['' \<in> set (netloc r) \<and> CHR '']'' \<in> set (netloc r)
            \<and> \<not> check_bracketed_host (bracketed_host (netloc r)))" by (rule b2)
  qed
  have up: "urlparse h =
      Inr \<lparr>scheme = scheme r, netloc = netloc r, path = ''/'', params = '''', query = '''', fragment = ''''\<rparr>"
    by (simp add: urlparse_def rb)
  have hd: "hd h = hd (scheme r)" using s h sr by simp
  have "\<not> is_space (hd h)"
    using f is_alpha_facts [of "hd (scheme r)"] hd by simp
  moreover have "\<not> is_space (last h)"
    unfolding h by (simp add: is_space_def)
  moreover have ne: "h \<noteq> []" using h by simp
  ultimately have st: "strip h = h"
    by (intro strip_keeps)
  have "homepage (JStr h) = Inr (Some (scheme r @ ''://'' @ netloc r @ ''/''))"
    using s n ne sr nr by (simp add: st up)
  then show ?thesis
    using ne unfolding h sr nr by simp
qed

text \<open>The homepage of an http(s) URL is an http(s) URL.\<close>

lemma map_lower_char_literal:
  assumes "startswith (lower x) lit"
  shows "\<exists>pre rest. x = pre @ rest \<and> map lower_char pre = lit"
proof -
  from assms obtain b where "map lower_char x = lit @ b"
    by (auto simp: startswith_iff lower_def)
  then show ?thesis
    by (auto simp: map_eq_append_conv)
qed

lemma http_scheme:
  assumes "map lower_char pre = sch @ ''://''" and "sch = ''http'' \<or> sch = ''https''"
  shows "split_scheme (filter (\<lambda>c. \<not> unsafe_byte c) (dropWhile c0_or_space (pre @ rest)))
           = (sch, ''//'' @ filter (\<lambda>c. \<not> unsafe_byte c) rest)"
proof -
  from assms(1) obtain p1 p2 where p: "pre = p1 @ p2"
    and p1: "map lower_char p1 = sch" and p2: "map lower_char p2 = ''://''"
    by (auto simp: map_eq_append_conv)
  have alpha_sch: "\<forall>c \<in> set sch. is_alpha c"
    using assms(2) by (auto simp: is_alpha_def)
  have al: "\<forall>c \<in> set p1. is_alpha c"
  proof
    fix c assume "c \<in> set p1"
    then have "lower_char c \<in> set sch" using p1 by auto
    then show "is_alpha c" using alpha_sch is_alpha_lower_char by auto
  qed
  have ne: "p1 \<noteq> []" using p1 assms(2) by auto
  obtain c1 c2 c3 where p2': "p2 = [c1, c2, c3]"
    and l1: "lower_char c1 = CHR '':''" and l2: "lower_char c2 = CHR ''/''"
    and l3: "lower_char c3 = CHR ''/''"
    using p2 by (auto simp: map_eq_Cons_conv)
  have cs: "c1 = CHR '':''" "c2 = CHR ''/''" "c3 = CHR ''/''"
    using lower_char_below_letters [OF l1] lower_char_below_letters [OF l2]
      lower_char_below_letters [OF l3] by simp_all
  let ?u = "p1 @ ''://'' @ rest"
  have u: "pre @ rest = ?u" using p p2' cs by simp
  have d: "dropWhile c0_or_space ?u = ?u"
    using ne al is_alpha_facts [of "hd p1"] by (cases p1) auto
  have fl: "filter (\<lambda>c. \<not> unsafe_byte c) ?u = p1 @ ''://'' @ filter (\<lambda>c. \<not> unsafe_byte c) rest"
    using al is_alpha_facts by (auto simp: unsafe_byte_def filter_id_conv)
  have tw: "takeWhile (\<lambda>x. x \<noteq> CHR '':'') (p1 @ ''://'' @ filter (\<lambda>c. \<not> unsafe_byte c) rest) = p1"
    using takeWhile_append_stop [of p1 "\<lambda>x. x \<noteq> CHR '':''" "CHR '':''"] al is_alpha_facts
    by auto
  have "list_all scheme_char p1"
    using al is_alpha_facts by (auto simp: list_all_iff)
  moreover have "is_alpha (hd p1)" using ne al by (cases p1) auto
  ultimately show ?thesis
    unfolding u d fl split_scheme_def tw Let_def using ne p1
    by (simp add: lower_def)
qed

lemma is_url_scheme:
  assumes "is_url_str url" and "urlsplit (strip url) = Inr r"
  shows "scheme r = ''http'' \<or> scheme r = ''https''"
proof -
  from urlsplit_Inr [OF assms(2)] obtain sch url2 where
    ss: "split_scheme (filter (\<lambda>c. \<not> unsafe_byte c) (dropWhile c0_or_space (strip url))) = (sch, url2)"
    and sr: "scheme r = sch"
    by blast
  have "startswith (lower (strip url)) ''http://'' \<or> startswith (lower (strip url)) ''https://''"
    using assms(1) by (simp add: is_url_str_def)
  then show ?thesis
  proof
    assume "startswith (lower (strip url)) ''http://''"
    from map_lower_char_literal [OF this] obtain pre rest where
      x: "strip url = pre @ rest" and pre: "map lower_char pre = ''http'' @ ''://''"
      by (elim exE conjE) simp
    have "split_scheme (filter (\<lambda>c. \<not> unsafe_byte c) (dropWhile c0_or_space (pre @ rest)))
           = (''http'', ''//'' @ filter (\<lambda>c. \<not> unsafe_byte c) rest)"
      by (rule http_scheme [OF pre]) simp
    then have "sch = ''http''"
      using ss unfolding x by simp
    then show ?thesis using sr by simp
  next
    assume "startswith (lower (strip url)) ''https://''"
    from map_lower_char_literal [OF this] obtain pre rest where
      x: "strip url = pre @ rest" and pre: "map lower_char pre = ''https'' @ ''://''"
      by (elim exE conjE) simp
    have "split_scheme (filter (\<lambda>c. \<not> unsafe_byte c) (dropWhile c0_or_space (pre @ rest)))
           = (''https'', ''//'' @ filter (\<lambda>c. \<not> unsafe_byte c) rest)"
      by (rule http_scheme [OF pre]) simp
    then have "sch = ''https''"
      using ss unfolding x by simp
    then show ?thesis using sr by simp
  qed
qed

lemma homepage_is_url:
  assumes "is_url v" and "homepage v = Inr (Some h)"
  shows "is_url_str h"
proof -
  obtain url where v: "v = JStr url"
    using assms(1) by (cases v) auto
  obtain u where u: "urlparse (strip url) = Inr u"
    and h: "h = scheme u @ ''://'' @ netloc u @ ''/''"
    using assms(2) unfolding v by (auto split: if_splits sum.splits)
  from urlparse_scheme_netloc [OF u] obtain r where
    r: "urlsplit (strip url) = Inr r" and sr: "scheme u = scheme r"
    by blast
  have url: "is_url_str url" using assms(1) v by simp
  have l1: "lower ''http://'' = ''http://''" and l2: "lower ''https://'' = ''https://''"
    by code_simp+
  from is_url_scheme [OF url r] show ?thesis
  proof
    assume "scheme r = ''http''"
    then have hs: "h = ''http://'' @ netloc u @ ''/''"
      using h sr by simp
    have "strip h = h"
      unfolding hs by (rule strip_keeps) (simp_all add: is_space_def)
    moreover have "startswith (lower h) ''http://''"
      unfolding hs lower_append l1 by (simp add: startswith_iff)
    ultimately show ?thesis by (simp add: is_url_str_def)
  next
    assume "scheme r = ''https''"
    then have hs: "h = ''https://'' @ netloc u @ ''/''"
      using h sr by simp
    have "strip h = h"
      unfolding hs by (rule strip_keeps) (simp_all add: is_space_def)
    moreover have "startswith (lower h) ''https://''"
      unfolding hs lower_append l2 by (simp add: startswith_iff)
    ultimately show ?thesis by (simp add: is_url_str_def)
  qed
qed

section \<open>A second run on the output of the first\<close>

lemma dict_set_same: "map_of d k = Some v \<Longrightarrow> dict_set d k v = d"
  by (induction d) (auto split: if_splits)

lemma dict_set_idem: "dict_set (dict_set d k v) k v = dict_set d k v"
  by (rule dict_set_same) (simp add: map_of_dict_set)

text \<open>
  After the homepage step a site URL that is an http(s) URL is its own homepage, or has
  none.
\<close>

lemma normalized_site:
  assumes "normalize_town_website rec = Inr rec0"
    and "is_url (dict_get rec0 ''Town Website'')"
  shows "\<exists>b h. map_of rec0 ''Town Website'' = Some (JStr b)
           \<and> homepage (JStr b) = Inr h \<and> str_or h (JStr b) = JStr b"
proof (cases "is_url (dict_get rec ''Town Website'')")
  case True
  then obtain x where x: "dict_get rec ''Town Website'' = JStr x"
    by (cases "dict_get rec ''Town Website''") auto
  from assms(1) True x obtain h where h: "homepage (JStr x) = Inr h"
    and r: "rec0 = dict_set rec ''Town Website'' (str_or h (JStr x))"
    by (auto simp: normalize_town_website_def split: sum.splits)
  show ?thesis
  proof (cases "\<exists>s. h = Some s \<and> s \<noteq> []")
    case True
    then obtain s where s: "h = Some s" "s \<noteq> []" by blast
    then have "map_of rec0 ''Town Website'' = Some (JStr s)"
      using r by (simp add: map_of_dict_set str_or_def)
    moreover have "homepage (JStr x) = Inr (Some s)"
      using h s by (simp only:)
    then have "homepage (JStr s) = Inr (Some s)"
      by (rule homepage_idem [THEN conjunct1])
    ultimately show ?thesis
      using s by (auto simp: str_or_def)
  next
    case False
    then have so: "str_or h (JStr x) = JStr x"
      by (cases h) (auto simp: str_or_def)
    then have "map_of rec0 ''Town Website'' = Some (JStr x)"
      using r by (simp add: map_of_dict_set)
    then show ?thesis
      using h so by blast
  qed
next
  case nosite: False
  show ?thesis
  proof (cases "is_url (dict_get rec ''Employment Page URL'')")
    case True
    from assms(1) nosite True obtain h where
      h: "homepage (dict_get rec ''Employment Page URL'') = Inr h"
      and r: "rec0 = dict_set rec ''Town Website'' (str_or h (dict_get rec ''Town Website''))"
      by (auto simp: normalize_town_website_def split: sum.splits)
    have tw: "dict_get rec0 ''Town Website'' = str_or h (dict_get rec ''Town Website'')"
      using r by (simp add: dict_get_set)
    have "\<exists>s. h = Some s \<and> s \<noteq> []"
      using assms(2) nosite unfolding tw by (cases h) (auto simp: str_or_def split: if_splits)
    then obtain s where s: "h = Some s" "s \<noteq> []" by blast
    then have "map_of rec0 ''Town Website'' = Some (JStr s)"
      using r by (simp add: map_of_dict_set str_or_def)
    moreover have "homepage (dict_get rec ''Employment Page URL'') = Inr (Some s)"
      using h s by (simp only:)
    then have "homepage (JStr s) = Inr (Some s)"
      by (rule homepage_idem [THEN conjunct1])
    ultimately show ?thesis
      using s by (auto simp: str_or_def)
  next
    case False
    then have "rec0 = rec"
      using assms(1) nosite by (simp add: normalize_town_website_def)
    then show ?thesis
      using assms(2) nosite by simp
  qed
qed

lemma normalize_again_site:
  assumes "normalize_town_website rec = Inr rec0"
    and "is_url (dict_get rec0 ''Town Website'')"
    and "map_of r ''Town Website'' = map_of rec0 ''Town Website''"
  shows "normalize_town_website r = Inr r"
proof -
  from normalized_site [OF assms(1,2)] obtain b h where
    m: "map_of rec0 ''Town Website'' = Some (JStr b)"
    and h: "homepage (JStr b) = Inr h" and so: "str_or h (JStr b) = JStr b"
    by blast
  have g: "dict_get r ''Town Website'' = JStr b"
    using m assms(3) by (simp add: dict_get_def)
  have "is_url (dict_get r ''Town Website'')"
    using assms(2) m g by (simp add: dict_get_def)
  then have "normalize_town_website r = Inr (dict_set r ''Town Website'' (JStr b))"
    using g h so by (simp add: normalize_town_website_def)
  moreover have "dict_set r ''Town Website'' (JStr b) = r"
    using m assms(3) by (intro dict_set_same) simp
  ultimately show ?thesis by simp
qed

lemma normalize_again_no_site:
  assumes "normalize_town_website rec = Inr rec0"
    and "\<not> is_url (dict_get rec0 ''Town Website'')"
  shows "normalize_town_website rec0 = Inr rec0"
proof (cases "is_url (dict_get rec ''Town Website'')")
  case site: True
  then obtain x where x: "dict_get rec ''Town Website'' = JStr x"
    by (cases "dict_get rec ''Town Website''") auto
  from assms(1) site x obtain h where h: "homepage (JStr x) = Inr h"
    and r: "rec0 = dict_set rec ''Town Website'' (str_or h (JStr x))"
    by (auto simp: normalize_town_website_def split: sum.splits)
  have tw: "dict_get rec0 ''Town Website'' = str_or h (JStr x)"
    using r by (simp add: dict_get_set)
  have "is_url (str_or h (JStr x))"
  proof (cases "\<exists>s. h = Some s \<and> s \<noteq> []")
    case True
    then obtain s where s: "h = Some s" "s \<noteq> []" by blast
    have "is_url (JStr x)" using site x by (simp only:)
    moreover have "homepage (JStr x) = Inr (Some s)" using h s by (simp only:)
    ultimately have "is_url_str s"
      by (rule homepage_is_url)
    then show ?thesis using s by (simp add: str_or_def)
  next
    case False
    then have "str_or h (JStr x) = JStr x"
      by (cases h) (auto simp: str_or_def)
    then show ?thesis using site x by simp
  qed
  then show ?thesis
    using assms(2) tw by simp
next
  case nosite: False
  show ?thesis
  proof (cases "is_url (dict_get rec ''Employment Page URL'')")
    case True
    from assms(1) nosite True obtain h where
      h: "homepage (dict_get rec ''Employment Page URL'') = Inr h"
      and r: "rec0 = dict_set rec ''Town Website'' (str_or h (dict_get rec ''Town Website''))"
      by (auto simp: normalize_town_website_def split: sum.splits)
    have tw: "dict_get rec0 ''Town Website'' = str_or h (dict_get rec ''Town Website'')"
      using r by (simp add: dict_get_set)
    have emp: "dict_get rec0 ''Employment Page URL'' = dict_get rec ''Employment Page URL''"
      using r by (simp add: dict_get_set)
    have no: "\<not> (\<exists>s. h = Some s \<and> s \<noteq> [])"
    proof
      assume "\<exists>s. h = Some s \<and> s \<noteq> []"
      then obtain s where s: "h = Some s" "s \<noteq> []" by blast
      have "homepage (dict_get rec ''Employment Page URL'') = Inr (Some s)"
        using h s by (simp only:)
      with True have "is_url_str s"
        by (rule homepage_is_url)
      then show False
        using assms(2) tw s by (simp add: str_or_def)
    qed
    then have so: "str_or h v = v" for v
      by (cases h) (auto simp: str_or_def)
    have "normalize_town_website rec0 =
            Inr (dict_set rec0 ''Town Website'' (dict_get rec0 ''Town Website''))"
      using assms(2) True emp h by (simp add: normalize_town_website_def so)
    moreover have "dict_set rec0 ''Town Website'' (dict_get rec0 ''Town Website'') = rec0"
      unfolding tw so unfolding r so by (rule dict_set_idem)
    ultimately show ?thesis by simp
  next
    case False
    then have "rec0 = rec"
      using assms(1) nosite by (simp add: normalize_town_website_def)
    then show ?thesis
      using assms(1) by simp
  qed
qed

text \<open>
  What \<open>attempt\<close> reads of the record: the notes, for the content type, and the old
  employment link, for the row.  The requests do not depend on the record.
\<close>

lemma employment_page_type_cong:
  "dict_get r ''Notes'' = dict_get r' ''Notes'' \<Longrightarrow>
   employment_page_type r platform new_emp = employment_page_type r' platform new_emp"
  by (simp only: employment_page_type_def)

lemma refresh_application_again:
  assumes "refresh_application w ra new_emp base_home = (Inr ra', l)"
  shows "\<exists>rb'. refresh_application w rb new_emp base_home = (Inr rb', l)"
proof (cases "\<not> is_pdf new_emp \<and> same_site new_emp base_home")
  case False
  then show ?thesis
    using assms by (auto simp: refresh_application_def io_return_def)
next
  case True
  then obtain pdf pdf_reason l1 where
    f: "find_application_pdf w new_emp base_home = (Inr (pdf, pdf_reason), l1)" and l: "l = l1"
    using assms
    by (auto simp: refresh_application_def io_bind_Inr_iff io_return_def Let_def split: if_splits)
  show ?thesis
    using True unfolding refresh_application_def l
    by (simp add: io_bind_Inr [OF f] io_return_def Let_def)
qed

lemma attempt_on_output:
  assumes "attempt w reca town platform base_home = (Inr (rec1, row1), l1)"
    and "dict_get rec1 ''Notes'' = dict_get reca ''Notes''"
  shows "\<exists>rec2 row2. attempt w rec1 town platform base_home = (Inr (rec2, row2), l1)
           \<and> (\<forall>k. k \<noteq> ''old_employment_url'' \<longrightarrow> map_of row2 k = map_of row1 k)
           \<and> map_of rec2 ''Employment Page URL'' = map_of rec1 ''Employment Page URL''"
proof -
  obtain rg lg where g0: "gather_candidates w platform base_home town = (rg, lg)"
    by (cases "gather_candidates w platform base_home town") auto
  obtain cand where g: "gather_candidates w platform base_home town = (Inr cand, lg)"
  proof (cases rg)
    case (Inl e)
    then have "attempt w reca town platform base_home = (Inl e, lg)"
      unfolding attempt_def using g0 by (simp add: io_bind_Inl)
    then show ?thesis using assms(1) by simp
  next
    case (Inr cand)
    then show ?thesis using g0 that by simp
  qed
  define scored where "scored = take 40 (score_and_sort base_home (dedupe [] cand))"
  define K :: "pydict \<Rightarrow> best \<times> best \<times> string option \<Rightarrow> (pydict \<times> pydict) io" where
    "K = (\<lambda>rec (best_html, best_pdf, last_blocked_reason).
        case (if best_html \<noteq> None then best_html else best_pdf) of
          None \<Rightarrow>
            if platform = ''civiclift''
            then io_return (dict_set rec ''employment_page_type'' (JStr ''ephemeral_posts''),
                   [(''Town'', town),
                    (''action'', JStr ''updated''),
                    (''platform'', JStr platform),
                    (''reason'', JStr ''no_stable_employment_page_detected_ephemeral_posts''),
                    (''new_employment_url'', JStr base_home),
                    (''confidence'', JInt 60),
                    (''employment_page_type'', JStr ''ephemeral_posts'')])
            else if last_blocked_reason \<noteq> None \<and> last_blocked_reason \<noteq> Some ''''
            then io_return (dict_set rec ''employment_url_last_blocked_reason''
                              (JStr (the last_blocked_reason)),
                   [(''Town'', town),
                    (''action'', JStr ''needs_review''),
                    (''reason'', JStr ''no_candidate_validated''),
                    (''platform'', JStr platform),
                    (''blocked_reason'', JStr (the last_blocked_reason))])
            else io_return (rec,
                   [(''Town'', town),
                    (''action'', JStr ''needs_review''),
                    (''reason'', JStr ''no_candidate_validated''),
                    (''platform'', JStr platform)])
        | Some chosen \<Rightarrow> accept_choice w rec town platform base_home chosen)"
  have att: "attempt w rec town platform base_home =
          (case io_bind (validate_loop w base_home scored (None, None, None)) (K rec) of
             (r, l) \<Rightarrow> (r, lg @ l))" for rec
    unfolding attempt_def io_bind_Inr [OF g] Let_def K_def scored_def ..
  from assms(1) have "(case io_bind (validate_loop w base_home scored (None, None, None)) (K reca) of
             (r, l) \<Rightarrow> (r, lg @ l)) = (Inr (rec1, row1), l1)"
    unfolding att .
  then obtain l' where b: "io_bind (validate_loop w base_home scored (None, None, None)) (K reca)
        = (Inr (rec1, row1), l')" and l1': "l1 = lg @ l'"
    by (cases "io_bind (validate_loop w base_home scored (None, None, None)) (K reca)") auto
  from b [unfolded io_bind_Inr_iff] obtain st lv l3 where
    loop: "validate_loop w base_home scored (None, None, None) = (Inr st, lv)"
    and k: "K reca st = (Inr (rec1, row1), l3)" and l': "l' = lv @ l3"
    by blast
  obtain bh bp lb where st: "st = (bh, bp, lb)" by (cases st) auto
  have "\<exists>rec2 row2. K rec1 st = (Inr (rec2, row2), l3)
           \<and> (\<forall>k. k \<noteq> ''old_employment_url'' \<longrightarrow> map_of row2 k = map_of row1 k)
           \<and> map_of rec2 ''Employment Page URL'' = map_of rec1 ''Employment Page URL''"
  proof (cases "if bh \<noteq> None then bh else bp")
    case None
    have "(\<exists>key v row. \<forall>rec. K rec st = (Inr (dict_set rec key v, row), [])
            \<and> key \<noteq> ''Employment Page URL'')
          \<or> (\<exists>row. \<forall>rec. K rec st = (Inr (rec, row), []))"
    proof (cases "platform = ''civiclift''")
      case True
      have "\<forall>rec. K rec st =
          (Inr (dict_set rec ''employment_page_type'' (JStr ''ephemeral_posts''),
                   [(''Town'', town),
                    (''action'', JStr ''updated''),
                    (''platform'', JStr platform),
                    (''reason'', JStr ''no_stable_employment_page_detected_ephemeral_posts''),
                    (''new_employment_url'', JStr base_home),
                    (''confidence'', JInt 60),
                    (''employment_page_type'', JStr ''ephemeral_posts'')]), [])
          \<and> ''employment_page_type'' \<noteq> ''Employment Page URL''"
        unfolding K_def st using None True by (simp add: io_return_def)
      then show ?thesis by blast
    next
      case nolift: False
      show ?thesis
      proof (cases "lb \<noteq> None \<and> lb \<noteq> Some ''''")
        case True
        have "\<forall>rec. K rec st =
            (Inr (dict_set rec ''employment_url_last_blocked_reason'' (JStr (the lb)),
                   [(''Town'', town),
                    (''action'', JStr ''needs_review''),
                    (''reason'', JStr ''no_candidate_validated''),
                    (''platform'', JStr platform),
                    (''blocked_reason'', JStr (the lb))]), [])
            \<and> ''employment_url_last_blocked_reason'' \<noteq> ''Employment Page URL''"
          unfolding K_def st using None nolift True by (simp add: io_return_def)
        then show ?thesis by blast
      next
        case False
        have "\<forall>rec. K rec st =
            (Inr (rec,
                   [(''Town'', town),
                    (''action'', JStr ''needs_review''),
                    (''reason'', JStr ''no_candidate_validated''),
                    (''platform'', JStr platform)]), [])"
          unfolding K_def st using None nolift False by (simp add: io_return_def)
        then show ?thesis by blast
      qed
    qed
    then show ?thesis
    proof (elim disjE exE)
      fix key v row
      assume a: "\<forall>rec. K rec st = (Inr (dict_set rec key v, row), []) \<and> key \<noteq> ''Employment Page URL''"
      then have "row1 = row" "l3 = []" and "K rec1 st = (Inr (dict_set rec1 key v, row), [])"
        using k by auto
      moreover have "map_of (dict_set rec1 key v) ''Employment Page URL'' = map_of rec1 ''Employment Page URL''"
        using a by (auto simp: map_of_dict_set)
      ultimately show ?thesis by simp
    next
      fix row
      assume a: "\<forall>rec. K rec st = (Inr (rec, row), [])"
      then have "row1 = row" "l3 = []" and "K rec1 st = (Inr (rec1, row), [])"
        using k by auto
      then show ?thesis by simp
    qed
  next
    case (Some chosen)
    obtain s new_emp src why where c: "chosen = (s, new_emp, src, why)"
      by (cases chosen) auto
    have ka: "K rec st = accept_choice w rec town platform base_home (s, new_emp, src, why)" for rec
      unfolding K_def st using Some c by simp
    from accept_choice_Inr [OF k [unfolded ka]] obtain conf ptype where
      cf: "confidence new_emp = Inr conf"
      and pt: "employment_page_type reca platform new_emp = Inr ptype"
      and rf: "refresh_application w
         (update_record w (dict_set reca ''employment_page_type'' (JStr ptype)) new_emp platform
            (''rediscovered_from_'' @ src) conf src s why) new_emp base_home = (Inr rec1, l3)"
      and row1: "row1 = [(''Town'', town),
             (''action'', JStr ''updated''),
             (''platform'', JStr platform),
             (''old_employment_url'', py_or (dict_get reca ''Employment Page URL'') (JStr '''')),
             (''new_employment_url'', JStr new_emp),
             (''confidence'', JInt conf),
             (''source'', JStr src),
             (''employment_page_type'', JStr ptype)]"
      by blast
    have pt1: "employment_page_type rec1 platform new_emp = Inr ptype"
      using pt employment_page_type_cong [OF assms(2)] by simp
    from refresh_application_again [OF rf] obtain rec2 where
      rf1: "refresh_application w
         (update_record w (dict_set rec1 ''employment_page_type'' (JStr ptype)) new_emp platform
            (''rediscovered_from_'' @ src) conf src s why) new_emp base_home = (Inr rec2, l3)"
      by blast
    have e1: "map_of rec1 ''Employment Page URL'' = Some (JStr new_emp)"
      using refresh_application_frame [OF rf, of "''Employment Page URL''"]
      by (simp add: application_keys_def map_of_update_record)
    have e2: "map_of rec2 ''Employment Page URL'' = Some (JStr new_emp)"
      using refresh_application_frame [OF rf1, of "''Employment Page URL''"]
      by (simp add: application_keys_def map_of_update_record)
    have t2: "dict_get rec2 ''employment_page_type'' = JStr ptype"
      using refresh_application_frame [OF rf1, of "''employment_page_type''"]
      by (simp add: application_keys_def map_of_update_record map_of_dict_set dict_get_def)
    have ne: "ptype \<noteq> []"
      using employment_page_type_values [OF pt] by auto
    have "K rec1 st = (Inr (rec2,
           [(''Town'', town),
            (''action'', JStr ''updated''),
            (''platform'', JStr platform),
            (''old_employment_url'', py_or (dict_get rec1 ''Employment Page URL'') (JStr '''')),
            (''new_employment_url'', JStr new_emp),
            (''confidence'', JInt conf),
            (''source'', JStr src),
            (''employment_page_type'', JStr ptype)]), l3)"
      unfolding ka by (rule accept_choice_eval [OF cf pt1 rf1 t2 ne])
    then show ?thesis
      using e1 e2 row1 by simp
  qed
  then obtain rec2 row2 where k2: "K rec1 st = (Inr (rec2, row2), l3)"
    and rows: "\<forall>k. k \<noteq> ''old_employment_url'' \<longrightarrow> map_of row2 k = map_of row1 k"
    and emp: "map_of rec2 ''Employment Page URL'' = map_of rec1 ''Employment Page URL''"
    by blast
  have "attempt w rec1 town platform base_home = (Inr (rec2, row2), l1)"
    unfolding att [of rec1] io_bind_Inr [OF loop] k2 l1' l' by simp
  then show ?thesis
    using rows emp by blast
qed

text \<open>What \<open>attempt\<close> leaves of the record, and the platform in its row.\<close>

lemma attempt_frame:
  assumes "attempt w reca town platform base_home = (Inr (rec1, row1), l1)"
  shows "map_of row1 ''platform'' = Some (JStr platform)
    \<and> (map_of reca ''platform_detected'' = Some (JStr platform)
         \<longrightarrow> map_of rec1 ''platform_detected'' = Some (JStr platform))
    \<and> map_of rec1 ''Town'' = map_of reca ''Town''
    \<and> map_of rec1 ''Town Website'' = map_of reca ''Town Website''
    \<and> map_of rec1 ''employment_url_status_code'' = map_of reca ''employment_url_status_code''
    \<and> map_of rec1 ''employment_url_soft404'' = map_of reca ''employment_url_soft404''
    \<and> map_of rec1 ''Notes'' = map_of reca ''Notes''"
  using attempt_cases [OF assms]
proof (elim disjE conjE exE)
  assume r: "rec1 = dict_set reca ''employment_page_type'' (JStr ''ephemeral_posts'')"
    and row: "row1 = [(''Town'', town),
                    (''action'', JStr ''updated''),
                    (''platform'', JStr platform),
                    (''reason'', JStr ''no_stable_employment_page_detected_ephemeral_posts''),
                    (''new_employment_url'', JStr base_home),
                    (''confidence'', JInt 60),
                    (''employment_page_type'', JStr ''ephemeral_posts'')]"
  show ?thesis
    unfolding row r by (simp add: map_of_dict_set)
next
  fix lb
  assume r: "rec1 = dict_set reca ''employment_url_last_blocked_reason'' (JStr lb)"
    and row: "row1 = [(''Town'', town),
                       (''action'', JStr ''needs_review''),
                       (''reason'', JStr ''no_candidate_validated''),
                       (''platform'', JStr platform),
                       (''blocked_reason'', JStr lb)]"
  show ?thesis
    unfolding row r by (simp add: map_of_dict_set)
next
  assume r: "rec1 = reca"
    and row: "row1 = [(''Town'', town),
                     (''action'', JStr ''needs_review''),
                     (''reason'', JStr ''no_candidate_validated''),
                     (''platform'', JStr platform)]"
  show ?thesis
    unfolding row r by simp
next
  fix chosen l2
  assume a: "accept_choice w reca town platform base_home chosen = (Inr (rec1, row1), l2)"
  obtain s new_emp src why where c: "chosen = (s, new_emp, src, why)"
    by (cases chosen) auto
  from accept_choice_Inr [OF a [unfolded c]] obtain conf ptype where
    rf: "refresh_application w
           (update_record w (dict_set reca ''employment_page_type'' (JStr ptype)) new_emp platform
              (''rediscovered_from_'' @ src) conf src s why) new_emp base_home = (Inr rec1, l2)"
    and row: "map_of row1 ''platform'' = Some (JStr platform)"
    by auto
  note fr = refresh_application_frame [OF rf]
  have "map_of rec1 ''platform_detected'' = Some (JStr platform)"
    using fr [of "''platform_detected''"]
    by (simp add: application_keys_def map_of_update_record)
  moreover have "map_of rec1 ''Town'' = map_of reca ''Town''"
    using fr [of "''Town''"]
    by (simp add: application_keys_def map_of_update_record map_of_dict_set)
  moreover have "map_of rec1 ''Town Website'' = map_of reca ''Town Website''"
    using fr [of "''Town Website''"]
    by (simp add: application_keys_def map_of_update_record map_of_dict_set)
  moreover have "map_of rec1 ''employment_url_status_code'' = map_of reca ''employment_url_status_code''"
    using fr [of "''employment_url_status_code''"]
    by (simp add: application_keys_def map_of_update_record map_of_dict_set)
  moreover have "map_of rec1 ''employment_url_soft404'' = map_of reca ''employment_url_soft404''"
    using fr [of "''employment_url_soft404''"]
    by (simp add: application_keys_def map_of_update_record map_of_dict_set)
  moreover have "map_of rec1 ''Notes'' = map_of reca ''Notes''"
    using fr [of "''Notes''"]
    by (simp add: application_keys_def map_of_update_record map_of_dict_set)
  ultimately show ?thesis
    using row by simp
qed

text \<open>The rows of the two gates, as functions of the record.\<close>

lemma rediscover_skipped:
  assumes "normalize_town_website rec = Inr rec0"
    and "\<not> is_url (dict_get rec0 ''Town Website'')"
  shows "rediscover_for_town w rec =
           (Inr (rec0, [(''Town'', py_or (dict_get rec ''Town'') (JStr ''(unknown)'')),
                        (''action'', JStr ''skipped''),
                        (''reason'', JStr ''missing_town_homepage'')]), [])"
  using assms by (simp add: rediscover_for_town_def io_return_def)

lemma rediscover_no_change:
  assumes "normalize_town_website rec = Inr rec0"
    and "is_url (dict_get rec0 ''Town Website'')"
    and "detect_platform rec0 = Inr platform"
    and "\<not> should_attempt rec"
  shows "rediscover_for_town w rec =
          (Inr (dict_set rec0 ''platform_detected'' (JStr platform),
             [(''Town'', py_or (dict_get rec ''Town'') (JStr ''(unknown)'')),
              (''action'', JStr ''no_change''),
              (''reason'', JStr (if dict_get rec ''employment_url_status_code''
                                     \<in> set DO_NOT_REWRITE_IF_STATUS_IN
                                  then ''status_'' @ py_str (dict_get rec ''employment_url_status_code'')
                                       @ ''_bot_block_likely''
                                  else ''employment_not_marked_broken'')),
              (''platform'', JStr platform)]), [])"
proof -
  let ?rec2 = "dict_set rec0 ''platform_detected'' (JStr platform)"
  have st: "dict_get ?rec2 ''employment_url_status_code'' = dict_get rec ''employment_url_status_code''"
    and so: "dict_get ?rec2 ''employment_url_soft404'' = dict_get rec ''employment_url_soft404''"
    by (simp_all add: dict_get_set normalize_frame_get [OF assms(1)])
  have "\<not> should_attempt ?rec2"
    using assms(4) should_attempt_cong [OF st so] by simp
  then show ?thesis
    using assms(1,2,3) st by (simp add: rediscover_for_town_def Let_def io_return_def)
qed



section \<open>Two runs on the site with a page of jobs and a page of vacancies\<close>

lemma jobs_page_ok: "\<not> looks_soft404 (page ''http://t.gov/jobs'' 200 jobs_body)"
proof -
  have "\<not> any_in SOFT404_PHRASES (lower jobs_body)" by code_simp
  moreover have "length jobs_body \<le> 250000" by (simp add: jobs_body_def)
  ultimately show ?thesis by (simp add: looks_soft404_page)
qed

lemma jobs_home_links:
  "crawl_homepage w_jobs ''http://t.gov/'' (Some (page ''http://t.gov/'' 200 home_body)) keep =
     Inr (map (\<lambda>(u, t). (u, t, ''homepage_link''))
            (filter (\<lambda>(u, t). keep u t) [(''http://t.gov/vacancies'', ''Current vacancies'')]))"
proof -
  have l1: "extract_links w_jobs ''http://t.gov/'' home_body
              = Inr [(''http://t.gov/vacancies'', ''Current vacancies'')]"
    by code_simp
  have l2: "extract_links_with_selector w_jobs ''http://t.gov/'' home_body
              ''nav a[href], footer a[href]'' = Inr []"
    by code_simp
  show ?thesis
    using crawl_homepage_page [OF _ vacancy_home_ok _ l1 l2, where keep = keep
        and base_home = "''http://t.gov/''"] by simp
qed

lemma jobs_gather_granicus:
  "gather_candidates w_jobs ''granicus'' ''http://t.gov/'' (JStr ''Tolland'') =
     (Inr gran_candidates, [''http://t.gov/''])"
proof -
  have f: "fetch w_jobs ''http://t.gov/'' = Inr (page ''http://t.gov/'' 200 home_body)"
    by (simp add: w_jobs_def)
  have k: "kw_hit ''http://t.gov/vacancies''" by code_simp
  have pc: "path_candidates w_jobs ''http://t.gov/'' ''GRANICUS_PATH:'' ''granicus_path''
              [''/government/human-resources'', ''/government/human-resources/city-jobs'', ''/jobs'']
            = Inr [(''http://t.gov/government/human-resources'',
                    ''GRANICUS_PATH:/government/human-resources'', ''granicus_path''),
                   (''http://t.gov/government/human-resources/city-jobs'',
                    ''GRANICUS_PATH:/government/human-resources/city-jobs'', ''granicus_path''),
                   (''http://t.gov/jobs'', ''GRANICUS_PATH:/jobs'', ''granicus_path'')]"
    by code_simp
  have fb: "granicus_ats_fallback_candidates (JStr ''Tolland'')
            = Inr [(''https://www.governmentjobs.com/careers/tollandct'',
                    ''ATS_FALLBACK:governmentjobs_slug_ct'', ''ats_fallback''),
                   (''https://www.governmentjobs.com/careers/tolland'',
                    ''ATS_FALLBACK:governmentjobs_slug'', ''ats_fallback'')]"
    by code_simp
  have dg: "discover_granicus w_jobs ''http://t.gov/'' =
        (Inr [(''http://t.gov/vacancies'', ''Current vacancies'', ''homepage_link''),
              (''http://t.gov/government/human-resources'',
               ''GRANICUS_PATH:/government/human-resources'', ''granicus_path''),
              (''http://t.gov/government/human-resources/city-jobs'',
               ''GRANICUS_PATH:/government/human-resources/city-jobs'', ''granicus_path''),
              (''http://t.gov/jobs'', ''GRANICUS_PATH:/jobs'', ''granicus_path'')],
         [''http://t.gov/''])"
    unfolding discover_granicus_def io_bind_get_ok [OF f]
    using k by (simp add: jobs_home_links pc io_return_def)
  show ?thesis
    unfolding gather_candidates_def
    by (simp add: io_bind_Inr [OF dg] fb io_return_def gran_candidates_def)
qed

lemma jobs_gather_other:
  "gather_candidates w_jobs ''other'' ''http://t.gov/'' town =
     (Inr [(''http://t.gov/vacancies'', ''Current vacancies'', ''homepage_link'')], [''http://t.gov/''])"
proof -
  have f: "fetch w_jobs ''http://t.gov/'' = Inr (page ''http://t.gov/'' 200 home_body)"
    by (simp add: w_jobs_def)
  have k: "kw_hit ''http://t.gov/vacancies''" by code_simp
  show ?thesis
    unfolding gather_candidates_def discover_other_def io_bind_get_ok [OF f]
    using k by (simp add: jobs_home_links io_lift_def)
qed

lemma jobs_validate_page:
  assumes "fetch w_jobs u = Inr (page u 200 body)"
    and "\<not> looks_soft404 (page u 200 body)"
    and "restore_final u (page u 200 body) = Inr u"
    and "unwrap_granicus_splash u = None"
    and "interstitial_block (page u 200 body) u = None"
    and "\<not> is_social u"
    and "same_site u ''http://t.gov/''"
  shows "validate_candidate w_jobs u ''http://t.gov/'' = (Inr (True, Some u, ''ok'', None), [u])"
proof -
  have b: "resp_status_code (page u 200 body) < 400" by (simp add: page_def)
  have "judge (page u 200 body) u ''http://t.gov/'' = (True, Some u, ''ok'', None)"
    using assms(4) b assms(5,2,6,7) by (intro judge_ok) simp_all
  then show ?thesis
    using validate_candidate_fetched [OF assms(1,3), of "''http://t.gov/''"] by simp
qed

lemma jobs_validate_jobs:
  "validate_candidate w_jobs ''http://t.gov/jobs'' ''http://t.gov/''
     = (Inr (True, Some ''http://t.gov/jobs'', ''ok'', None), [''http://t.gov/jobs''])"
proof -
  let ?u = "''http://t.gov/jobs''"
  let ?r = "page ?u 200 jobs_body"
  have f: "fetch w_jobs ?u = Inr ?r" by (simp add: w_jobs_def)
  have rf: "restore_final ?u ?r = Inr ?u" by code_simp
  have a: "unwrap_granicus_splash ?u = None" by code_simp
  have c: "interstitial_block ?r ?u = None" by code_simp
  have d: "\<not> is_social ?u" by code_simp
  have e: "same_site ?u ''http://t.gov/''" by code_simp
  show ?thesis
    by (rule jobs_validate_page [OF f jobs_page_ok rf a c d e])
qed

lemma jobs_validate_vacancies:
  "validate_candidate w_jobs ''http://t.gov/vacancies'' ''http://t.gov/''
     = (Inr (True, Some ''http://t.gov/vacancies'', ''ok'', None), [''http://t.gov/vacancies''])"
proof -
  let ?u = "''http://t.gov/vacancies''"
  let ?r = "page ?u 200 vacancy_body"
  have f: "fetch w_jobs ?u = Inr ?r" by (simp add: w_jobs_def)
  have rf: "restore_final ?u ?r = Inr ?u" by code_simp
  have a: "unwrap_granicus_splash ?u = None" by code_simp
  have c: "interstitial_block ?r ?u = None" by code_simp
  have d: "\<not> is_social ?u" by code_simp
  have e: "same_site ?u ''http://t.gov/''" by code_simp
  show ?thesis
    by (rule jobs_validate_page [OF f vacancy_page_ok rf a c d e])
qed

text \<open>
  The loop over the six candidates of the first run: the page of jobs is accepted with
  score 120, the page of vacancies with score 90, the other four time out.
\<close>

lemma jobs_loop_granicus:
  "validate_loop w_jobs ''http://t.gov/''
     [(120, ''http://t.gov/government/human-resources/city-jobs'',
       ''GRANICUS_PATH:/government/human-resources/city-jobs'', ''granicus_path''),
      (120, ''http://t.gov/jobs'', ''GRANICUS_PATH:/jobs'', ''granicus_path''),
      (105, ''https://www.governmentjobs.com/careers/tollandct'',
       ''ATS_FALLBACK:governmentjobs_slug_ct'', ''ats_fallback''),
      (105, ''https://www.governmentjobs.com/careers/tolland'',
       ''ATS_FALLBACK:governmentjobs_slug'', ''ats_fallback''),
      (90, ''http://t.gov/vacancies'', ''Current vacancies'', ''homepage_link''),
      (70, ''http://t.gov/government/human-resources'',
       ''GRANICUS_PATH:/government/human-resources'', ''granicus_path'')]
     (None, None, None)
   = (Inr (Some (120, ''http://t.gov/jobs'', ''granicus_path'', ''ok''), None, None),
      [''http://t.gov/government/human-resources/city-jobs'', ''http://t.gov/jobs'',
       ''https://www.governmentjobs.com/careers/tollandct'',
       ''https://www.governmentjobs.com/careers/tolland'', ''http://t.gov/vacancies'',
       ''http://t.gov/government/human-resources''])"
proof -
  let ?b = "''http://t.gov/''"
  let ?best = "(Some (120, ''http://t.gov/jobs'', ''granicus_path'', ''ok''), None, None)
                 :: best \<times> best \<times> string option"
  have f1: "fetch w_jobs ''http://t.gov/government/human-resources/city-jobs'' = Inl ''timeout''"
    and f3: "fetch w_jobs ''https://www.governmentjobs.com/careers/tollandct'' = Inl ''timeout''"
    and f4: "fetch w_jobs ''https://www.governmentjobs.com/careers/tolland'' = Inl ''timeout''"
    and f6: "fetch w_jobs ''http://t.gov/government/human-resources'' = Inl ''timeout''"
    by (simp_all add: w_jobs_def)
  have s1: "\<not> is_social ''http://t.gov/government/human-resources/city-jobs''" by code_simp
  have s2: "\<not> is_social ''http://t.gov/jobs''" by code_simp
  have s3: "\<not> is_social ''https://www.governmentjobs.com/careers/tollandct''" by code_simp
  have s4: "\<not> is_social ''https://www.governmentjobs.com/careers/tolland''" by code_simp
  have s5: "\<not> is_social ''http://t.gov/vacancies''" by code_simp
  have s6: "\<not> is_social ''http://t.gov/government/human-resources''" by code_simp
  have p2: "\<not> is_pdf ''http://t.gov/jobs''" by code_simp
  have p5: "\<not> is_pdf ''http://t.gov/vacancies''" by code_simp
  have z: "(0::int) \<le> 70" "(0::int) \<le> 90" "(0::int) \<le> 105" "(0::int) \<le> 120"
    by simp_all
  have ne: "''http://t.gov/jobs'' \<noteq> []" "''http://t.gov/vacancies'' \<noteq> []"
    by simp_all
  have l6: "validate_loop w_jobs ?b
      [(70, ''http://t.gov/government/human-resources'',
        ''GRANICUS_PATH:/government/human-resources'', ''granicus_path'')] ?best
      = (Inr ?best, [''http://t.gov/government/human-resources''])"
    unfolding validate_loop_fetch_error [OF f6 z(1) s6]
    by (simp add: io_return_def)
  have l5: "validate_loop w_jobs ?b
      [(90, ''http://t.gov/vacancies'', ''Current vacancies'', ''homepage_link''),
       (70, ''http://t.gov/government/human-resources'',
        ''GRANICUS_PATH:/government/human-resources'', ''granicus_path'')] ?best
      = (Inr ?best, [''http://t.gov/vacancies'', ''http://t.gov/government/human-resources''])"
    unfolding validate_loop_accept_page [OF jobs_validate_vacancies z(2) s5 ne(2) p5]
    by (simp add: l6 del: validate_loop.simps)
  have l4: "validate_loop w_jobs ?b
      [(105, ''https://www.governmentjobs.com/careers/tolland'',
        ''ATS_FALLBACK:governmentjobs_slug'', ''ats_fallback''),
       (90, ''http://t.gov/vacancies'', ''Current vacancies'', ''homepage_link''),
       (70, ''http://t.gov/government/human-resources'',
        ''GRANICUS_PATH:/government/human-resources'', ''granicus_path'')] ?best
      = (Inr ?best, [''https://www.governmentjobs.com/careers/tolland'', ''http://t.gov/vacancies'',
                     ''http://t.gov/government/human-resources''])"
    unfolding validate_loop_fetch_error [OF f4 z(3) s4]
    by (simp add: l5 del: validate_loop.simps)
  have l3: "validate_loop w_jobs ?b
      [(105, ''https://www.governmentjobs.com/careers/tollandct'',
        ''ATS_FALLBACK:governmentjobs_slug_ct'', ''ats_fallback''),
       (105, ''https://www.governmentjobs.com/careers/tolland'',
        ''ATS_FALLBACK:governmentjobs_slug'', ''ats_fallback''),
       (90, ''http://t.gov/vacancies'', ''Current vacancies'', ''homepage_link''),
       (70, ''http://t.gov/government/human-resources'',
        ''GRANICUS_PATH:/government/human-resources'', ''granicus_path'')] ?best
      = (Inr ?best, [''https://www.governmentjobs.com/careers/tollandct'',
                     ''https://www.governmentjobs.com/careers/tolland'', ''http://t.gov/vacancies'',
                     ''http://t.gov/government/human-resources''])"
    unfolding validate_loop_fetch_error [OF f3 z(3) s3]
    by (simp add: l4 del: validate_loop.simps)
  have l2: "validate_loop w_jobs ?b
      [(120, ''http://t.gov/jobs'', ''GRANICUS_PATH:/jobs'', ''granicus_path''),
       (105, ''https://www.governmentjobs.com/careers/tollandct'',
        ''ATS_FALLBACK:governmentjobs_slug_ct'', ''ats_fallback''),
       (105, ''https://www.governmentjobs.com/careers/tolland'',
        ''ATS_FALLBACK:governmentjobs_slug'', ''ats_fallback''),
       (90, ''http://t.gov/vacancies'', ''Current vacancies'', ''homepage_link''),
       (70, ''http://t.gov/government/human-resources'',
        ''GRANICUS_PATH:/government/human-resources'', ''granicus_path'')] (None, None, None)
      = (Inr ?best, [''http://t.gov/jobs'', ''https://www.governmentjobs.com/careers/tollandct'',
                     ''https://www.governmentjobs.com/careers/tolland'', ''http://t.gov/vacancies'',
                     ''http://t.gov/government/human-resources''])"
    unfolding validate_loop_accept_page [OF jobs_validate_jobs z(4) s2 ne(1) p2]
    by (simp add: l3 del: validate_loop.simps)
  show ?thesis
    unfolding validate_loop_fetch_error [OF f1 z(4) s1]
    by (simp add: l2 del: validate_loop.simps)
qed

text \<open>
  The first run: the platform is read off the old employment link, the static path of
  that platform is accepted with the best score, and the link is rewritten.
\<close>

lemma gran_first_run:
  "rediscover_for_town w_jobs rec_gran =
     (Inr (rec_gran_jobs,
           [(''Town'', JStr ''Tolland''),
            (''action'', JStr ''updated''),
            (''platform'', JStr ''granicus''),
            (''old_employment_url'', JStr ''http://tolland.granicus.com/jobs''),
            (''new_employment_url'', JStr ''http://t.gov/jobs''),
            (''confidence'', JInt 85),
            (''source'', JStr ''granicus_path''),
            (''employment_page_type'', JStr ''page'')]),
      [''http://t.gov/'', ''http://t.gov/government/human-resources/city-jobs'', ''http://t.gov/jobs'',
       ''https://www.governmentjobs.com/careers/tollandct'',
       ''https://www.governmentjobs.com/careers/tolland'', ''http://t.gov/vacancies'',
       ''http://t.gov/government/human-resources'', ''http://t.gov/jobs''])"
proof -
  let ?u = "''http://t.gov/jobs''"
  let ?b = "''http://t.gov/''"
  let ?rec2 = "dict_set rec_gran ''platform_detected'' (JStr ''granicus'')"
  let ?rec3 = "update_record w_jobs (dict_set ?rec2 ''employment_page_type'' (JStr ''page''))
             ?u ''granicus'' (''rediscovered_from_'' @ ''granicus_path'') 85 ''granicus_path'' 120 ''ok''"
  have n: "normalize_town_website rec_gran = Inr rec_gran" by code_simp
  have s: "is_url (dict_get rec_gran ''Town Website'')" by code_simp
  have p: "detect_platform rec_gran = Inr ''granicus''" by code_simp
  have a: "should_attempt rec_gran" by code_simp
  have b: "py_str (dict_get rec_gran ''Town Website'') = ?b" by code_simp
  have t: "py_or (dict_get rec_gran ''Town'') (JStr ''(unknown)'') = JStr ''Tolland''" by code_simp
  have sc: "take 40 (score_and_sort ?b (dedupe [] gran_candidates)) =
     [(120, ''http://t.gov/government/human-resources/city-jobs'',
       ''GRANICUS_PATH:/government/human-resources/city-jobs'', ''granicus_path''),
      (120, ''http://t.gov/jobs'', ''GRANICUS_PATH:/jobs'', ''granicus_path''),
      (105, ''https://www.governmentjobs.com/careers/tollandct'',
       ''ATS_FALLBACK:governmentjobs_slug_ct'', ''ats_fallback''),
      (105, ''https://www.governmentjobs.com/careers/tolland'',
       ''ATS_FALLBACK:governmentjobs_slug'', ''ats_fallback''),
      (90, ''http://t.gov/vacancies'', ''Current vacancies'', ''homepage_link''),
      (70, ''http://t.gov/government/human-resources'',
       ''GRANICUS_PATH:/government/human-resources'', ''granicus_path'')]"
    by code_simp
  have pdf: "\<not> is_pdf ?u" by code_simp
  have conf: "confidence ?u = Inr 85" by code_simp
  have ty: "employment_page_type ?rec2 ''granicus'' ?u = Inr ''page''" by code_simp
  have f: "fetch w_jobs ?u = Inr (page ?u 200 jobs_body)" by (simp add: w_jobs_def)
  have links: "extract_links w_jobs ?u jobs_body = Inr []" by code_simp
  have fa: "find_application_pdf w_jobs ?u ?b = (Inr (None, ''no_pdf_links''), [?u])"
    using find_application_pdf_no_links [OF f _ jobs_page_ok _ links] by simp
  have ss: "same_site ?u ?b" by code_simp
  have ra: "refresh_application w_jobs ?rec3 ?u ?b = (Inr ?rec3, [?u])"
    using refresh_application_no_pdf [OF fa, of ?rec3] pdf ss by simp
  have ept: "dict_get ?rec3 ''employment_page_type'' = JStr ''page''"
    by (simp add: dict_get_def map_of_update_record map_of_dict_set)
  have old: "py_or (dict_get ?rec2 ''Employment Page URL'') (JStr '''')
               = JStr ''http://tolland.granicus.com/jobs''"
    by code_simp
  have r3: "?rec3 = rec_gran_jobs" by code_simp
  have acc: "accept_choice w_jobs ?rec2 (JStr ''Tolland'') ''granicus'' ?b
               (120, ?u, ''granicus_path'', ''ok'') =
          (Inr (?rec3,
             [(''Town'', JStr ''Tolland''),
              (''action'', JStr ''updated''),
              (''platform'', JStr ''granicus''),
              (''old_employment_url'', JStr ''http://tolland.granicus.com/jobs''),
              (''new_employment_url'', JStr ?u),
              (''confidence'', JInt 85),
              (''source'', JStr ''granicus_path''),
              (''employment_page_type'', JStr ''page'')]), [?u])"
    using accept_choice_eval [OF conf ty ra ept, of "JStr ''Tolland''"] old by simp
  have "attempt w_jobs ?rec2 (JStr ''Tolland'') ''granicus'' ?b =
          (Inr (?rec3,
             [(''Town'', JStr ''Tolland''),
              (''action'', JStr ''updated''),
              (''platform'', JStr ''granicus''),
              (''old_employment_url'', JStr ''http://tolland.granicus.com/jobs''),
              (''new_employment_url'', JStr ?u),
              (''confidence'', JInt 85),
              (''source'', JStr ''granicus_path''),
              (''employment_page_type'', JStr ''page'')]),
           [?b] @ [''http://t.gov/government/human-resources/city-jobs'', ''http://t.gov/jobs'',
             ''https://www.governmentjobs.com/careers/tollandct'',
             ''https://www.governmentjobs.com/careers/tolland'', ''http://t.gov/vacancies'',
             ''http://t.gov/government/human-resources''] @ [?u])"
    by (rule attempt_eval [OF jobs_gather_granicus sc jobs_loop_granicus _ acc]) simp
  then show ?thesis
    unfolding rediscover_attempts [OF n s p a] b t r3 by simp
qed

text \<open>
  The second run, on the record the first has returned: the rewritten link no longer
  names the vendor, the platform is now \<^verbatim>\<open>other\<close>, the static paths are not tried,
  and the page of vacancies linked from the homepage is accepted.
\<close>

lemma gran_second_run:
  "rediscover_for_town w_jobs rec_gran_jobs =
     (Inr (update_record w_jobs
             (dict_set (dict_set rec_gran_jobs ''platform_detected'' (JStr ''other''))
                ''employment_page_type'' (JStr ''page''))
             ''http://t.gov/vacancies'' ''other'' ''rediscovered_from_homepage_link'' 70
             ''homepage_link'' 90 ''ok'',
           [(''Town'', JStr ''Tolland''),
            (''action'', JStr ''updated''),
            (''platform'', JStr ''other''),
            (''old_employment_url'', JStr ''http://t.gov/jobs''),
            (''new_employment_url'', JStr ''http://t.gov/vacancies''),
            (''confidence'', JInt 70),
            (''source'', JStr ''homepage_link''),
            (''employment_page_type'', JStr ''page'')]),
      [''http://t.gov/'', ''http://t.gov/vacancies'', ''http://t.gov/vacancies''])"
proof -
  let ?u = "''http://t.gov/vacancies''"
  let ?b = "''http://t.gov/''"
  let ?rec2 = "dict_set rec_gran_jobs ''platform_detected'' (JStr ''other'')"
  let ?rec3 = "update_record w_jobs (dict_set ?rec2 ''employment_page_type'' (JStr ''page''))
             ?u ''other'' (''rediscovered_from_'' @ ''homepage_link'') 70 ''homepage_link'' 90 ''ok''"
  have n: "normalize_town_website rec_gran_jobs = Inr rec_gran_jobs" by code_simp
  have s: "is_url (dict_get rec_gran_jobs ''Town Website'')" by code_simp
  have p: "detect_platform rec_gran_jobs = Inr ''other''" by code_simp
  have a: "should_attempt rec_gran_jobs" by code_simp
  have b: "py_str (dict_get rec_gran_jobs ''Town Website'') = ?b" by code_simp
  have t: "py_or (dict_get rec_gran_jobs ''Town'') (JStr ''(unknown)'') = JStr ''Tolland''"
    by code_simp
  have sc: "take 40 (score_and_sort ?b (dedupe [] [(?u, ''Current vacancies'', ''homepage_link'')]))
              = [(90, ?u, ''Current vacancies'', ''homepage_link'')]"
    by code_simp
  have soc: "\<not> is_social ?u" by code_simp
  have pdf: "\<not> is_pdf ?u" by code_simp
  have loop: "validate_loop w_jobs ?b [(90, ?u, ''Current vacancies'', ''homepage_link'')]
                (None, None, None) = (Inr (Some (90, ?u, ''homepage_link'', ''ok''), None, None), [?u])"
    using validate_loop_accept_page [OF jobs_validate_vacancies _ soc _ pdf, of 90 "''Current vacancies''"
        "''homepage_link''" "[]" None None None]
    by (simp add: io_return_def)
  have conf: "confidence ?u = Inr 70" by code_simp
  have ty: "employment_page_type ?rec2 ''other'' ?u = Inr ''page''" by code_simp
  have f: "fetch w_jobs ?u = Inr (page ?u 200 vacancy_body)" by (simp add: w_jobs_def)
  have links: "extract_links w_jobs ?u vacancy_body = Inr []" by code_simp
  have fa: "find_application_pdf w_jobs ?u ?b = (Inr (None, ''no_pdf_links''), [?u])"
    using find_application_pdf_no_links [OF f _ vacancy_page_ok _ links] by simp
  have ss: "same_site ?u ?b" by code_simp
  have ra: "refresh_application w_jobs ?rec3 ?u ?b = (Inr ?rec3, [?u])"
    using refresh_application_no_pdf [OF fa, of ?rec3] pdf ss by simp
  have ept: "dict_get ?rec3 ''employment_page_type'' = JStr ''page''"
    by (simp add: dict_get_def map_of_update_record map_of_dict_set)
  have old: "py_or (dict_get ?rec2 ''Employment Page URL'') (JStr '''') = JStr ''http://t.gov/jobs''"
    by code_simp
  have acc: "accept_choice w_jobs ?rec2 (JStr ''Tolland'') ''other'' ?b
               (90, ?u, ''homepage_link'', ''ok'') =
          (Inr (?rec3,
             [(''Town'', JStr ''Tolland''),
              (''action'', JStr ''updated''),
              (''platform'', JStr ''other''),
              (''old_employment_url'', JStr ''http://t.gov/jobs''),
              (''new_employment_url'', JStr ?u),
              (''confidence'', JInt 70),
              (''source'', JStr ''homepage_link''),
              (''employment_page_type'', JStr ''page'')]), [?u])"
    using accept_choice_eval [OF conf ty ra ept, of "JStr ''Tolland''"] old by simp
  have "attempt w_jobs ?rec2 (JStr ''Tolland'') ''other'' ?b =
          (Inr (?rec3,
             [(''Town'', JStr ''Tolland''),
              (''action'', JStr ''updated''),
              (''platform'', JStr ''other''),
              (''old_employment_url'', JStr ''http://t.gov/jobs''),
              (''new_employment_url'', JStr ?u),
              (''confidence'', JInt 70),
              (''source'', JStr ''homepage_link''),
              (''employment_page_type'', JStr ''page'')]), [?b] @ [?u] @ [?u])"
    by (rule attempt_eval [OF jobs_gather_other sc loop _ acc]) simp
  then show ?thesis
    unfolding rediscover_attempts [OF n s p a] b t by simp
qed


end
